(* ===== verification/Prelude.thy ===== *)
theory Prelude
  imports Complex_Main "HOL-Library.Word"
begin

text \<open>
  Shared vocabulary of the development. The C++ programs of the repository manipulate
  objects through raw addresses, \<open>std::unique_ptr\<close>s and placement construction into
  byte buffers. We model the free store (the heap of \<open>new\<close> and \<open>delete\<close>) as an explicit
  map from addresses to cells, together with an allocation limit and two counters that
  record every \<open>new\<close> and every \<open>delete\<close>. Undefined behaviour the code can run into
  (dereferencing a null or dangling pointer, reading an object as the wrong type, using a
  moved-from object, destroying an object twice) is a value of type \<open>fault\<close>, so that a
  function of the model returns \<open>fault + 'a\<close> wherever the C++ code can go wrong.
  Automatic objects (local variables of \<open>main\<close>) are kept in environments
  \<open>var \<Rightarrow> 'a option\<close>, one per component.
\<close>

named_theorems store_simps "unfolding rules of the free-store model"
named_theorems fault_simps "evaluation rules of fault-returning helpers"

type_synonym addr = nat
type_synonym var = string

text \<open>Kinds of undefined behaviour and of compile-time failure.\<close>

datatype fault =
    NullDeref         \<comment> \<open>dereference of a null pointer (a moved-from \<open>unique_ptr\<close>)\<close>
  | Dangling          \<comment> \<open>dereference of an address whose object was destroyed\<close>
  | BadCast           \<comment> \<open>a \<open>static_cast\<close> from \<open>void*\<close> to a type the object does not have\<close>
  | UseAfterMove      \<comment> \<open>use of a moved-from model other than destroying it\<close>
  | DoubleDestroy     \<comment> \<open>\<open>std::destroy_at\<close> on storage that holds no live object\<close>
  | NoObject          \<comment> \<open>a name that denotes no object in the current scope\<close>
  | StaticAssert string  \<comment> \<open>a failed \<open>static_assert\<close>, with its message\<close>
  | BadVariantAccess  \<comment> \<open>\<open>std::get\<close> of an alternative the variant does not hold (an exception)\<close>
  | BadFunctionCall   \<comment> \<open>a call of an empty \<open>std::function\<close> (\<open>std::bad_function_call\<close>)\<close>
  | FloatToIntOverflow \<comment> \<open>a floating-point value converted to an integer type that cannot hold it\<close>
  | InvalidArgument string \<comment> \<open>a thrown \<open>std::invalid_argument\<close>, with its message\<close>
  | SignedOverflow    \<comment> \<open>a signed integer operation whose result is not representable\<close>
  | OutOfBounds       \<comment> \<open>an index past the end of a \<open>std::span\<close> or of a buffer\<close>
  | Indeterminate     \<comment> \<open>a read of an object with indeterminate value (never initialised)\<close>

type_synonym 'a result = "fault + 'a"

text \<open>The free store. \<open>next_addr\<close> is the first address never handed out.\<close>

record 'c store =
  cells :: "addr \<rightharpoonup> 'c"
  next_addr :: addr
  news :: nat
  deletes :: nat

definition empty_store :: "'c store" where
  "empty_store = \<lparr>cells = Map.empty, next_addr = 0, news = 0, deletes = 0\<rparr>"

text \<open>\<open>new T(...)\<close>: a fresh address, counted as one dynamic allocation.\<close>

definition store_new :: "'c \<Rightarrow> 'c store \<Rightarrow> addr \<times> 'c store" where
  "store_new c st =
     (next_addr st, st\<lparr>cells := (cells st)(next_addr st \<mapsto> c), next_addr := Suc (next_addr st), news := Suc (news st)\<rparr>)"

text \<open>An object of automatic storage duration at a fresh address (no dynamic allocation).\<close>

definition store_auto :: "'c \<Rightarrow> 'c store \<Rightarrow> addr \<times> 'c store" where
  "store_auto c st = (next_addr st, st\<lparr>cells := (cells st)(next_addr st \<mapsto> c), next_addr := Suc (next_addr st)\<rparr>)"

text \<open>\<open>delete p\<close>: undefined unless \<open>p\<close> designates a live object.\<close>

definition store_delete :: "addr \<Rightarrow> 'c store \<Rightarrow> 'c store result" where
  "store_delete a st =
     (case cells st a of
        None \<Rightarrow> Inl Dangling
      | Some _ \<Rightarrow> Inr (st\<lparr>cells := (cells st)(a := None), deletes := Suc (deletes st)\<rparr>))"

text \<open>\<open>*p\<close> for a \<open>T*\<close> held in a \<open>unique_ptr\<close>: null and dangling pointers are faults.\<close>

definition deref :: "'c store \<Rightarrow> addr option \<Rightarrow> 'c result" where
  "deref st p =
     (case p of
        None \<Rightarrow> Inl NullDeref
      | Some a \<Rightarrow> (case cells st a of None \<Rightarrow> Inl Dangling | Some c \<Rightarrow> Inr c))"

text \<open>The destructor of a \<open>std::unique_ptr\<close> (and its \<open>reset\<close>): deleting null is a no-op.\<close>

definition unique_release :: "addr option \<Rightarrow> 'c store \<Rightarrow> 'c store result" where
  "unique_release p st = (case p of None \<Rightarrow> Inr st | Some a \<Rightarrow> store_delete a st)"

text \<open>Looking a local variable up.\<close>

definition lookup_var :: "(var \<Rightarrow> 'a option) \<Rightarrow> var \<Rightarrow> 'a result" where
  "lookup_var E x = (case E x of None \<Rightarrow> Inl NoObject | Some s \<Rightarrow> Inr s)"

text \<open>Sequencing of fault-returning computations (the first fault aborts, as UB would).\<close>

definition bind_result :: "'a result \<Rightarrow> ('a \<Rightarrow> 'b result) \<Rightarrow> 'b result" where
  "bind_result m f = (case m of Inl e \<Rightarrow> Inl e | Inr a \<Rightarrow> f a)"

text \<open>A store is well formed when no live object sits at or above the allocation limit.\<close>

definition store_wf :: "'c store \<Rightarrow> bool" where
  "store_wf st \<longleftrightarrow> (\<forall>a\<in>dom (cells st). a < next_addr st)"

text \<open>Every allocation is either still live or has been deleted, once.\<close>

definition store_balanced :: "'c store \<Rightarrow> bool" where
  "store_balanced st \<longleftrightarrow> news st = deletes st + card (dom (cells st))"

declare empty_store_def [store_simps] store_new_def [store_simps]
  store_auto_def [store_simps] store_delete_def [store_simps]
  deref_def [fault_simps] unique_release_def [fault_simps] lookup_var_def [fault_simps]
  bind_result_def [fault_simps]

subsection \<open>Store lemmas\<close>

lemma store_new_fresh:
  "store_wf st \<Longrightarrow> cells st (next_addr st) = None"
  by (auto simp: store_wf_def)

lemma store_new_cells [simp]:
  "cells (snd (store_new c st)) = (cells st)(next_addr st \<mapsto> c)"
  by (simp add: store_new_def)

lemma store_new_addr [simp]:
  "fst (store_new c st) = next_addr st"
  by (simp add: store_new_def)

lemma store_new_counts [simp]:
  "news (snd (store_new c st)) = Suc (news st)"
  "deletes (snd (store_new c st)) = deletes st"
  "next_addr (snd (store_new c st)) = Suc (next_addr st)"
  by (simp_all add: store_new_def)

lemma store_new_wf [intro]:
  "store_wf st \<Longrightarrow> store_wf (snd (store_new c st))"
  unfolding store_wf_def store_new_def by (auto simp: dom_def less_SucI)

lemma store_auto_wf [intro]:
  "store_wf st \<Longrightarrow> store_wf (snd (store_auto c st))"
  unfolding store_wf_def store_auto_def by (auto simp: dom_def less_SucI)

lemma store_delete_Inr:
  "store_delete a st = Inr st' \<longleftrightarrow>
     a \<in> dom (cells st) \<and> st' = st\<lparr>cells := (cells st)(a := None), deletes := Suc (deletes st)\<rparr>"
  by (auto simp: store_delete_def split: option.splits)

lemma store_delete_wf [intro]:
  "store_wf st \<Longrightarrow> store_delete a st = Inr st' \<Longrightarrow> store_wf st'"
  by (auto simp: store_wf_def store_delete_Inr)

lemma store_delete_live:
  "a \<in> dom (cells st) \<Longrightarrow>
     store_delete a st = Inr (st\<lparr>cells := (cells st)(a := None), deletes := Suc (deletes st)\<rparr>)"
  by (auto simp: store_delete_def)

lemma empty_store_wf [simp]: "store_wf empty_store"
  by (simp add: store_wf_def empty_store_def)

lemma store_wf_finite:
  "store_wf st \<Longrightarrow> finite (dom (cells st))"
  by (rule finite_subset [of _ "{..<next_addr st}"]) (auto simp: store_wf_def)

lemma empty_store_balanced [simp]: "store_balanced empty_store"
  by (simp add: store_balanced_def empty_store_def)

lemma store_new_balanced [intro]:
  assumes "store_wf st" and "store_balanced st"
  shows "store_balanced (snd (store_new c st))"
proof -
  have "next_addr st \<notin> dom (cells st)" using store_new_fresh [OF assms(1)] by auto
  then have "card (dom ((cells st)(next_addr st \<mapsto> c))) = Suc (card (dom (cells st)))"
    using store_wf_finite [OF assms(1)] by simp
  with assms(2) show ?thesis by (simp add: store_balanced_def)
qed

lemma store_delete_balanced [intro]:
  assumes "store_wf st" and "store_balanced st" and "store_delete a st = Inr st'"
  shows "store_balanced st'"
proof -
  from assms(3) have a: "a \<in> dom (cells st)"
    and st': "st' = st\<lparr>cells := (cells st)(a := None), deletes := Suc (deletes st)\<rparr>"
    by (auto simp: store_delete_Inr)
  have "card (dom (cells st)) = Suc (card (dom (cells st) - {a}))"
    using card_Suc_Diff1 [OF store_wf_finite [OF assms(1)] a] by simp
  with assms(2) st' show ?thesis by (simp add: store_balanced_def)
qed

lemma unique_release_wf_balanced:
  assumes "store_wf st" and "store_balanced st" and "unique_release p st = Inr st'"
  shows "store_wf st' \<and> store_balanced st'"
  using assms by (cases p) (auto simp: unique_release_def)

lemma bind_result_Inr [simp]: "bind_result (Inr a) f = f a"
  by (simp add: bind_result_def)

lemma bind_result_Inl [simp]: "bind_result (Inl e) f = Inl e"
  by (simp add: bind_result_def)

lemma bind_result_eq_Inr:
  "bind_result m f = Inr b \<longleftrightarrow> (\<exists>a. m = Inr a \<and> f a = Inr b)"
  by (cases m) auto

lemma lookup_var_Inr [simp]:
  "lookup_var E x = Inr s \<longleftrightarrow> E x = Some s"
  by (simp add: lookup_var_def split: option.splits)

lemma lookup_var_Some [simp]:
  "E x = Some s \<Longrightarrow> lookup_var E x = Inr s"
  by (simp add: lookup_var_def)

lemma deref_Some_live:
  "cells st a = Some c \<Longrightarrow> deref st (Some a) = Inr c"
  by (simp add: deref_def)

subsection \<open>Unique ownership of store cells\<close>

text \<open>
  \<open>owns own st\<close>: the partial map \<open>own\<close> from variables to addresses describes who owns
  which cell of \<open>st\<close> (a \<open>unique_ptr\<close> owns its pointee, an inline buffer owns the model
  constructed in it). Every owned address is live, no two variables own the same cell,
  every live cell has an owner, and the counters balance.
\<close>

definition owns :: "(var \<Rightarrow> addr option) \<Rightarrow> 'c store \<Rightarrow> bool" where
  "owns own st \<longleftrightarrow>
     (\<forall>x y a. own x = Some a \<longrightarrow> own y = Some a \<longrightarrow> x = y)
   \<and> (\<forall>x a. own x = Some a \<longrightarrow> a \<in> dom (cells st))
   \<and> (\<forall>a\<in>dom (cells st). \<exists>x. own x = Some a)
   \<and> store_wf st \<and> store_balanced st"

lemma owns_unique: "owns own st \<Longrightarrow> own x = Some a \<Longrightarrow> own y = Some a \<Longrightarrow> x = y"
  unfolding owns_def by blast

lemma owns_live: "owns own st \<Longrightarrow> own x = Some a \<Longrightarrow> a \<in> dom (cells st)"
  unfolding owns_def by blast

lemma owns_owner:
  assumes "owns own st" and "a \<in> dom (cells st)"
  shows "\<exists>x. own x = Some a"
proof -
  from assms(1) have "\<forall>a\<in>dom (cells st). \<exists>x. own x = Some a" by (simp add: owns_def)
  then show ?thesis using assms(2) by blast
qed

lemma owns_wf: "owns own st \<Longrightarrow> store_wf st"
  and owns_balanced: "owns own st \<Longrightarrow> store_balanced st"
  by (simp_all add: owns_def)

lemma owns_init [simp]: "owns (\<lambda>_. None) empty_store"
  by (simp add: owns_def empty_store_def store_wf_def store_balanced_def)

lemma owns_empty:
  assumes "owns (\<lambda>_. None) st"
  shows "cells st = Map.empty \<and> news st = deletes st"
proof -
  have "dom (cells st) = {}" using owns_owner [OF assms] by fastforce
  with owns_balanced [OF assms] show ?thesis by (simp add: store_balanced_def)
qed

text \<open>A variable that owned nothing takes ownership of a freshly allocated cell.\<close>

lemma owns_new:
  assumes own: "owns own st" and x: "own x = None"
  shows "owns (own(x \<mapsto> next_addr st)) (snd (store_new c st))"
proof -
  have wf: "store_wf st" using own by (rule owns_wf)
  have fresh: "next_addr st \<notin> dom (cells st)" using store_new_fresh [OF wf] by auto
  have notown: "own y \<noteq> Some (next_addr st)" for y using owns_live [OF own] fresh by blast
  have "\<forall>y z a. (own(x \<mapsto> next_addr st)) y = Some a \<longrightarrow> (own(x \<mapsto> next_addr st)) z = Some a \<longrightarrow> y = z"
    using owns_unique [OF own] notown by auto
  moreover have "\<forall>y a. (own(x \<mapsto> next_addr st)) y = Some a \<longrightarrow> a \<in> dom (cells (snd (store_new c st)))"
    using owns_live [OF own] by auto
  moreover have "\<forall>a\<in>dom (cells (snd (store_new c st))). \<exists>y. (own(x \<mapsto> next_addr st)) y = Some a"
  proof
    fix a assume "a \<in> dom (cells (snd (store_new c st)))"
    then consider "a = next_addr st" | "a \<in> dom (cells st)" by auto
    then show "\<exists>y. (own(x \<mapsto> next_addr st)) y = Some a"
    proof cases
      case 1
      then show ?thesis by (intro exI [of _ x]) simp
    next
      case 2
      from owns_owner [OF own this] obtain y where "own y = Some a" ..
      moreover from this x have "y \<noteq> x" by auto
      ultimately show ?thesis by (intro exI [of _ y]) simp
    qed
  qed
  moreover have "store_wf (snd (store_new c st))" "store_balanced (snd (store_new c st))"
    using wf owns_balanced [OF own] by blast+
  ultimately show ?thesis unfolding owns_def by blast
qed

text \<open>The owner of a cell deletes it and owns nothing afterwards.\<close>

lemma owns_delete:
  assumes own: "owns own st" and x: "own x = Some a"
  shows "\<exists>st'. store_delete a st = Inr st' \<and> owns (own(x := None)) st'
              \<and> next_addr st' = next_addr st \<and> news st' = news st"
proof -
  let ?st' = "st\<lparr>cells := (cells st)(a := None), deletes := Suc (deletes st)\<rparr>"
  have a: "a \<in> dom (cells st)" using owns_live [OF own x] .
  then have del: "store_delete a st = Inr ?st'" by (rule store_delete_live)
  have only_x: "own y = Some a \<Longrightarrow> y = x" for y using owns_unique [OF own _ x] by blast
  have "\<forall>y z b. (own(x := None)) y = Some b \<longrightarrow> (own(x := None)) z = Some b \<longrightarrow> y = z"
    using owns_unique [OF own] by auto
  moreover have "\<forall>y b. (own(x := None)) y = Some b \<longrightarrow> b \<in> dom (cells ?st')"
    using owns_live [OF own] only_x by auto
  moreover have "\<forall>b\<in>dom (cells ?st'). \<exists>y. (own(x := None)) y = Some b"
  proof
    fix b assume "b \<in> dom (cells ?st')"
    then have "b \<in> dom (cells st)" "b \<noteq> a" by auto
    from owns_owner [OF own this(1)] obtain y where y: "own y = Some b" ..
    with x \<open>b \<noteq> a\<close> have "y \<noteq> x" by auto
    with y show "\<exists>y. (own(x := None)) y = Some b" by (intro exI [of _ y]) simp
  qed
  moreover have "store_wf ?st'" "store_balanced ?st'"
    using del owns_wf [OF own] owns_balanced [OF own] by blast+
  ultimately have "owns (own(x := None)) ?st'" unfolding owns_def by blast
  with del show ?thesis by simp
qed

text \<open>Ownership handed from \<open>y\<close> to \<open>x\<close>, which owned nothing.\<close>

lemma owns_transfer:
  assumes own: "owns own st" and y: "own y = Some a" and x: "own x = None"
  shows "owns (own(y := None, x \<mapsto> a)) st"
proof -
  have xy: "x \<noteq> y" using x y by auto
  have only_y: "own z = Some a \<Longrightarrow> z = y" for z using owns_unique [OF own _ y] by blast
  have "\<forall>z w b. (own(y := None, x \<mapsto> a)) z = Some b \<longrightarrow> (own(y := None, x \<mapsto> a)) w = Some b \<longrightarrow> z = w"
    using owns_unique [OF own] only_y by auto
  moreover have "\<forall>z b. (own(y := None, x \<mapsto> a)) z = Some b \<longrightarrow> b \<in> dom (cells st)"
    using owns_live [OF own] y by auto
  moreover have "\<forall>b\<in>dom (cells st). \<exists>z. (own(y := None, x \<mapsto> a)) z = Some b"
  proof
    fix b assume "b \<in> dom (cells st)"
    from owns_owner [OF own this] obtain z where z: "own z = Some b" ..
    show "\<exists>z. (own(y := None, x \<mapsto> a)) z = Some b"
    proof (cases "z = y")
      case True
      with z y show ?thesis by (intro exI [of _ x]) simp
    next
      case False
      with z x have "z \<noteq> x" by auto
      with False z show ?thesis by (intro exI [of _ z]) simp
    qed
  qed
  moreover have "store_wf st" "store_balanced st" using own by (simp_all add: owns_def)
  ultimately show ?thesis unfolding owns_def by blast
qed

text \<open>Deleting a live cell and allocating a fresh one commute.\<close>

lemma store_delete_store_new:
  assumes "store_wf st" and "store_delete a st = Inr st'"
  shows "store_delete a (snd (store_new c st)) = Inr (snd (store_new c st'))"
  using assms by (auto simp: store_delete_def store_new_def store_wf_def fun_upd_twist split: option.splits)

subsection \<open>The C++ \<open>int\<close>\<close>

text \<open>A C++ \<open>int\<close> is a 32-bit two's complement word read with \<open>sint\<close>. Signed overflow is
  undefined behaviour, so the checked operations return \<open>SignedOverflow\<close> when the
  mathematical result is not representable, and the wrapped word otherwise.\<close>

type_synonym int32 = "32 word"

definition int32_fits :: "int \<Rightarrow> bool" where
  "int32_fits k \<longleftrightarrow> - (2 ^ 31) \<le> k \<and> k < 2 ^ 31"

definition int_add :: "int32 \<Rightarrow> int32 \<Rightarrow> int32 result" where
  "int_add a b = (if int32_fits (sint a + sint b) then Inr (a + b) else Inl SignedOverflow)"

definition int_mul :: "int32 \<Rightarrow> int32 \<Rightarrow> int32 result" where
  "int_mul a b = (if int32_fits (sint a * sint b) then Inr (a * b) else Inl SignedOverflow)"

definition int_sub :: "int32 \<Rightarrow> int32 \<Rightarrow> int32 result" where
  "int_sub a b = (if int32_fits (sint a - sint b) then Inr (a - b) else Inl SignedOverflow)"

lemma sint_int32_fits: "int32_fits (sint (a :: int32))"
  using sint_ge [of a] sint_lt [of a] by (simp add: int32_fits_def)

lemma sint_add_fits: "int32_fits (sint a + sint b) \<Longrightarrow> sint (a + b :: int32) = sint a + sint b"
  by (simp add: int32_fits_def sint_word_ariths signed_take_bit_int_eq_self)

lemma sint_sub_fits: "int32_fits (sint a - sint b) \<Longrightarrow> sint (a - b :: int32) = sint a - sint b"
  by (simp add: int32_fits_def sint_word_ariths signed_take_bit_int_eq_self)

lemma sint_mul_fits: "int32_fits (sint a * sint b) \<Longrightarrow> sint (a * b :: int32) = sint a * sint b"
  by (simp add: int32_fits_def sint_word_ariths signed_take_bit_int_eq_self)

lemma int_add_Inr: "int_add a b = Inr r \<longleftrightarrow> int32_fits (sint a + sint b) \<and> r = a + b"
  and int_sub_Inr: "int_sub a b = Inr r \<longleftrightarrow> int32_fits (sint a - sint b) \<and> r = a - b"
  by (auto simp: int_add_def int_sub_def)

text \<open>Subtracting what was added (and adding what was subtracted) never overflows.\<close>

lemma int_add_sub_cancel: "int_add a b = Inr r \<Longrightarrow> int_sub r b = Inr a"
  by (auto simp: int_add_Inr int_sub_Inr sint_add_fits sint_int32_fits)

lemma int_sub_add_cancel: "int_sub a b = Inr r \<Longrightarrow> int_add r b = Inr a"
  by (auto simp: int_add_Inr int_sub_Inr sint_sub_fits sint_int32_fits)

lemma unsigned_real_nonneg [simp]: "(0::real) \<le> unsigned (w :: 'a::len word)"
  by (metis of_nat_0_le_iff of_nat_unat)

end
