(* ===== verification/Shapes.thy ===== *)
theory Shapes
  imports Prelude
begin

text \<open>
  The concrete value types and draw strategies the examples erase. \<open>Circle\<close> and
  \<open>Square\<close> (the same classes in every guideline file) are immutable holders of one
  \<open>double\<close>; they are modelled as records over \<open>real\<close>, since no example computes with
  the value. The draw strategy of the drivers is the lambda
  \<open>[]( Circle const& c ){ /*...*/ }\<close>; its effect is left open in the source, and is
  modelled by the marker \<open>''drawn''\<close>, so that a trace records one entry per call.
\<close>

record circle =
  radius :: real

record square =
  side :: real

definition circle_drawer :: "circle \<Rightarrow> string" where
  "circle_drawer c = ''drawn''"

end
