(* ===== verification/Box_Spec.thy ===== *)
theory Box_Spec
  imports Shapes
begin

text \<open>
  The abstract contract of an owning type-erasure wrapper (the \<open>Shape\<close> classes of
  Guidelines 32 and 33). A wrapper is a value: it holds one concrete shape and one draw
  strategy (a callable \<open>'v \<Rightarrow> 'e\<close>; its result is the observable effect of drawing), or it
  has been moved from. Programs over wrappers are scripts of the six special member
  functions and \<open>draw\<close>, applied to named local variables, as \<open>main\<close> applies them. A
  step that breaks the contract (use of an undeclared, destroyed or moved-from wrapper
  other than destroying it or assigning to it) has no abstract meaning (\<open>None\<close>);
  every implementation is proved to produce the abstract trace on every script that
  respects the contract.
\<close>

datatype ('v, 'e) box = Holds 'v "'v \<Rightarrow> 'e" | Vacated

datatype ('v, 'e) box_op =
    Construct var 'v "'v \<Rightarrow> 'e"   \<comment> \<open>\<open>Shape x( shape, drawer );\<close>\<close>
  | CopyConstruct var var       \<comment> \<open>\<open>Shape x( y );\<close>\<close>
  | MoveConstruct var var       \<comment> \<open>\<open>Shape x( std::move(y) );\<close>\<close>
  | CopyAssign var var          \<comment> \<open>\<open>x = y;\<close>\<close>
  | MoveAssign var var          \<comment> \<open>\<open>x = std::move(y);\<close>\<close>
  | Draw var                    \<comment> \<open>\<open>draw( x );\<close>\<close>
  | Destroy var                 \<comment> \<open>end of the lifetime of \<open>x\<close>\<close>

type_synonym ('v, 'e) box_env = "var \<Rightarrow> ('v, 'e) box option"

fun box_step :: "('v, 'e) box_env \<Rightarrow> ('v, 'e) box_op \<Rightarrow> (('v, 'e) box_env \<times> 'e list) option" where
  "box_step A (Construct x v d) =
     (if A x = None then Some (A(x \<mapsto> Holds v d), []) else None)"
| "box_step A (CopyConstruct x y) =
     (case A y of
        Some (Holds v d) \<Rightarrow> if A x = None then Some (A(x \<mapsto> Holds v d), []) else None
      | _ \<Rightarrow> None)"
| "box_step A (MoveConstruct x y) =
     (case A y of
        Some (Holds v d) \<Rightarrow> if A x = None then Some (A(y \<mapsto> Vacated, x \<mapsto> Holds v d), []) else None
      | _ \<Rightarrow> None)"
| "box_step A (CopyAssign x y) =
     (case (A x, A y) of
        (Some _, Some (Holds v d)) \<Rightarrow> Some (A(x \<mapsto> Holds v d), [])
      | _ \<Rightarrow> None)"
| "box_step A (MoveAssign x y) =
     (case (A x, A y) of
        (Some _, Some (Holds v d)) \<Rightarrow>
          Some (if x = y then A else A(y \<mapsto> Vacated, x \<mapsto> Holds v d), [])
      | _ \<Rightarrow> None)"
| "box_step A (Draw x) =
     (case A x of Some (Holds v d) \<Rightarrow> Some (A, [d v]) | _ \<Rightarrow> None)"
| "box_step A (Destroy x) =
     (case A x of Some _ \<Rightarrow> Some (A(x := None), []) | None \<Rightarrow> None)"

fun box_run :: "('v, 'e) box_env \<Rightarrow> ('v, 'e) box_op list \<Rightarrow> (('v, 'e) box_env \<times> 'e list) option" where
  "box_run A [] = Some (A, [])"
| "box_run A (p # ps) =
     (case box_step A p of
        None \<Rightarrow> None
      | Some (A', t) \<Rightarrow> (case box_run A' ps of None \<Rightarrow> None | Some (A'', t') \<Rightarrow> Some (A'', t @ t')))"

text \<open>
  The interface between the contract and its implementations: an implementation is a
  step function over its own state (its local variables and whatever memory it uses);
  a script runs it statement by statement, and the first fault aborts the run.
\<close>

fun script_run ::
  "('s \<Rightarrow> ('v, 'e) box_op \<Rightarrow> ('s \<times> 'e list) result) \<Rightarrow> 's \<Rightarrow> ('v, 'e) box_op list \<Rightarrow> ('s \<times> 'e list) result" where
  "script_run step s [] = Inr (s, [])"
| "script_run step s (p # ps) =
     bind_result (step s p) (\<lambda>(s', t).
       bind_result (script_run step s' ps) (\<lambda>(s'', t'). Inr (s'', t @ t')))"

subsection \<open>Lemmas on the abstract contract\<close>

lemma box_run_Cons_Some:
  "box_run A (p # ps) = Some (A'', t) \<longleftrightarrow>
     (\<exists>A' t1 t2. box_step A p = Some (A', t1) \<and> box_run A' ps = Some (A'', t2) \<and> t = t1 @ t2)"
  by (auto split: option.splits)

lemma box_run_append:
  "box_run A (ps @ qs) =
     (case box_run A ps of
        None \<Rightarrow> None
      | Some (A', t) \<Rightarrow> (case box_run A' qs of None \<Rightarrow> None | Some (A'', t') \<Rightarrow> Some (A'', t @ t')))"
  by (induction ps arbitrary: A) (auto split: option.splits)

lemma box_step_Destroy_dom:
  "box_step A (Destroy x) = Some (A', t) \<Longrightarrow> dom A' = dom A - {x}"
  by (auto split: option.splits if_splits)

text \<open>A simulation of single steps is a simulation of whole scripts.\<close>

lemma script_run_refines:
  assumes sim: "\<And>A s p A' t. box_step A p = Some (A', t) \<Longrightarrow> R A s \<Longrightarrow>
                  \<exists>s'. step s p = Inr (s', t) \<and> R A' s'"
  shows "box_run A ps = Some (A', t) \<Longrightarrow> R A s \<Longrightarrow> \<exists>s'. script_run step s ps = Inr (s', t) \<and> R A' s'"
proof (induction ps arbitrary: A s t)
  case Nil
  then show ?case by simp
next
  case (Cons p ps)
  from Cons.prems(1) [unfolded box_run_Cons_Some] obtain A1 t1 t2 where
    s1: "box_step A p = Some (A1, t1)" and r2: "box_run A1 ps = Some (A', t2)" and t: "t = t1 @ t2"
    by blast
  from sim [OF s1 Cons.prems(2)] obtain s1' where c1: "step s p = Inr (s1', t1)" and R1: "R A1 s1'"
    by blast
  from Cons.IH [OF r2 R1] obtain s' where "script_run step s1' ps = Inr (s', t2)" and "R A' s'"
    by blast
  with c1 t show ?case by simp
qed

end
