(* ===== verification/Type_Erasure.thy ===== *)
theory Type_Erasure
  imports Box_Spec
begin

text \<open>
  Guideline 32 (\<open>src/G32_Type_Erasure.cpp\<close>): the owning, heap-backed type-erasure
  wrapper. \<open>detail::OwningShapeModel<ShapeT,DrawStrategy>\<close> holds a shape and a draw
  strategy by value and implements \<open>ShapeConcept\<close> (\<open>draw\<close>, \<open>clone\<close>); \<open>Shape\<close> owns one
  model through \<open>std::unique_ptr<ShapeConcept> pimpl_\<close>. The erased type is the value
  type \<open>'v\<close> of the model; a draw strategy is a callable \<open>'v \<Rightarrow> 'e\<close> whose result is the
  effect of drawing. The models live in the free store of \<open>Prelude\<close>; a \<open>Shape\<close> is its
  \<open>pimpl_\<close>, an optional address (\<open>None\<close> after it has been moved from).
\<close>

datatype ('v, 'e) owning_shape_model = OwningShapeModel 'v "'v \<Rightarrow> 'e"

type_synonym ('v, 'e) model_heap = "('v, 'e) owning_shape_model store"

record heap_shape =
  pimpl :: "addr option"

type_synonym shape_env = "var \<Rightarrow> heap_shape option"

text \<open>\<open>OwningShapeModel::draw\<close>: \<open>drawer_(shape_)\<close>.\<close>

definition model_draw :: "('v, 'e) owning_shape_model \<Rightarrow> 'e" where
  "model_draw m = (case m of OwningShapeModel s d \<Rightarrow> d s)"

text \<open>\<open>OwningShapeModel::clone\<close>: \<open>std::make_unique<OwningShapeModel>( *this )\<close>.\<close>

definition model_clone :: "('v, 'e) owning_shape_model \<Rightarrow> ('v, 'e) model_heap \<Rightarrow> addr \<times> ('v, 'e) model_heap" where
  "model_clone m h = store_new m h"

text \<open>The constructor template \<open>Shape( ShapeT shape, DrawStrategy drawer )\<close>.\<close>

definition shape_construct :: "'v \<Rightarrow> ('v \<Rightarrow> 'e) \<Rightarrow> ('v, 'e) model_heap \<Rightarrow> heap_shape \<times> ('v, 'e) model_heap" where
  "shape_construct s d h = (let (a, h') = store_new (OwningShapeModel s d) h in (\<lparr>pimpl = Some a\<rparr>, h'))"

text \<open>The copy constructor: \<open>pimpl_( other.pimpl_->clone() )\<close>.\<close>

definition shape_copy :: "heap_shape \<Rightarrow> ('v, 'e) model_heap \<Rightarrow> (heap_shape \<times> ('v, 'e) model_heap) result" where
  "shape_copy other h =
     bind_result (deref h (pimpl other)) (\<lambda>m. let (a, h') = model_clone m h in Inr (\<lparr>pimpl = Some a\<rparr>, h'))"

text \<open>\<open>~Shape() = default\<close>: the destructor of \<open>pimpl_\<close>.\<close>

definition shape_destroy :: "heap_shape \<Rightarrow> ('v, 'e) model_heap \<Rightarrow> ('v, 'e) model_heap result" where
  "shape_destroy s h = unique_release (pimpl s) h"

text \<open>
  Copy assignment by copy-and-swap: \<open>Shape copy( other ); pimpl_.swap( copy.pimpl_ );\<close>,
  then \<open>copy\<close>, which now holds the old model, is destroyed at the end of the scope.
  The result is the new value of \<open>*this\<close>.
\<close>

definition shape_copy_assign ::
  "heap_shape \<Rightarrow> heap_shape \<Rightarrow> ('v, 'e) model_heap \<Rightarrow> (heap_shape \<times> ('v, 'e) model_heap) result" where
  "shape_copy_assign this other h =
     bind_result (shape_copy other h) (\<lambda>(copy, h1).
       let this' = this\<lparr>pimpl := pimpl copy\<rparr>; copy' = copy\<lparr>pimpl := pimpl this\<rparr> in
       bind_result (shape_destroy copy' h1) (\<lambda>h2. Inr (this', h2)))"

text \<open>\<open>Shape( Shape&& ) = default\<close>: the new shape takes the pointer, the source is null.\<close>

definition shape_move :: "heap_shape \<Rightarrow> heap_shape \<times> heap_shape" where
  "shape_move other = (\<lparr>pimpl = pimpl other\<rparr>, other\<lparr>pimpl := None\<rparr>)"

text \<open>
  \<open>Shape& operator=( Shape&& ) = default\<close>: the move assignment of \<open>unique_ptr\<close>,
  \<open>reset( other.release() )\<close>. The source and the target may be the same object, so the
  operation acts on the variables: release the source, store the pointer in the target,
  then delete the target's old pointer.
\<close>

definition shape_move_assign ::
  "var \<Rightarrow> var \<Rightarrow> shape_env \<Rightarrow> ('v, 'e) model_heap \<Rightarrow> (shape_env \<times> ('v, 'e) model_heap) result" where
  "shape_move_assign x y E h =
     bind_result (lookup_var E y) (\<lambda>other.
       let p = pimpl other; E1 = E(y \<mapsto> other\<lparr>pimpl := None\<rparr>) in
       bind_result (lookup_var E1 x) (\<lambda>this.
         let old = pimpl this; E2 = E1(x \<mapsto> this\<lparr>pimpl := p\<rparr>) in
         bind_result (unique_release old h) (\<lambda>h'. Inr (E2, h'))))"

text \<open>\<open>friend void draw( Shape const& shape ) { shape.pimpl_->draw(); }\<close>\<close>

definition shape_draw :: "heap_shape \<Rightarrow> ('v, 'e) model_heap \<Rightarrow> 'e result" where
  "shape_draw s h = bind_result (deref h (pimpl s)) (\<lambda>m. Inr (model_draw m))"

subsection \<open>Scripts over heap shapes\<close>

text \<open>One statement of a \<open>main\<close> over \<open>Shape\<close> variables, and a whole script.\<close>

fun heap_step ::
  "shape_env \<times> ('v, 'e) model_heap \<Rightarrow> ('v, 'e) box_op \<Rightarrow> ((shape_env \<times> ('v, 'e) model_heap) \<times> 'e list) result" where
  "heap_step (E, h) (Construct x v d) = (let (s, h') = shape_construct v d h in Inr ((E(x \<mapsto> s), h'), []))"
| "heap_step (E, h) (CopyConstruct x y) =
     bind_result (lookup_var E y) (\<lambda>other.
       bind_result (shape_copy other h) (\<lambda>(s, h'). Inr ((E(x \<mapsto> s), h'), [])))"
| "heap_step (E, h) (MoveConstruct x y) =
     bind_result (lookup_var E y) (\<lambda>other.
       let (s, other') = shape_move other in Inr ((E(y \<mapsto> other', x \<mapsto> s), h), []))"
| "heap_step (E, h) (CopyAssign x y) =
     bind_result (lookup_var E x) (\<lambda>this. bind_result (lookup_var E y) (\<lambda>other.
       bind_result (shape_copy_assign this other h) (\<lambda>(this', h'). Inr ((E(x \<mapsto> this'), h'), []))))"
| "heap_step (E, h) (MoveAssign x y) =
     bind_result (shape_move_assign x y E h) (\<lambda>(E', h'). Inr ((E', h'), []))"
| "heap_step (E, h) (Draw x) =
     bind_result (lookup_var E x) (\<lambda>s. bind_result (shape_draw s h) (\<lambda>e. Inr ((E, h), [e])))"
| "heap_step (E, h) (Destroy x) =
     bind_result (lookup_var E x) (\<lambda>s. bind_result (shape_destroy s h) (\<lambda>h'. Inr ((E(x := None), h'), [])))"

text \<open>
  \<open>main\<close> of the guideline: construct \<open>shape1\<close> from a circle and the drawing lambda,
  draw it, copy-construct \<open>shape2\<close>, draw the copy; at the closing brace the locals
  are destroyed in reverse order of declaration.
\<close>

definition main32 :: "(circle, string) box_op list" where
  "main32 =
     [Construct ''shape1'' \<lparr>radius = 3.14\<rparr> circle_drawer, Draw ''shape1'',
      CopyConstruct ''shape2'' ''shape1'', Draw ''shape2'',
      Destroy ''shape2'', Destroy ''shape1'']"

subsection \<open>The representation invariant\<close>

text \<open>
  How an abstract wrapper is represented: a wrapper that holds \<open>(v, d)\<close> points to a live
  model \<open>OwningShapeModel v d\<close>; a moved-from wrapper is null. The \<open>unique_ptr\<close>s own the
  models in the sense of \<open>owns\<close>: no model has two owners and none is leaked.
\<close>

fun rel_box :: "('v, 'e) model_heap \<Rightarrow> ('v, 'e) box option \<Rightarrow> heap_shape option \<Rightarrow> bool" where
  "rel_box h None s = (s = None)"
| "rel_box h (Some Vacated) s = (s = Some \<lparr>pimpl = None\<rparr>)"
| "rel_box h (Some (Holds v d)) s =
     (\<exists>a. s = Some \<lparr>pimpl = Some a\<rparr> \<and> cells h a = Some (OwningShapeModel v d))"

definition heap_owner :: "shape_env \<Rightarrow> var \<Rightarrow> addr option" where
  "heap_owner E x = (case E x of None \<Rightarrow> None | Some s \<Rightarrow> pimpl s)"

definition heap_rel :: "('v, 'e) box_env \<Rightarrow> shape_env \<Rightarrow> ('v, 'e) model_heap \<Rightarrow> bool" where
  "heap_rel A E h \<longleftrightarrow> (\<forall>x. rel_box h (A x) (E x)) \<and> owns (heap_owner E) h"

subsection \<open>The invariant is kept by every operation\<close>

lemma heap_shape_update_unit [simp]: "(s::heap_shape)\<lparr>pimpl := p\<rparr> = \<lparr>pimpl = p\<rparr>"
  by (cases s) simp

lemma heap_owner_upd [simp]:
  "heap_owner (E(x \<mapsto> s)) = (heap_owner E)(x := pimpl s)"
  "heap_owner (E(x := None)) = (heap_owner E)(x := None)"
  by (simp_all add: heap_owner_def fun_eq_iff)

lemma rel_box_frame:
  assumes "rel_box h b s" and "\<And>a. s = Some \<lparr>pimpl = Some a\<rparr> \<Longrightarrow> cells h' a = cells h a"
  shows "rel_box h' b s"
  using assms by (induction h b s rule: rel_box.induct) auto

lemma heap_rel_var: "heap_rel A E h \<Longrightarrow> rel_box h (A x) (E x)"
  and heap_rel_owns: "heap_rel A E h \<Longrightarrow> owns (heap_owner E) h"
  by (simp_all add: heap_rel_def)

lemma heap_rel_undeclared:
  "heap_rel A E h \<Longrightarrow> A x = None \<Longrightarrow> E x = None"
  using heap_rel_var [of A E h x] by simp

lemma heap_rel_holds:
  "heap_rel A E h \<Longrightarrow> A x = Some (Holds v d) \<Longrightarrow>
     \<exists>a. E x = Some \<lparr>pimpl = Some a\<rparr> \<and> cells h a = Some (OwningShapeModel v d)"
  using heap_rel_var [of A E h x] by simp

lemma heap_rel_vacated:
  "heap_rel A E h \<Longrightarrow> A x = Some Vacated \<Longrightarrow> E x = Some \<lparr>pimpl = None\<rparr>"
  using heap_rel_var [of A E h x] by simp

lemma heap_rel_declared:
  assumes "heap_rel A E h" and "A x = Some b"
  shows "\<exists>s. E x = Some s"
  using heap_rel_var [OF assms(1), of x] assms(2) by (cases b) auto

lemma heap_rel_unowned:
  "heap_rel A E h \<Longrightarrow> A x = None \<or> A x = Some Vacated \<Longrightarrow> heap_owner E x = None"
  using heap_rel_undeclared heap_rel_vacated by (fastforce simp: heap_owner_def)

lemma heap_rel_wf: "heap_rel A E h \<Longrightarrow> store_wf h"
  using heap_rel_owns owns_wf by blast

text \<open>The models of the other variables do not move when one variable's cell changes.\<close>

lemma heap_rel_frame:
  assumes rel: "heap_rel A E h" and y: "y \<noteq> x"
    and keep: "\<And>a. heap_owner E y = Some a \<Longrightarrow> cells h' a = cells h a"
  shows "rel_box h' (A y) (E y)"
  using heap_rel_var [OF rel, of y] by (rule rel_box_frame) (use keep in \<open>auto simp: heap_owner_def\<close>)

text \<open>Installing a fresh model for a variable that owned nothing.\<close>

lemma heap_rel_new:
  assumes rel: "heap_rel A E h" and free: "A x = None \<or> A x = Some Vacated"
  shows "heap_rel (A(x \<mapsto> Holds v d)) (E(x \<mapsto> \<lparr>pimpl = Some (next_addr h)\<rparr>))
           (snd (store_new (OwningShapeModel v d) h))"
proof -
  have own: "owns (heap_owner E) h" using rel by (rule heap_rel_owns)
  have ox: "heap_owner E x = None" using rel free by (rule heap_rel_unowned)
  have fresh: "next_addr h \<notin> dom (cells h)" using store_new_fresh [OF owns_wf [OF own]] by auto
  have "rel_box (snd (store_new (OwningShapeModel v d) h)) ((A(x \<mapsto> Holds v d)) y)
          ((E(x \<mapsto> \<lparr>pimpl = Some (next_addr h)\<rparr>)) y)" for y
  proof (cases "y = x")
    case False
    then have "rel_box (snd (store_new (OwningShapeModel v d) h)) (A y) (E y)"
      by (rule heap_rel_frame [OF rel]) (use owns_live [OF own] fresh in auto)
    with False show ?thesis by simp
  qed simp
  moreover have "owns (heap_owner (E(x \<mapsto> \<lparr>pimpl = Some (next_addr h)\<rparr>))) (snd (store_new (OwningShapeModel v d) h))"
    using owns_new [OF own ox] by simp
  ultimately show ?thesis by (simp add: heap_rel_def)
qed

text \<open>Handing the model of \<open>y\<close> over to \<open>x\<close>, which owned nothing.\<close>

lemma heap_rel_transfer:
  assumes rel: "heap_rel A E h" and y: "E y = Some \<lparr>pimpl = Some a\<rparr>" "A y = Some (Holds v d)"
    and xy: "x \<noteq> y" and free: "A x = None \<or> A x = Some Vacated"
  shows "heap_rel (A(y \<mapsto> Vacated, x \<mapsto> Holds v d)) (E(y \<mapsto> \<lparr>pimpl = None\<rparr>, x \<mapsto> \<lparr>pimpl = Some a\<rparr>)) h"
proof -
  have own: "owns (heap_owner E) h" using rel by (rule heap_rel_owns)
  have ox: "heap_owner E x = None" using rel free by (rule heap_rel_unowned)
  have oy: "heap_owner E y = Some a" using y(1) by (simp add: heap_owner_def)
  have "rel_box h ((A(y \<mapsto> Vacated, x \<mapsto> Holds v d)) z) ((E(y \<mapsto> \<lparr>pimpl = None\<rparr>, x \<mapsto> \<lparr>pimpl = Some a\<rparr>)) z)" for z
    using heap_rel_var [OF rel, of z] heap_rel_var [OF rel, of y] y xy by auto
  moreover have "owns ((heap_owner E)(y := None, x \<mapsto> a)) h"
    using owns_transfer [OF own oy ox] .
  ultimately show ?thesis using xy by (simp add: heap_rel_def)
qed

text \<open>Releasing what \<open>x\<close> owns (the destructor of its \<open>unique_ptr\<close>) leaves it moved-from.\<close>

lemma heap_rel_release:
  assumes rel: "heap_rel A E h" and x: "E x = Some s" "A x \<noteq> None"
  shows "\<exists>h'. unique_release (pimpl s) h = Inr h' \<and> heap_rel (A(x \<mapsto> Vacated)) (E(x \<mapsto> \<lparr>pimpl = None\<rparr>)) h'
            \<and> next_addr h' = next_addr h \<and> news h' = news h"
proof (cases "pimpl s")
  case None
  have "A x = Some Vacated"
    using heap_rel_var [OF rel, of x] x None by (cases "A x" rule: option.exhaust; cases "the (A x)") auto
  moreover from None x have "E x = Some \<lparr>pimpl = None\<rparr>" by (cases s) simp
  ultimately show ?thesis using rel None by (simp add: unique_release_def fun_upd_idem)
next
  case (Some b)
  have own: "owns (heap_owner E) h" using rel by (rule heap_rel_owns)
  have ox: "heap_owner E x = Some b" using x(1) Some by (simp add: heap_owner_def)
  from owns_delete [OF own ox] obtain h' where del: "store_delete b h = Inr h'"
    and own': "owns ((heap_owner E)(x := None)) h'" and h': "next_addr h' = next_addr h" "news h' = news h" by blast
  have cells': "cells h' = (cells h)(b := None)" using del by (auto simp: store_delete_Inr)
  have "rel_box h' ((A(x \<mapsto> Vacated)) z) ((E(x \<mapsto> \<lparr>pimpl = None\<rparr>)) z)" for z
  proof (cases "z = x")
    case False
    then have "rel_box h' (A z) (E z)"
      by (rule heap_rel_frame [OF rel]) (use owns_unique [OF own _ ox] False cells' in auto)
    with False show ?thesis by simp
  qed simp
  with own' del Some h' show ?thesis by (simp add: heap_rel_def unique_release_def)
qed

lemma heap_rel_drop:
  assumes rel: "heap_rel A E h" and x: "A x = Some Vacated"
  shows "heap_rel (A(x := None)) (E(x := None)) h"
proof -
  have "heap_owner E x = None" using rel x by (simp add: heap_rel_unowned)
  then have "(heap_owner E)(x := None) = heap_owner E" by auto
  then show ?thesis using rel by (simp add: heap_rel_def)
qed

lemma unique_release_store_new:
  assumes "store_wf h" and "unique_release p h = Inr h'"
  shows "unique_release p (snd (store_new c h)) = Inr (snd (store_new c h'))"
  using assms store_delete_store_new by (cases p) (auto simp: unique_release_def)

lemma unique_release_lim:
  "unique_release p h = Inr h' \<Longrightarrow> next_addr h' = next_addr h"
  by (cases p) (auto simp: unique_release_def store_delete_def split: option.splits)

lemma shape_construct_eq:
  "shape_construct s d h = (\<lparr>pimpl = Some (next_addr h)\<rparr>, snd (store_new (OwningShapeModel s d) h))"
  by (simp add: shape_construct_def store_new_def)

lemma shape_copy_live:
  "cells h a = Some m \<Longrightarrow> shape_copy \<lparr>pimpl = Some a\<rparr> h = Inr (\<lparr>pimpl = Some (next_addr h)\<rparr>, snd (store_new m h))"
  by (simp add: shape_copy_def deref_def model_clone_def store_new_def)

lemma heap_step_sim:
  assumes step: "box_step A p = Some (A', t)" and rel: "heap_rel A E h"
  shows "\<exists>E' h'. heap_step (E, h) p = Inr ((E', h'), t) \<and> heap_rel A' E' h'"
proof (cases p)
  case (Construct x v d)
  with step have "A x = None" "A' = A(x \<mapsto> Holds v d)" "t = []" by (auto split: if_splits)
  with heap_rel_new [OF rel] Construct show ?thesis by (simp add: shape_construct_eq)
next
  case (CopyConstruct x y)
  with step obtain v d where y: "A y = Some (Holds v d)" and x: "A x = None"
    and A': "A' = A(x \<mapsto> Holds v d)" and t: "t = []"
    by (auto split: option.splits box.splits if_splits)
  from heap_rel_holds [OF rel y] obtain a where
    "E y = Some \<lparr>pimpl = Some a\<rparr>" "cells h a = Some (OwningShapeModel v d)" by blast
  with heap_rel_new [OF rel] x A' t CopyConstruct show ?thesis by (simp add: shape_copy_live lookup_var_def)
next
  case (MoveConstruct x y)
  with step obtain v d where y: "A y = Some (Holds v d)" and x: "A x = None"
    and A': "A' = A(y \<mapsto> Vacated, x \<mapsto> Holds v d)" and t: "t = []"
    by (auto split: option.splits box.splits if_splits)
  from heap_rel_holds [OF rel y] obtain a where Ey: "E y = Some \<lparr>pimpl = Some a\<rparr>" by blast
  from x y have "x \<noteq> y" by auto
  with heap_rel_transfer [OF rel Ey y] x A' t MoveConstruct Ey show ?thesis
    by (simp add: shape_move_def lookup_var_def)
next
  case (CopyAssign x y)
  with step obtain v d b where y: "A y = Some (Holds v d)" and x: "A x = Some b"
    and A': "A' = A(x \<mapsto> Holds v d)" and t: "t = []"
    by (auto split: option.splits box.splits)
  from heap_rel_holds [OF rel y] obtain a where
    Ey: "E y = Some \<lparr>pimpl = Some a\<rparr>" and ca: "cells h a = Some (OwningShapeModel v d)" by blast
  from heap_rel_declared [OF rel] x obtain s where Ex: "E x = Some s" by blast
  from heap_rel_release [OF rel Ex] x obtain h' where
    rh: "unique_release (pimpl s) h = Inr h'" and rel1: "heap_rel (A(x \<mapsto> Vacated)) (E(x \<mapsto> \<lparr>pimpl = None\<rparr>)) h'"
    by auto
  have "heap_rel ((A(x \<mapsto> Vacated))(x \<mapsto> Holds v d)) ((E(x \<mapsto> \<lparr>pimpl = None\<rparr>))(x \<mapsto> \<lparr>pimpl = Some (next_addr h')\<rparr>))
          (snd (store_new (OwningShapeModel v d) h'))"
    using heap_rel_new [OF rel1, of x v d] by simp
  moreover have "unique_release (pimpl s) (snd (store_new (OwningShapeModel v d) h)) =
                   Inr (snd (store_new (OwningShapeModel v d) h'))"
    using unique_release_store_new [OF heap_rel_wf [OF rel] rh] .
  ultimately show ?thesis using CopyAssign Ex Ey ca A' t unique_release_lim [OF rh]
    by (simp add: shape_copy_assign_def shape_copy_live shape_destroy_def)
next
  case (MoveAssign x y)
  with step obtain v d b where y: "A y = Some (Holds v d)" and x: "A x = Some b"
    and A': "A' = (if x = y then A else A(y \<mapsto> Vacated, x \<mapsto> Holds v d))" and t: "t = []"
    by (auto split: option.splits box.splits)
  from heap_rel_holds [OF rel y] obtain a where Ey: "E y = Some \<lparr>pimpl = Some a\<rparr>" by blast
  show ?thesis
  proof (cases "x = y")
    case True
    with rel Ey A' t MoveAssign show ?thesis
      by (simp add: shape_move_assign_def unique_release_def fun_upd_idem)
  next
    case False
    from heap_rel_declared [OF rel] x obtain s where Ex: "E x = Some s" by blast
    from heap_rel_release [OF rel Ex] x obtain h' where
      rh: "unique_release (pimpl s) h = Inr h'" and rel1: "heap_rel (A(x \<mapsto> Vacated)) (E(x \<mapsto> \<lparr>pimpl = None\<rparr>)) h'"
      by auto
    have "heap_rel ((A(x \<mapsto> Vacated))(y \<mapsto> Vacated, x \<mapsto> Holds v d))
                   ((E(x \<mapsto> \<lparr>pimpl = None\<rparr>))(y \<mapsto> \<lparr>pimpl = None\<rparr>, x \<mapsto> \<lparr>pimpl = Some a\<rparr>)) h'"
      by (rule heap_rel_transfer [OF rel1]) (use Ey y False in simp_all)
    with False have "heap_rel A' (E(y \<mapsto> \<lparr>pimpl = None\<rparr>, x \<mapsto> \<lparr>pimpl = Some a\<rparr>)) h'"
      by (simp add: A' fun_upd_twist)
    with rh Ex Ey False t MoveAssign show ?thesis
      by (simp add: shape_move_assign_def)
  qed
next
  case (Draw x)
  with step obtain v d where x: "A x = Some (Holds v d)" and A': "A' = A" and t: "t = [d v]"
    by (auto split: option.splits box.splits)
  from heap_rel_holds [OF rel x] obtain a where
    "E x = Some \<lparr>pimpl = Some a\<rparr>" "cells h a = Some (OwningShapeModel v d)" by blast
  with rel A' t Draw show ?thesis by (simp add: shape_draw_def deref_def model_draw_def)
next
  case (Destroy x)
  with step obtain b where x: "A x = Some b" and A': "A' = A(x := None)" and t: "t = []"
    by (auto split: option.splits)
  from heap_rel_declared [OF rel] x obtain s where Ex: "E x = Some s" by blast
  from heap_rel_release [OF rel Ex] x obtain h' where
    rh: "unique_release (pimpl s) h = Inr h'" and rel1: "heap_rel (A(x \<mapsto> Vacated)) (E(x \<mapsto> \<lparr>pimpl = None\<rparr>)) h'"
    by auto
  from heap_rel_drop [OF rel1, of x] have "heap_rel (A(x := None)) (E(x := None)) h'" by simp
  with rh Ex A' t Destroy show ?thesis by (simp add: shape_destroy_def)
qed

lemma heap_run_sim:
  "box_run A ps = Some (A', t) \<Longrightarrow> heap_rel A E h \<Longrightarrow>
     \<exists>E' h'. script_run heap_step (E, h) ps = Inr ((E', h'), t) \<and> heap_rel A' E' h'"
  using script_run_refines [where R = "\<lambda>A (E, h). heap_rel A E h" and step = heap_step,
      of A ps A' t "(E, h)"] heap_step_sim by fastforce

subsection \<open>Properties of the heap-backed wrapper\<close>

lemma heap_owner_empty [simp]: "heap_owner Map.empty = (\<lambda>_. None)"
  by (simp add: heap_owner_def fun_eq_iff)

lemma heap_rel_init: "heap_rel Map.empty Map.empty empty_store"
  by (simp add: heap_rel_def)

lemma heap_rel_empty_env:
  assumes "heap_rel Map.empty E h"
  shows "E = Map.empty \<and> cells h = Map.empty \<and> news h = deletes h"
proof -
  have E: "E = Map.empty" using heap_rel_undeclared [OF assms] by auto
  with heap_rel_owns [OF assms] owns_empty show ?thesis by fastforce
qed

text \<open>C1: the heap-backed wrapper implements the value contract. On every script of
  constructions, copies, moves, assignments, draws and destructions that respects the
  contract, the implementation runs without undefined behaviour, produces exactly the
  abstract trace of draw effects, and ends in a state related to the abstract one.\<close>

theorem heap_shape_refines_box:
  assumes "box_run Map.empty ps = Some (A, t)"
  shows "\<exists>E h. script_run heap_step (Map.empty, empty_store) ps = Inr ((E, h), t) \<and> heap_rel A E h"
  using heap_run_sim [OF assms heap_rel_init] .

text \<open>C2: when a contract-respecting script ends with every wrapper destroyed, the free
  store is empty and there were exactly as many \<open>delete\<close>s as \<open>new\<close>s: every model is
  released exactly once.\<close>

theorem heap_shape_no_leak:
  assumes "box_run Map.empty ps = Some (Map.empty, t)"
    and "script_run heap_step (Map.empty, empty_store) ps = Inr ((E, h), t')"
  shows "t' = t \<and> E = Map.empty \<and> cells h = Map.empty \<and> news h = deletes h"
proof -
  from heap_run_sim [OF assms(1) heap_rel_init] obtain E0 h0 where
    "script_run heap_step (Map.empty, empty_store) ps = Inr ((E0, h0), t)" and rel: "heap_rel Map.empty E0 h0" by blast
  with assms(2) have "E = E0" "h = h0" "t' = t" by simp_all
  with heap_rel_empty_env [OF rel] show ?thesis by simp
qed

lemma shape_copy_live_new:
  assumes "store_wf h" and "cells h a = Some m"
  shows "shape_copy \<lparr>pimpl = Some a\<rparr> h = Inr (\<lparr>pimpl = Some (next_addr h)\<rparr>, snd (store_new m h))"
    and "next_addr h \<noteq> a"
  using assms by (auto simp: shape_copy_live store_wf_def)

text \<open>C3: a copy is deep. It owns a new model, and it draws as the original did even
  after the original has been destroyed.\<close>

theorem shape_copy_deep:
  assumes "store_wf h" and "cells h a = Some m"
  shows "\<exists>c h' h''. shape_copy \<lparr>pimpl = Some a\<rparr> h = Inr (c, h') \<and> pimpl c \<noteq> Some a
           \<and> shape_destroy \<lparr>pimpl = Some a\<rparr> h' = Inr h'' \<and> shape_draw c h'' = Inr (model_draw m)"
proof -
  note copy = shape_copy_live_new [OF assms]
  let ?h' = "snd (store_new m h)"
  have "cells ?h' a = Some m" using copy(2) assms(2) by simp
  then have "shape_destroy \<lparr>pimpl = Some a\<rparr> ?h' =
               Inr (?h'\<lparr>cells := (cells ?h')(a := None), deletes := Suc (deletes ?h')\<rparr>)"
    by (simp add: shape_destroy_def unique_release_def store_delete_def)
  with copy show ?thesis by (simp add: shape_draw_def deref_def)
qed

theorem shape_copy_deep_witness:
  "store_wf (snd (store_new (OwningShapeModel \<lparr>radius = 3.14\<rparr> circle_drawer) empty_store))
   \<and> cells (snd (store_new (OwningShapeModel \<lparr>radius = 3.14\<rparr> circle_drawer) empty_store)) 0
       = Some (OwningShapeModel \<lparr>radius = 3.14\<rparr> circle_drawer)
   \<and> (\<exists>c h' h''. shape_copy \<lparr>pimpl = Some 0\<rparr> (snd (store_new (OwningShapeModel \<lparr>radius = 3.14\<rparr> circle_drawer) empty_store)) = Inr (c, h')
        \<and> pimpl c \<noteq> Some 0 \<and> shape_destroy \<lparr>pimpl = Some 0\<rparr> h' = Inr h''
        \<and> shape_draw c h'' = Inr ''drawn'')"
proof -
  let ?h = "snd (store_new (OwningShapeModel \<lparr>radius = 3.14\<rparr> circle_drawer) empty_store)"
  have wf: "store_wf ?h" by (rule store_new_wf) simp
  have c0: "cells ?h 0 = Some (OwningShapeModel \<lparr>radius = 3.14\<rparr> circle_drawer)"
    by (simp add: empty_store_def)
  show ?thesis using shape_copy_deep [OF wf c0] wf c0
    by (simp add: model_draw_def circle_drawer_def)
qed

text \<open>C4: a moved-from wrapper is in a destroy-only state: drawing it or copying it
  dereferences the null \<open>pimpl_\<close>, destroying it releases nothing.\<close>

theorem shape_moved_from_destroy_only:
  "shape_draw (snd (shape_move s)) h = Inl NullDeref
   \<and> shape_copy (snd (shape_move s)) h = Inl NullDeref
   \<and> shape_destroy (snd (shape_move s)) h = Inr h"
  by (simp add: shape_move_def shape_draw_def shape_copy_def shape_destroy_def deref_def unique_release_def)

text \<open>C5: copy-and-swap makes self-assignment safe: the wrapper ends with a fresh copy of
  its own model, and the old model is released.\<close>

theorem shape_copy_assign_self:
  assumes "store_wf h" and "cells h a = Some m"
  shows "\<exists>s' h'. shape_copy_assign \<lparr>pimpl = Some a\<rparr> \<lparr>pimpl = Some a\<rparr> h = Inr (s', h')
           \<and> shape_draw s' h' = Inr (model_draw m) \<and> cells h' a = None"
proof -
  note copy = shape_copy_live_new [OF assms]
  let ?h' = "snd (store_new m h)"
  have "cells ?h' a = Some m" using copy(2) assms(2) by simp
  then have "shape_destroy \<lparr>pimpl = Some a\<rparr> ?h' =
               Inr (?h'\<lparr>cells := (cells ?h')(a := None), deletes := Suc (deletes ?h')\<rparr>)"
    by (simp add: shape_destroy_def unique_release_def store_delete_def)
  with copy show ?thesis by (simp add: shape_copy_assign_def shape_draw_def deref_def)
qed

theorem shape_copy_assign_self_witness:
  "\<exists>s' h'. shape_copy_assign \<lparr>pimpl = Some 0\<rparr> \<lparr>pimpl = Some 0\<rparr>
             (snd (store_new (OwningShapeModel \<lparr>radius = 3.14\<rparr> circle_drawer) empty_store)) = Inr (s', h')
           \<and> shape_draw s' h' = Inr ''drawn'' \<and> cells h' 0 = None"
proof -
  let ?h = "snd (store_new (OwningShapeModel \<lparr>radius = 3.14\<rparr> circle_drawer) empty_store)"
  have wf: "store_wf ?h" by (rule store_new_wf) simp
  have c0: "cells ?h 0 = Some (OwningShapeModel \<lparr>radius = 3.14\<rparr> circle_drawer)"
    by (simp add: empty_store_def)
  show ?thesis using shape_copy_assign_self [OF wf c0]
    by (simp add: model_draw_def circle_drawer_def)
qed

text \<open>C1 and C2 at the guideline's own \<open>main\<close>.\<close>

lemma main32_box_run:
  "box_run Map.empty main32 = Some (Map.empty, [''drawn'', ''drawn''])"
  by (simp add: main32_def circle_drawer_def fun_upd_twist)

lemma main32_heap_run:
  "script_run heap_step (Map.empty, empty_store) main32 =
     Inr ((Map.empty, empty_store\<lparr>next_addr := 2, news := 2, deletes := 2\<rparr>), [''drawn'', ''drawn''])"
  by (simp add: main32_def circle_drawer_def shape_construct_def shape_copy_def shape_draw_def
      shape_destroy_def model_clone_def model_draw_def store_simps fault_simps fun_upd_twist)

theorem heap_shape_refines_box_witness:
  "box_run Map.empty main32 = Some (Map.empty, [''drawn'', ''drawn''])
   \<and> (\<exists>E h. script_run heap_step (Map.empty, empty_store) main32 = Inr ((E, h), [''drawn'', ''drawn''])
          \<and> heap_rel Map.empty E h)"
  using main32_box_run heap_shape_refines_box [OF main32_box_run] by simp

theorem heap_shape_no_leak_witness:
  "box_run Map.empty main32 = Some (Map.empty, [''drawn'', ''drawn''])
   \<and> script_run heap_step (Map.empty, empty_store) main32 =
       Inr ((Map.empty, empty_store\<lparr>next_addr := 2, news := 2, deletes := 2\<rparr>), [''drawn'', ''drawn''])
   \<and> cells (empty_store\<lparr>next_addr := 2, news := 2, deletes := 2\<rparr> :: (circle, string) model_heap) = Map.empty
   \<and> news (empty_store\<lparr>next_addr := 2, news := 2, deletes := 2\<rparr> :: (circle, string) model_heap)
       = deletes (empty_store\<lparr>next_addr := 2, news := 2, deletes := 2\<rparr> :: (circle, string) model_heap)"
  using main32_box_run main32_heap_run heap_shape_no_leak [OF main32_box_run main32_heap_run] by simp

end
