(* ===== verification/Layout.thy ===== *)
theory Layout
  imports Prelude
begin

text \<open>
  Object layout as the Itanium C++ ABI (x86-64, LP64) computes it, for the
  \<open>sizeof\<close>/\<open>alignof\<close> checks of the small-buffer wrappers (Guideline 33) and of
  \<open>ShapeConstRef\<close> (Guideline 34). A class is laid out as its members in declaration
  order, each at the next offset that is a multiple of its alignment; the alignment of
  the class is the largest member alignment (at least 1) and its size is the end of the
  last member rounded up to that alignment. A polymorphic class starts with a vtable
  pointer. These are rules of the language, not code of the repository.
\<close>

record layout =
  lsize :: nat
  lalign :: nat

definition round_up :: "nat \<Rightarrow> nat \<Rightarrow> nat" where
  "round_up n a = (if a = 0 then n else (n + a - 1) div a * a)"

fun place_members :: "nat \<Rightarrow> layout list \<Rightarrow> nat" where
  "place_members off [] = off"
| "place_members off (m # ms) = place_members (round_up off (lalign m) + lsize m) ms"

definition struct_layout :: "layout list \<Rightarrow> layout" where
  "struct_layout ms =
     (let al = fold max (map lalign ms) 1 in \<lparr>lsize = round_up (place_members 0 ms) al, lalign = al\<rparr>)"

text \<open>\<open>sizeof(void*) = alignof(void*) = 8\<close>; the vtable pointer has the same layout.\<close>

definition pointer_layout :: layout where
  "pointer_layout = \<lparr>lsize = 8, lalign = 8\<rparr>"

text \<open>\<open>double\<close> and a captureless lambda (an empty class: size 1, alignment 1).\<close>

definition double_layout :: layout where
  "double_layout = \<lparr>lsize = 8, lalign = 8\<rparr>"

definition empty_class_layout :: layout where
  "empty_class_layout = \<lparr>lsize = 1, lalign = 1\<rparr>"

subsection \<open>Facts about layouts\<close>

lemma round_up_ge: "n \<le> round_up n a"
proof (cases "a = 0")
  case False
  have eq: "(n + a - 1) div a * a = (n + a - 1) - (n + a - 1) mod a"
    by (simp add: minus_mod_eq_div_mult)
  have "(n + a - 1) mod a < a" using False by simp
  with eq False show ?thesis by (simp add: round_up_def)
qed (simp add: round_up_def)

lemma round_up_dvd: "0 < a \<Longrightarrow> a dvd round_up n a"
  by (simp add: round_up_def)

lemma place_members_ge: "off + sum_list (map lsize ms) \<le> place_members off ms"
proof (induction ms arbitrary: off)
  case (Cons m ms)
  have "round_up off (lalign m) + lsize m + sum_list (map lsize ms)
          \<le> place_members (round_up off (lalign m) + lsize m) ms" by (rule Cons.IH)
  moreover have "off \<le> round_up off (lalign m)" by (rule round_up_ge)
  ultimately show ?case by simp
qed simp

lemma fold_max_ge_init: "(b::nat) \<le> fold max xs b"
proof (induction xs arbitrary: b)
  case (Cons a xs)
  have "max a b \<le> fold max xs (max a b)" by (rule Cons.IH)
  then show ?case using max.cobounded2 [of b a] by simp
qed simp

lemma fold_max_ge_member: "(x::nat) \<in> set xs \<Longrightarrow> x \<le> fold max xs b"
proof (induction xs arbitrary: b)
  case (Cons y ys)
  show ?case
  proof (cases "x = y")
    case True
    have "max y b \<le> fold max ys (max y b)" by (rule fold_max_ge_init)
    with True show ?thesis using max.cobounded1 [of y b] by simp
  next
    case False
    with Cons show ?thesis by simp
  qed
qed simp

lemma struct_layout_align_pos: "0 < lalign (struct_layout ms)"
  using fold_max_ge_init [of 1 "map lalign ms"] by (simp add: struct_layout_def Let_def)

text \<open>The members fit: a class is at least as large as its members together.\<close>

lemma struct_layout_size_ge: "sum_list (map lsize ms) \<le> lsize (struct_layout ms)"
  using place_members_ge [of 0 ms] round_up_ge [of "place_members 0 ms" "fold max (map lalign ms) 1"]
  by (simp add: struct_layout_def Let_def)

lemma struct_layout_align_ge: "m \<in> set ms \<Longrightarrow> lalign m \<le> lalign (struct_layout ms)"
  using fold_max_ge_member [of "lalign m" "map lalign ms" 1] by (simp add: struct_layout_def Let_def)

lemma struct_layout_dvd: "lalign (struct_layout ms) dvd lsize (struct_layout ms)"
  using struct_layout_align_pos [of ms] by (simp add: struct_layout_def Let_def round_up_dvd)

end
