(* ===== verification/Small_Buffer.thy ===== *)
theory Small_Buffer
  imports Box_Spec Layout
begin

text \<open>
  Guideline 33 (\<open>src/G33_Small_Buffer_Optimization.cpp\<close>): the owning wrapper
  \<open>Shape<Capacity,Alignment>\<close> that places its model in an inline byte buffer
  \<open>alignas(Alignment) std::array<std::byte,Capacity> buffer_\<close> instead of the heap.
  The constructor checks with two \<open>static_assert\<close>s that \<open>OwningModel<ShapeT,DrawStrategy>\<close>
  fits the buffer; copying and moving ask the source model to \<open>clone\<close> or \<open>move\<close> itself
  into the target's buffer with \<open>std::construct_at\<close>; the destructor ends the model's
  lifetime with \<open>std::destroy_at\<close>.

  The buffer is modelled by what it holds: no object (\<open>Raw\<close>), a live model, or a model
  that has been moved from (\<open>Relocated\<close>, valid only for destruction). Every model
  object constructed in a buffer carries an identity, and a ghost store of type
  \<open>unit store\<close> (the \<open>lifetimes\<close>) records which identities are alive: \<open>construct_at\<close>
  allocates one, \<open>destroy_at\<close> deletes one, and ending a lifetime that is not running is
  the fault \<open>DoubleDestroy\<close>. The ghost store is never consulted by the operations; it
  only makes "every model is destroyed exactly once" a statement about the model.
  \<open>Capacity\<close> and \<open>Alignment\<close> are template parameters: they are arguments of the
  constructor, together with the layouts of \<open>ShapeT\<close> and \<open>DrawStrategy\<close>.
\<close>

datatype ('v, 'e) owning_model = OwningModel 'v "'v \<Rightarrow> 'e"

datatype ('v, 'e) buffer = Raw | Live addr "('v, 'e) owning_model" | Relocated addr

record ('v, 'e) sbo_shape =
  buffer :: "('v, 'e) buffer"

type_synonym lifetimes = "unit store"

type_synonym ('v, 'e) sbo_env = "var \<Rightarrow> ('v, 'e) sbo_shape option"

text \<open>\<open>OwningModel<ShapeT,DrawStrategy>\<close> derives from the polymorphic \<open>Concept\<close> (a vtable
  pointer) and holds \<open>shape_\<close> and \<open>drawer_\<close>.\<close>

definition owning_model_layout :: "layout \<Rightarrow> layout \<Rightarrow> layout" where
  "owning_model_layout ls ld = struct_layout [pointer_layout, ls, ld]"

text \<open>\<open>OwningModel::draw\<close>: \<open>drawer_( shape_ )\<close>.\<close>

definition sbo_model_draw :: "('v, 'e) owning_model \<Rightarrow> 'e" where
  "sbo_model_draw m = (case m of OwningModel s d \<Rightarrow> d s)"

text \<open>\<open>std::construct_at\<close> of a model in a buffer, and \<open>std::destroy_at\<close> of a model.\<close>

definition begin_lifetime :: "('v, 'e) owning_model \<Rightarrow> lifetimes \<Rightarrow> ('v, 'e) buffer \<times> lifetimes" where
  "begin_lifetime m L = (let (i, L') = store_new () L in (Live i m, L'))"

definition end_lifetime :: "addr \<Rightarrow> lifetimes \<Rightarrow> lifetimes result" where
  "end_lifetime i L = (case store_delete i L of Inl _ \<Rightarrow> Inl DoubleDestroy | Inr L' \<Rightarrow> Inr L')"

text \<open>\<open>OwningModel::clone( Concept* memory )\<close>: \<open>std::construct_at( memory, *this )\<close>.\<close>

definition model_clone_into :: "('v, 'e) owning_model \<Rightarrow> lifetimes \<Rightarrow> ('v, 'e) buffer \<times> lifetimes" where
  "model_clone_into m L = begin_lifetime m L"

text \<open>\<open>OwningModel::move( Concept* memory )\<close>: \<open>std::construct_at( memory, std::move(*this) )\<close>;
  the new model is the result, and the source model \<open>i\<close> is left moved-from.\<close>

definition model_move_into ::
  "addr \<Rightarrow> ('v, 'e) owning_model \<Rightarrow> lifetimes \<Rightarrow> ('v, 'e) buffer \<times> ('v, 'e) buffer \<times> lifetimes" where
  "model_move_into i m L = (let (b, L') = begin_lifetime m L in (b, Relocated i, L'))"

text \<open>\<open>pimpl()\<close>, the \<open>reinterpret_cast\<close> of \<open>buffer_.data()\<close> to \<open>Concept*\<close>, followed by a
  call of a member function other than the destructor: it needs a live model.\<close>

definition sbo_pimpl :: "('v, 'e) sbo_shape \<Rightarrow> (addr \<times> ('v, 'e) owning_model) result" where
  "sbo_pimpl s =
     (case buffer s of Raw \<Rightarrow> Inl Dangling | Live i m \<Rightarrow> Inr (i, m) | Relocated i \<Rightarrow> Inl UseAfterMove)"

text \<open>The constructor template: the two \<open>static_assert\<close>s, then \<open>std::construct_at\<close>.\<close>

definition sbo_construct ::
  "nat \<Rightarrow> nat \<Rightarrow> layout \<Rightarrow> layout \<Rightarrow> 'v \<Rightarrow> ('v \<Rightarrow> 'e) \<Rightarrow> lifetimes \<Rightarrow> (('v, 'e) sbo_shape \<times> lifetimes) result" where
  "sbo_construct capacity alignment ls ld s d L =
     (let ml = owning_model_layout ls ld in
      if \<not> lsize ml \<le> capacity then Inl (StaticAssert ''Given type is too large'')
      else if \<not> lalign ml \<le> alignment then Inl (StaticAssert ''Given type is misaligned'')
      else let (b, L') = begin_lifetime (OwningModel s d) L in Inr (\<lparr>buffer = b\<rparr>, L'))"

text \<open>The copy constructor: \<open>other.pimpl()->clone( pimpl() )\<close>.\<close>

definition sbo_copy :: "('v, 'e) sbo_shape \<Rightarrow> lifetimes \<Rightarrow> (('v, 'e) sbo_shape \<times> lifetimes) result" where
  "sbo_copy other L =
     bind_result (sbo_pimpl other) (\<lambda>(i, m). let (b, L') = model_clone_into m L in Inr (\<lparr>buffer = b\<rparr>, L'))"

text \<open>The move constructor: \<open>other.pimpl()->move( pimpl() )\<close>; returns the new shape and the
  moved-from source.\<close>

definition sbo_move ::
  "('v, 'e) sbo_shape \<Rightarrow> lifetimes \<Rightarrow> (('v, 'e) sbo_shape \<times> ('v, 'e) sbo_shape \<times> lifetimes) result" where
  "sbo_move other L =
     bind_result (sbo_pimpl other) (\<lambda>(i, m).
       let (b, src, L') = model_move_into i m L in Inr (\<lparr>buffer = b\<rparr>, other\<lparr>buffer := src\<rparr>, L'))"

text \<open>The destructor: \<open>std::destroy_at( pimpl() )\<close>, valid on a live or a moved-from model.\<close>

definition sbo_destroy :: "('v, 'e) sbo_shape \<Rightarrow> lifetimes \<Rightarrow> lifetimes result" where
  "sbo_destroy s L =
     (case buffer s of Raw \<Rightarrow> Inl DoubleDestroy | Live i _ \<Rightarrow> end_lifetime i L | Relocated i \<Rightarrow> end_lifetime i L)"

text \<open>Copy assignment: \<open>Shape copy( other ); buffer_.swap( copy.buffer_ );\<close>, then \<open>copy\<close>,
  holding the old model, is destroyed.\<close>

definition sbo_copy_assign ::
  "('v, 'e) sbo_shape \<Rightarrow> ('v, 'e) sbo_shape \<Rightarrow> lifetimes \<Rightarrow> (('v, 'e) sbo_shape \<times> lifetimes) result" where
  "sbo_copy_assign this other L =
     bind_result (sbo_copy other L) (\<lambda>(copy, L1).
       let this' = this\<lparr>buffer := buffer copy\<rparr>; copy' = copy\<lparr>buffer := buffer this\<rparr> in
       bind_result (sbo_destroy copy' L1) (\<lambda>L2. Inr (this', L2)))"

text \<open>Move assignment: \<open>Shape copy( std::move(other) ); buffer_.swap( copy.buffer_ );\<close>.
  Source and target may be the same object, so it acts on the variables.\<close>

definition sbo_move_assign ::
  "var \<Rightarrow> var \<Rightarrow> ('v, 'e) sbo_env \<Rightarrow> lifetimes \<Rightarrow> (('v, 'e) sbo_env \<times> lifetimes) result" where
  "sbo_move_assign x y E L =
     bind_result (lookup_var E y) (\<lambda>other.
       bind_result (sbo_move other L) (\<lambda>(copy, other', L1).
         let E1 = E(y \<mapsto> other') in
         bind_result (lookup_var E1 x) (\<lambda>this.
           let this' = this\<lparr>buffer := buffer copy\<rparr>; copy' = copy\<lparr>buffer := buffer this\<rparr> in
           bind_result (sbo_destroy copy' L1) (\<lambda>L2. Inr (E1(x \<mapsto> this'), L2)))))"

text \<open>\<open>friend void draw( Shape const& shape ) { shape.pimpl()->draw(); }\<close>\<close>

definition sbo_draw :: "('v, 'e) sbo_shape \<Rightarrow> 'e result" where
  "sbo_draw s = bind_result (sbo_pimpl s) (\<lambda>(i, m). Inr (sbo_model_draw m))"

subsection \<open>Scripts over small-buffer shapes\<close>

text \<open>\<open>capacity\<close> and \<open>alignment\<close> are the template arguments of \<open>Shape\<close>, \<open>ls\<close> and \<open>ld\<close> the
  layouts of the shape type and the draw strategy the script constructs from.\<close>

fun sbo_step ::
  "nat \<Rightarrow> nat \<Rightarrow> layout \<Rightarrow> layout \<Rightarrow> ('v, 'e) sbo_env \<times> lifetimes \<Rightarrow> ('v, 'e) box_op
     \<Rightarrow> ((('v, 'e) sbo_env \<times> lifetimes) \<times> 'e list) result" where
  "sbo_step C Al ls ld (E, L) (Construct x v d) =
     bind_result (sbo_construct C Al ls ld v d L) (\<lambda>(s, L'). Inr ((E(x \<mapsto> s), L'), []))"
| "sbo_step C Al ls ld (E, L) (CopyConstruct x y) =
     bind_result (lookup_var E y) (\<lambda>other.
       bind_result (sbo_copy other L) (\<lambda>(s, L'). Inr ((E(x \<mapsto> s), L'), [])))"
| "sbo_step C Al ls ld (E, L) (MoveConstruct x y) =
     bind_result (lookup_var E y) (\<lambda>other.
       bind_result (sbo_move other L) (\<lambda>(s, other', L'). Inr ((E(y \<mapsto> other', x \<mapsto> s), L'), [])))"
| "sbo_step C Al ls ld (E, L) (CopyAssign x y) =
     bind_result (lookup_var E x) (\<lambda>this. bind_result (lookup_var E y) (\<lambda>other.
       bind_result (sbo_copy_assign this other L) (\<lambda>(this', L'). Inr ((E(x \<mapsto> this'), L'), []))))"
| "sbo_step C Al ls ld (E, L) (MoveAssign x y) =
     bind_result (sbo_move_assign x y E L) (\<lambda>(E', L'). Inr ((E', L'), []))"
| "sbo_step C Al ls ld (E, L) (Draw x) =
     bind_result (lookup_var E x) (\<lambda>s. bind_result (sbo_draw s) (\<lambda>e. Inr ((E, L), [e])))"
| "sbo_step C Al ls ld (E, L) (Destroy x) =
     bind_result (lookup_var E x) (\<lambda>s. bind_result (sbo_destroy s L) (\<lambda>L'. Inr ((E(x := None), L'), [])))"

text \<open>\<open>main\<close> of the guideline, with \<open>Shape<>\<close> (\<open>Capacity = 32\<close>, \<open>Alignment = alignof(void*)\<close>),
  a \<open>Circle\<close> (one \<open>double\<close>) and a captureless lambda.\<close>

definition main33 :: "(circle, string) box_op list" where
  "main33 =
     [Construct ''shape1'' \<lparr>radius = 3.14\<rparr> circle_drawer, Draw ''shape1'',
      CopyConstruct ''shape2'' ''shape1'', Draw ''shape2'',
      Destroy ''shape2'', Destroy ''shape1'']"

definition circle_layout :: layout where
  "circle_layout = struct_layout [double_layout]"

abbreviation sbo_main_step where
  "sbo_main_step \<equiv> sbo_step 32 (lalign pointer_layout) circle_layout empty_class_layout"

subsection \<open>The representation invariant\<close>

fun rel_slot :: "('v, 'e) box option \<Rightarrow> ('v, 'e) sbo_shape option \<Rightarrow> bool" where
  "rel_slot None s = (s = None)"
| "rel_slot (Some Vacated) s = (\<exists>i. s = Some \<lparr>buffer = Relocated i\<rparr>)"
| "rel_slot (Some (Holds v d)) s = (\<exists>i. s = Some \<lparr>buffer = Live i (OwningModel v d)\<rparr>)"

fun slot_id :: "('v, 'e) buffer \<Rightarrow> addr option" where
  "slot_id Raw = None"
| "slot_id (Live i _) = Some i"
| "slot_id (Relocated i) = Some i"

definition sbo_owner :: "('v, 'e) sbo_env \<Rightarrow> var \<Rightarrow> addr option" where
  "sbo_owner E x = (case E x of None \<Rightarrow> None | Some s \<Rightarrow> slot_id (buffer s))"

text \<open>The model of \<open>OwningModel<ShapeT,DrawStrategy>\<close> passes both \<open>static_assert\<close>s.\<close>

definition sbo_fits :: "nat \<Rightarrow> nat \<Rightarrow> layout \<Rightarrow> layout \<Rightarrow> bool" where
  "sbo_fits capacity alignment ls ld \<longleftrightarrow>
     lsize (owning_model_layout ls ld) \<le> capacity \<and> lalign (owning_model_layout ls ld) \<le> alignment"

definition sbo_rel :: "('v, 'e) box_env \<Rightarrow> ('v, 'e) sbo_env \<Rightarrow> lifetimes \<Rightarrow> bool" where
  "sbo_rel A E L \<longleftrightarrow> (\<forall>x. rel_slot (A x) (E x)) \<and> owns (sbo_owner E) L"

subsection \<open>The invariant is kept by every operation\<close>

lemma sbo_shape_update_unit [simp]: "(s::('v, 'e) sbo_shape)\<lparr>buffer := b\<rparr> = \<lparr>buffer = b\<rparr>"
  by (cases s) simp

lemma sbo_owner_upd [simp]:
  "sbo_owner (E(x \<mapsto> s)) = (sbo_owner E)(x := slot_id (buffer s))"
  "sbo_owner (E(x := None)) = (sbo_owner E)(x := None)"
  by (simp_all add: sbo_owner_def fun_eq_iff)

lemma sbo_owner_empty [simp]: "sbo_owner Map.empty = (\<lambda>_. None)"
  by (simp add: sbo_owner_def fun_eq_iff)

lemma sbo_rel_var: "sbo_rel A E L \<Longrightarrow> rel_slot (A x) (E x)"
  and sbo_rel_owns: "sbo_rel A E L \<Longrightarrow> owns (sbo_owner E) L"
  by (simp_all add: sbo_rel_def)

lemma sbo_rel_undeclared: "sbo_rel A E L \<Longrightarrow> A x = None \<Longrightarrow> E x = None"
  using sbo_rel_var [of A E L x] by simp

lemma sbo_rel_holds:
  "sbo_rel A E L \<Longrightarrow> A x = Some (Holds v d) \<Longrightarrow> \<exists>i. E x = Some \<lparr>buffer = Live i (OwningModel v d)\<rparr>"
  using sbo_rel_var [of A E L x] by simp

lemma sbo_rel_declared:
  assumes "sbo_rel A E L" and "A x = Some b"
  shows "\<exists>i s. E x = Some s \<and> slot_id (buffer s) = Some i"
  using sbo_rel_var [OF assms(1), of x] assms(2) by (cases b) auto

lemma sbo_fits_construct:
  "sbo_fits C Al ls ld \<Longrightarrow>
     sbo_construct C Al ls ld v d L = Inr (\<lparr>buffer = Live (next_addr L) (OwningModel v d)\<rparr>, snd (store_new () L))"
  by (simp add: sbo_fits_def sbo_construct_def Let_def begin_lifetime_def store_new_def)

lemma sbo_copy_live:
  "sbo_copy \<lparr>buffer = Live i m\<rparr> L = Inr (\<lparr>buffer = Live (next_addr L) m\<rparr>, snd (store_new () L))"
  by (simp add: sbo_copy_def sbo_pimpl_def model_clone_into_def begin_lifetime_def store_new_def)

lemma sbo_move_live:
  "sbo_move \<lparr>buffer = Live i m\<rparr> L =
     Inr (\<lparr>buffer = Live (next_addr L) m\<rparr>, \<lparr>buffer = Relocated i\<rparr>, snd (store_new () L))"
  by (simp add: sbo_move_def sbo_pimpl_def model_move_into_def begin_lifetime_def store_new_def)

text \<open>A model constructed in the buffer of a variable that owned nothing.\<close>

lemma sbo_rel_new:
  assumes rel: "sbo_rel A E L" and x: "A x = None"
  shows "sbo_rel (A(x \<mapsto> Holds v d)) (E(x \<mapsto> \<lparr>buffer = Live (next_addr L) (OwningModel v d)\<rparr>)) (snd (store_new () L))"
proof -
  have "sbo_owner E x = None" using sbo_rel_undeclared [OF rel x] by (simp add: sbo_owner_def)
  from owns_new [OF sbo_rel_owns [OF rel] this] have "owns ((sbo_owner E)(x \<mapsto> next_addr L)) (snd (store_new () L))" .
  then show ?thesis using sbo_rel_var [OF rel] by (simp add: sbo_rel_def)
qed

text \<open>A model moved out of a buffer stays there, moved-from, under the same identity.\<close>

lemma sbo_rel_vacate:
  assumes rel: "sbo_rel A E L" and y: "E y = Some \<lparr>buffer = Live i m\<rparr>"
  shows "sbo_rel (A(y \<mapsto> Vacated)) (E(y \<mapsto> \<lparr>buffer = Relocated i\<rparr>)) L"
proof -
  have "(sbo_owner E)(y := Some i) = sbo_owner E" using y by (auto simp: sbo_owner_def)
  then show ?thesis using rel by (simp add: sbo_rel_def)
qed

text \<open>\<open>std::destroy_at\<close> on the buffer of a declared variable ends the lifetime it owns.\<close>

lemma sbo_rel_kill:
  assumes rel: "sbo_rel A E L" and x: "A x \<noteq> None" and s: "E x = Some s"
  shows "\<exists>L'. sbo_destroy s L = Inr L' \<and> sbo_rel (A(x := None)) (E(x := None)) L'
              \<and> next_addr L' = next_addr L \<and> news L' = news L"
proof -
  from x obtain b where "A x = Some b" by blast
  from sbo_rel_declared [OF rel this] s obtain i where si: "slot_id (buffer s) = Some i" by auto
  then have ox: "sbo_owner E x = Some i" using s by (simp add: sbo_owner_def)
  from owns_delete [OF sbo_rel_owns [OF rel] ox] obtain L' where
    del: "store_delete i L = Inr L'" and own: "owns ((sbo_owner E)(x := None)) L'"
    and L': "next_addr L' = next_addr L" "news L' = news L" by blast
  have "sbo_destroy s L = Inr L'" using si del
    by (cases "buffer s") (simp_all add: sbo_destroy_def end_lifetime_def)
  with own L' show ?thesis using sbo_rel_var [OF rel] by (simp add: sbo_rel_def)
qed

text \<open>Ending one lifetime and beginning a fresh one commute.\<close>

lemma sbo_destroy_store_new:
  assumes "store_wf L" and "sbo_destroy s L = Inr L'"
  shows "sbo_destroy s (snd (store_new () L)) = Inr (snd (store_new () L'))"
proof -
  from assms(2) obtain i where i: "slot_id (buffer s) = Some i" and del: "store_delete i L = Inr L'"
    by (cases "buffer s") (auto simp: sbo_destroy_def end_lifetime_def split: sum.splits)
  have "store_delete i (snd (store_new () L)) = Inr (snd (store_new () L'))"
    using store_delete_store_new [OF assms(1) del] .
  with i show ?thesis by (cases "buffer s") (simp_all add: sbo_destroy_def end_lifetime_def)
qed

text \<open>Every contract step is simulated; a construction needs the model to fit.\<close>

lemma sbo_step_sim:
  assumes step: "box_step A p = Some (A', t)" and rel: "sbo_rel A E L"
    and fits: "sbo_fits C Al ls ld \<or> (\<forall>x v d. p \<noteq> Construct x v d)"
  shows "\<exists>E' L'. sbo_step C Al ls ld (E, L) p = Inr ((E', L'), t) \<and> sbo_rel A' E' L'"
proof (cases p)
  case (Construct x v d)
  with step have "A x = None" "A' = A(x \<mapsto> Holds v d)" "t = []" by (auto split: if_splits)
  with sbo_rel_new [OF rel] Construct fits show ?thesis by (simp add: sbo_fits_construct)
next
  case (CopyConstruct x y)
  with step obtain v d where y: "A y = Some (Holds v d)" and x: "A x = None"
    and A': "A' = A(x \<mapsto> Holds v d)" and t: "t = []"
    by (auto split: option.splits box.splits if_splits)
  from sbo_rel_holds [OF rel y] obtain i where "E y = Some \<lparr>buffer = Live i (OwningModel v d)\<rparr>" ..
  with sbo_rel_new [OF rel x] A' t CopyConstruct show ?thesis by (simp add: sbo_copy_live)
next
  case (MoveConstruct x y)
  with step obtain v d where y: "A y = Some (Holds v d)" and x: "A x = None"
    and A': "A' = A(y \<mapsto> Vacated, x \<mapsto> Holds v d)" and t: "t = []"
    by (auto split: option.splits box.splits if_splits)
  from sbo_rel_holds [OF rel y] obtain i where Ey: "E y = Some \<lparr>buffer = Live i (OwningModel v d)\<rparr>" ..
  from x y have "x \<noteq> y" by auto
  with sbo_rel_new [OF sbo_rel_vacate [OF rel Ey], of x v d] x A' t MoveConstruct Ey show ?thesis
    by (simp add: sbo_move_live)
next
  case (CopyAssign x y)
  with step obtain v d b where y: "A y = Some (Holds v d)" and x: "A x = Some b"
    and A': "A' = A(x \<mapsto> Holds v d)" and t: "t = []"
    by (auto split: option.splits box.splits)
  from sbo_rel_holds [OF rel y] obtain i where Ey: "E y = Some \<lparr>buffer = Live i (OwningModel v d)\<rparr>" ..
  from sbo_rel_declared [OF rel x] obtain s where Ex: "E x = Some s" by blast
  from sbo_rel_kill [OF rel _ Ex] x obtain L' where
    kill: "sbo_destroy s L = Inr L'" and rel1: "sbo_rel (A(x := None)) (E(x := None)) L'"
    and L': "next_addr L' = next_addr L" by auto
  from sbo_rel_new [OF rel1, of x v d] have
    "sbo_rel A' (E(x \<mapsto> \<lparr>buffer = Live (next_addr L) (OwningModel v d)\<rparr>)) (snd (store_new () L'))"
    by (simp add: A' L')
  moreover have "sbo_destroy \<lparr>buffer = buffer s\<rparr> (snd (store_new () L)) = Inr (snd (store_new () L'))"
    using sbo_destroy_store_new [OF owns_wf [OF sbo_rel_owns [OF rel]] kill] by (cases s) simp
  ultimately show ?thesis using CopyAssign Ex Ey t by (simp add: sbo_copy_assign_def sbo_copy_live)
next
  case (MoveAssign x y)
  with step obtain v d b where y: "A y = Some (Holds v d)" and x: "A x = Some b"
    and A': "A' = (if x = y then A else A(y \<mapsto> Vacated, x \<mapsto> Holds v d))" and t: "t = []"
    by (auto split: option.splits box.splits)
  from sbo_rel_holds [OF rel y] obtain i where Ey: "E y = Some \<lparr>buffer = Live i (OwningModel v d)\<rparr>" ..
  define E1 where "E1 = E(y \<mapsto> \<lparr>buffer = Relocated i\<rparr>)"
  have rel0: "sbo_rel (A(y \<mapsto> Vacated)) E1 L" unfolding E1_def using sbo_rel_vacate [OF rel Ey] .
  from sbo_rel_declared [OF rel0, of x] x obtain s where Ex: "E1 x = Some s" by (cases "x = y") auto
  have x0: "(A(y \<mapsto> Vacated)) x \<noteq> None" using x by simp
  from sbo_rel_kill [OF rel0 x0 Ex] obtain L' where
    kill: "sbo_destroy s L = Inr L'" and rel1: "sbo_rel ((A(y \<mapsto> Vacated))(x := None)) (E1(x := None)) L'"
    and L': "next_addr L' = next_addr L" by blast
  have "sbo_rel (A(y \<mapsto> Vacated, x \<mapsto> Holds v d)) (E1(x \<mapsto> \<lparr>buffer = Live (next_addr L) (OwningModel v d)\<rparr>))
          (snd (store_new () L'))"
    using sbo_rel_new [OF rel1, of x v d] by (simp add: L')
  moreover have "A(y \<mapsto> Vacated, x \<mapsto> Holds v d) = A'" using y by (auto simp: A')
  moreover have "sbo_destroy \<lparr>buffer = buffer s\<rparr> (snd (store_new () L)) = Inr (snd (store_new () L'))"
    using sbo_destroy_store_new [OF owns_wf [OF sbo_rel_owns [OF rel]] kill] by (cases s) simp
  ultimately show ?thesis using MoveAssign Ex Ey t
    by (simp add: sbo_move_assign_def sbo_move_live E1_def)
next
  case (Draw x)
  with step obtain v d where x: "A x = Some (Holds v d)" and A': "A' = A" and t: "t = [d v]"
    by (auto split: option.splits box.splits)
  from sbo_rel_holds [OF rel x] obtain i where "E x = Some \<lparr>buffer = Live i (OwningModel v d)\<rparr>" ..
  with rel A' t Draw show ?thesis by (simp add: sbo_draw_def sbo_pimpl_def sbo_model_draw_def)
next
  case (Destroy x)
  with step obtain b where x: "A x = Some b" and A': "A' = A(x := None)" and t: "t = []"
    by (auto split: option.splits)
  from sbo_rel_declared [OF rel x] obtain s where Ex: "E x = Some s" by blast
  from sbo_rel_kill [OF rel _ Ex] x A' t Destroy Ex show ?thesis by auto
qed

lemma sbo_run_sim:
  "box_run A ps = Some (A', t) \<Longrightarrow> sbo_rel A E L \<Longrightarrow> sbo_fits C Al ls ld \<Longrightarrow>
     \<exists>E' L'. script_run (sbo_step C Al ls ld) (E, L) ps = Inr ((E', L'), t) \<and> sbo_rel A' E' L'"
  using script_run_refines [where R = "\<lambda>A (E, L). sbo_rel A E L" and step = "sbo_step C Al ls ld",
      of A ps A' t "(E, L)"] sbo_step_sim by fastforce

lemma sbo_construct_rejects:
  "\<not> sbo_fits C Al ls ld \<Longrightarrow>
     sbo_construct C Al ls ld v d L =
       Inl (StaticAssert (if lsize (owning_model_layout ls ld) \<le> C then ''Given type is misaligned''
                          else ''Given type is too large''))"
  by (simp add: sbo_fits_def sbo_construct_def Let_def)

lemma sbo_rel_init: "sbo_rel Map.empty Map.empty empty_store"
  by (simp add: sbo_rel_def)

lemma sbo_rel_empty_env:
  assumes "sbo_rel Map.empty E L"
  shows "E = Map.empty \<and> cells L = Map.empty \<and> news L = deletes L"
proof -
  have E: "E = Map.empty" using sbo_rel_undeclared [OF assms] by auto
  with sbo_rel_owns [OF assms] owns_empty show ?thesis by fastforce
qed

lemma sbo_run_rejects:
  assumes "\<not> sbo_fits C Al ls ld"
  shows "box_run A ps = Some (A', t) \<Longrightarrow> sbo_rel A E L \<Longrightarrow> Construct x v d \<in> set ps \<Longrightarrow>
           script_run (sbo_step C Al ls ld) (E, L) ps =
             Inl (StaticAssert (if lsize (owning_model_layout ls ld) \<le> C then ''Given type is misaligned''
                                else ''Given type is too large''))"
proof (induction ps arbitrary: A E L t)
  case (Cons p ps)
  from Cons.prems(1) [unfolded box_run_Cons_Some] obtain A1 t1 t2 where
    s1: "box_step A p = Some (A1, t1)" and r2: "box_run A1 ps = Some (A', t2)" by blast
  show ?case
  proof (cases "\<exists>x' v' d'. p = Construct x' v' d'")
    case True
    then obtain x' v' d' where "p = Construct x' v' d'" by blast
    then show ?thesis by (simp add: sbo_construct_rejects [OF assms])
  next
    case False
    with Cons.prems(3) have inps: "Construct x v d \<in> set ps" by auto
    from sbo_step_sim [OF s1 Cons.prems(2)] False obtain E1 L1 where
      st: "sbo_step C Al ls ld (E, L) p = Inr ((E1, L1), t1)" and rel1: "sbo_rel A1 E1 L1" by blast
    from Cons.IH [OF r2 rel1 inps] st show ?thesis by simp
  qed
qed simp

subsection \<open>Properties of the small-buffer wrapper\<close>

text \<open>C6: when \<open>OwningModel<ShapeT,DrawStrategy>\<close> fits the buffer, the small-buffer
  wrapper implements the value contract: every contract-respecting script runs without
  undefined behaviour (no use of a raw or moved-from buffer, no lifetime ended twice)
  and produces exactly the abstract trace of draw effects.\<close>

theorem sbo_refines_box:
  assumes "sbo_fits C Al ls ld" and "box_run Map.empty ps = Some (A, t)"
  shows "\<exists>E L. script_run (sbo_step C Al ls ld) (Map.empty, empty_store) ps = Inr ((E, L), t) \<and> sbo_rel A E L"
  using sbo_run_sim [OF assms(2) sbo_rel_init assms(1)] .

text \<open>C7: every model constructed in a buffer by \<open>std::construct_at\<close> is destroyed exactly
  once by \<open>std::destroy_at\<close>: when a contract-respecting script ends with every wrapper
  destroyed, no model lifetime is still running and the number of \<open>destroy_at\<close> calls
  equals the number of \<open>construct_at\<close> calls.\<close>

theorem sbo_destroy_exactly_once:
  assumes "sbo_fits C Al ls ld" and "box_run Map.empty ps = Some (Map.empty, t)"
    and "script_run (sbo_step C Al ls ld) (Map.empty, empty_store) ps = Inr ((E, L), t')"
  shows "t' = t \<and> E = Map.empty \<and> cells L = Map.empty \<and> news L = deletes L"
proof -
  from sbo_run_sim [OF assms(2) sbo_rel_init assms(1)] obtain E0 L0 where
    "script_run (sbo_step C Al ls ld) (Map.empty, empty_store) ps = Inr ((E0, L0), t)"
    and rel: "sbo_rel Map.empty E0 L0" by blast
  with assms(3) have "E = E0" "L = L0" "t' = t" by simp_all
  with sbo_rel_empty_env [OF rel] show ?thesis by simp
qed

text \<open>C8: the two \<open>static_assert\<close>s reject every program that constructs a wrapper
  whose model does not fit: on a contract-respecting script that contains such a
  construction the run stops with the assertion's message, \<open>"Given type is too large"\<close>
  when the size check fails and \<open>"Given type is misaligned"\<close> when only the alignment
  check fails; no model is ever placed in a buffer too small for it.\<close>

theorem sbo_rejects_unfit:
  assumes "\<not> sbo_fits C Al ls ld" and "box_run Map.empty ps = Some (A, t)" and "Construct x v d \<in> set ps"
  shows "script_run (sbo_step C Al ls ld) (Map.empty, empty_store) ps =
           Inl (StaticAssert (if lsize (owning_model_layout ls ld) \<le> C then ''Given type is misaligned''
                              else ''Given type is too large''))"
  using sbo_run_rejects [OF assms(1) assms(2) sbo_rel_init assms(3)] .

text \<open>What the buffer must provide. A model that fits leaves room for the vtable
  pointer next to the shape and the draw strategy, is aligned at least as strictly as
  each of them, and its size is a multiple of its alignment; so with the default
  \<open>Capacity = 32\<close> a shape and strategy may take at most 24 bytes together.\<close>

theorem sbo_fits_bounds:
  assumes "sbo_fits C Al ls ld"
  shows "lsize pointer_layout + lsize ls + lsize ld \<le> C
       \<and> lalign ls \<le> Al \<and> lalign ld \<le> Al
       \<and> lalign (owning_model_layout ls ld) dvd lsize (owning_model_layout ls ld)"
proof -
  have sz: "lsize pointer_layout + lsize ls + lsize ld \<le> lsize (owning_model_layout ls ld)"
    using struct_layout_size_ge [of "[pointer_layout, ls, ld]"] by (simp add: owning_model_layout_def)
  have "lalign ls \<le> lalign (owning_model_layout ls ld)" "lalign ld \<le> lalign (owning_model_layout ls ld)"
    using struct_layout_align_ge [of _ "[pointer_layout, ls, ld]"] by (simp_all add: owning_model_layout_def)
  with sz assms show ?thesis by (simp add: sbo_fits_def owning_model_layout_def struct_layout_dvd)
qed

subsection \<open>The guideline's \<open>main\<close>\<close>

lemma main33_fits: "sbo_fits 32 (lalign pointer_layout) circle_layout empty_class_layout"
  by (simp add: sbo_fits_def owning_model_layout_def circle_layout_def struct_layout_def round_up_def
      pointer_layout_def double_layout_def empty_class_layout_def)

lemma main33_box_run:
  "box_run Map.empty main33 = Some (Map.empty, [''drawn'', ''drawn''])"
  by (simp add: main33_def circle_drawer_def fun_upd_twist)

lemma main33_sbo_run:
  "script_run sbo_main_step (Map.empty, empty_store) main33 =
     Inr ((Map.empty, empty_store\<lparr>next_addr := 2, news := 2, deletes := 2\<rparr>), [''drawn'', ''drawn''])"
  using main33_fits
  by (simp add: main33_def circle_drawer_def sbo_fits_construct sbo_copy_live sbo_draw_def sbo_pimpl_def
      sbo_model_draw_def sbo_destroy_def end_lifetime_def store_simps fault_simps fun_upd_twist)

theorem sbo_refines_box_witness:
  "sbo_fits 32 (lalign pointer_layout) circle_layout empty_class_layout
   \<and> box_run Map.empty main33 = Some (Map.empty, [''drawn'', ''drawn''])
   \<and> (\<exists>E L. script_run sbo_main_step (Map.empty, empty_store) main33 = Inr ((E, L), [''drawn'', ''drawn''])
          \<and> sbo_rel Map.empty E L)"
  using main33_fits main33_box_run sbo_refines_box [OF main33_fits main33_box_run] by simp

theorem sbo_destroy_exactly_once_witness:
  "script_run sbo_main_step (Map.empty, empty_store) main33 =
       Inr ((Map.empty, empty_store\<lparr>next_addr := 2, news := 2, deletes := 2\<rparr>), [''drawn'', ''drawn''])
   \<and> cells (empty_store\<lparr>next_addr := 2, news := 2, deletes := 2\<rparr> :: lifetimes) = Map.empty
   \<and> news (empty_store\<lparr>next_addr := 2, news := 2, deletes := 2\<rparr> :: lifetimes)
       = deletes (empty_store\<lparr>next_addr := 2, news := 2, deletes := 2\<rparr> :: lifetimes)"
  using main33_sbo_run sbo_destroy_exactly_once [OF main33_fits main33_box_run main33_sbo_run] by simp

text \<open>A \<open>Shape<16>\<close> cannot hold the circle model (24 bytes).\<close>

theorem sbo_rejects_unfit_witness:
  "\<not> sbo_fits 16 (lalign pointer_layout) circle_layout empty_class_layout
   \<and> script_run (sbo_step 16 (lalign pointer_layout) circle_layout empty_class_layout) (Map.empty, empty_store) main33
       = Inl (StaticAssert ''Given type is too large'')"
proof -
  have unfit: "\<not> sbo_fits 16 (lalign pointer_layout) circle_layout empty_class_layout"
    and sz: "\<not> lsize (owning_model_layout circle_layout empty_class_layout) \<le> 16"
    by (simp_all add: sbo_fits_def owning_model_layout_def circle_layout_def struct_layout_def round_up_def
        pointer_layout_def double_layout_def empty_class_layout_def)
  have "Construct ''shape1'' \<lparr>radius = 3.14\<rparr> circle_drawer \<in> set main33" by (simp add: main33_def)
  from sbo_rejects_unfit [OF unfit main33_box_run this] unfit sz show ?thesis by simp
qed

theorem sbo_fits_bounds_witness:
  "lsize pointer_layout + lsize circle_layout + lsize empty_class_layout \<le> 32
   \<and> lalign circle_layout \<le> lalign pointer_layout \<and> lalign empty_class_layout \<le> lalign pointer_layout
   \<and> lalign (owning_model_layout circle_layout empty_class_layout)
       dvd lsize (owning_model_layout circle_layout empty_class_layout)"
  using sbo_fits_bounds [OF main33_fits] .

end
