(* ===== verification/Non_Owning.thy ===== *)
theory Non_Owning
  imports Shapes Layout
begin

text \<open>
  Guideline 34: non-owning type erasure. \<open>ShapeConstRef\<close> refers to a shape and a draw
  strategy that live elsewhere, without owning them.

  The objects of the program live in one store of typed objects: values (the
  \<open>Circle\<close>), draw strategies (the lambda), and the heap models
  \<open>OwningShapeModel<ShapeT,DrawStrategy>\<close> of the owning \<open>Shape\<close>, whose members
  \<open>shape_\<close> and \<open>drawer_\<close> are subobjects with addresses of their own. A pointer is
  either the address of a whole object or of a member of a model; reading through a
  pointer to a destroyed object is \<open>Dangling\<close>, reading an object of the wrong type
  (a \<open>static_cast\<close> of \<open>void const*\<close> to the wrong type) is \<open>BadCast\<close>.

  Part 1 (\<open>src/G34_Non_Owning_Type_Erasure_1.cpp\<close>) stores two \<open>void const*\<close> and a
  function pointer. Part 2 (\<open>src/G34_Non_Owning_Type_Erasure_2.cpp\<close>) stores a
  \<open>NonOwningShapeModel\<close> in a raw buffer of \<open>MODEL_SIZE\<close> bytes, and converts to and
  from an owning heap \<open>Shape\<close>.
\<close>

datatype member = ShapeMember | DrawerMember

datatype ptr = Whole addr | Sub addr member

datatype ('v, 'e) obj = Value 'v | Strategy "'v \<Rightarrow> 'e" | OwnedModel 'v "'v \<Rightarrow> 'e"

type_synonym ('v, 'e) mem = "('v, 'e) obj store"

text \<open>\<open>*static_cast<ShapeT const*>(p)\<close> and \<open>*static_cast<DrawStrategy const*>(p)\<close>.\<close>

definition read_shape :: "('v, 'e) mem \<Rightarrow> ptr \<Rightarrow> 'v result" where
  "read_shape M p =
     (case p of
        Whole a \<Rightarrow> (case cells M a of None \<Rightarrow> Inl Dangling | Some (Value v) \<Rightarrow> Inr v | Some _ \<Rightarrow> Inl BadCast)
      | Sub a ShapeMember \<Rightarrow>
          (case cells M a of None \<Rightarrow> Inl Dangling | Some (OwnedModel v d) \<Rightarrow> Inr v | Some _ \<Rightarrow> Inl BadCast)
      | Sub a DrawerMember \<Rightarrow> Inl BadCast)"

definition read_drawer :: "('v, 'e) mem \<Rightarrow> ptr \<Rightarrow> ('v \<Rightarrow> 'e) result" where
  "read_drawer M p =
     (case p of
        Whole a \<Rightarrow> (case cells M a of None \<Rightarrow> Inl Dangling | Some (Strategy d) \<Rightarrow> Inr d | Some _ \<Rightarrow> Inl BadCast)
      | Sub a DrawerMember \<Rightarrow>
          (case cells M a of None \<Rightarrow> Inl Dangling | Some (OwnedModel v d) \<Rightarrow> Inr d | Some _ \<Rightarrow> Inl BadCast)
      | Sub a ShapeMember \<Rightarrow> Inl BadCast)"

subsection \<open>Part 1: two void pointers and a draw thunk\<close>

record ('v, 'e) shape_const_ref1 =
  shape_ptr :: ptr
  drawer_ptr :: ptr
  draw_op :: "('v, 'e) mem \<Rightarrow> ptr \<Rightarrow> ptr \<Rightarrow> 'e result"

text \<open>The captureless lambda stored in \<open>draw_\<close> (here \<open>draw_op\<close>): cast both pointers back and call
  \<open>(*drawer)( *shape )\<close>.\<close>

definition draw_thunk :: "('v, 'e) mem \<Rightarrow> ptr \<Rightarrow> ptr \<Rightarrow> 'e result" where
  "draw_thunk M shapeBytes drawerBytes =
     bind_result (read_shape M shapeBytes) (\<lambda>shape.
       bind_result (read_drawer M drawerBytes) (\<lambda>drawer. Inr (drawer shape)))"

text \<open>\<open>ShapeConstRef( ShapeT& shape, DrawStrategy& drawer )\<close>: \<open>std::addressof\<close> of both.\<close>

definition ref1_construct :: "addr \<Rightarrow> addr \<Rightarrow> ('v, 'e) shape_const_ref1" where
  "ref1_construct shape drawer = \<lparr>shape_ptr = Whole shape, drawer_ptr = Whole drawer, draw_op = draw_thunk\<rparr>"

definition ref1_draw :: "('v, 'e) shape_const_ref1 \<Rightarrow> ('v, 'e) mem \<Rightarrow> 'e result" where
  "ref1_draw s M = draw_op s M (shape_ptr s) (drawer_ptr s)"

definition use_shape_const_ref :: "('v, 'e) shape_const_ref1 \<Rightarrow> ('v, 'e) mem \<Rightarrow> 'e result" where
  "use_shape_const_ref shape M = ref1_draw shape M"

text \<open>The automatic objects \<open>circle\<close> and \<open>drawer\<close> of \<open>main\<close>.\<close>

definition main34_1_mem :: "(circle, string) mem" where
  "main34_1_mem = snd (store_auto (Strategy circle_drawer) (snd (store_auto (Value \<lparr>radius = 3.14\<rparr>) empty_store)))"

definition main34_1 :: "string result" where
  "main34_1 =
     (let (circle, M1) = store_auto (Value \<lparr>radius = 3.14\<rparr>) empty_store;
          (drawer, M2) = store_auto (Strategy circle_drawer) M1
      in use_shape_const_ref (ref1_construct circle drawer) M2)"

subsection \<open>Part 2: the models\<close>

text \<open>\<open>NonOwningShapeModel<ShapeT,DrawStrategy>\<close>: the pointers \<open>shape_\<close> and \<open>drawer_\<close>.\<close>

datatype nonowning_shape_model = NonOwningShapeModel ptr ptr

definition nonowning_draw :: "('v, 'e) mem \<Rightarrow> nonowning_shape_model \<Rightarrow> 'e result" where
  "nonowning_draw M m =
     (case m of NonOwningShapeModel shape drawer \<Rightarrow>
        bind_result (read_shape M shape) (\<lambda>v. bind_result (read_drawer M drawer) (\<lambda>d. Inr (d v))))"

text \<open>\<open>NonOwningShapeModel::clone()\<close>: \<open>std::make_unique<Model>( *shape_, *drawer_ )\<close>, a deep
  copy of the referenced shape and strategy into a new owning model.\<close>

definition nonowning_clone :: "('v, 'e) mem \<Rightarrow> nonowning_shape_model \<Rightarrow> (addr \<times> ('v, 'e) mem) result" where
  "nonowning_clone M m =
     (case m of NonOwningShapeModel shape drawer \<Rightarrow>
        bind_result (read_shape M shape) (\<lambda>v. bind_result (read_drawer M drawer) (\<lambda>d.
          Inr (store_new (OwnedModel v d) M))))"

text \<open>\<open>NonOwningShapeModel::clone( ShapeConcept* memory )\<close>: \<open>std::construct_at( memory, *this )\<close>.\<close>

definition nonowning_clone_into :: "nonowning_shape_model \<Rightarrow> nonowning_shape_model" where
  "nonowning_clone_into m = (case m of NonOwningShapeModel shape drawer \<Rightarrow> NonOwningShapeModel shape drawer)"

text \<open>The virtual functions of \<open>OwningShapeModel\<close>, dispatched through a \<open>ShapeConcept*\<close>
  that must point at a live owning model.\<close>

definition owning_model_at :: "('v, 'e) mem \<Rightarrow> addr option \<Rightarrow> (addr \<times> 'v \<times> ('v \<Rightarrow> 'e)) result" where
  "owning_model_at M p =
     (case p of
        None \<Rightarrow> Inl NullDeref
      | Some a \<Rightarrow> (case cells M a of
                    None \<Rightarrow> Inl Dangling | Some (OwnedModel v d) \<Rightarrow> Inr (a, v, d) | Some _ \<Rightarrow> Inl BadCast))"

text \<open>\<open>OwningShapeModel::clone( ShapeConcept* memory )\<close>: a \<open>NonOwningShapeModel\<close> pointing
  at the model's own members \<open>shape_\<close> and \<open>drawer_\<close>.\<close>

definition owning_clone_into :: "addr \<Rightarrow> nonowning_shape_model" where
  "owning_clone_into a = NonOwningShapeModel (Sub a ShapeMember) (Sub a DrawerMember)"

subsection \<open>Part 2: \<open>ShapeConstRef\<close>\<close>

record shape_const_ref =
  raw :: nonowning_shape_model

text \<open>\<open>MODEL_SIZE = 3U*sizeof(void*)\<close>, and the layout of every instantiation of
  \<open>NonOwningShapeModel\<close>: a vtable pointer and two pointers.\<close>

definition model_size :: nat where
  "model_size = 3 * lsize pointer_layout"

definition nonowning_model_layout :: layout where
  "nonowning_model_layout = struct_layout [pointer_layout, pointer_layout, pointer_layout]"

text \<open>\<open>ShapeConstRef( ShapeT& shape, DrawStrategy& drawer )\<close>: the two \<open>static_assert\<close>s, then
  \<open>std::construct_at\<close> of the non-owning model in \<open>raw\<close>.\<close>

definition ref_construct :: "addr \<Rightarrow> addr \<Rightarrow> shape_const_ref result" where
  "ref_construct shape drawer =
     (if lsize nonowning_model_layout \<noteq> model_size then Inl (StaticAssert ''Invalid size detected'')
      else if lalign nonowning_model_layout \<noteq> lalign pointer_layout then Inl (StaticAssert ''Misaligned detected'')
      else Inr \<lparr>raw = NonOwningShapeModel (Whole shape) (Whole drawer)\<rparr>)"

text \<open>\<open>ShapeConstRef( ShapeConstRef const& other )\<close>: \<open>other.pimpl()->clone( pimpl() )\<close>.\<close>

definition ref_copy :: "shape_const_ref \<Rightarrow> shape_const_ref" where
  "ref_copy other = \<lparr>raw = nonowning_clone_into (raw other)\<rparr>"

text \<open>Copy assignment by copy-and-swap; destroying the swapped-out \<open>NonOwningShapeModel\<close>
  touches no other object.\<close>

definition ref_copy_assign :: "shape_const_ref \<Rightarrow> shape_const_ref \<Rightarrow> shape_const_ref" where
  "ref_copy_assign this other = (let copy = ref_copy other in this\<lparr>raw := raw copy\<rparr>)"

definition ref_draw :: "shape_const_ref \<Rightarrow> ('v, 'e) mem \<Rightarrow> 'e result" where
  "ref_draw shape M = nonowning_draw M (raw shape)"

subsection \<open>Part 2: the owning \<open>Shape\<close>\<close>

record shape34 =
  owned :: "addr option"

definition shape34_construct :: "'v \<Rightarrow> ('v \<Rightarrow> 'e) \<Rightarrow> ('v, 'e) mem \<Rightarrow> shape34 \<times> ('v, 'e) mem" where
  "shape34_construct shape drawer M = (let (a, M') = store_new (OwnedModel shape drawer) M in (\<lparr>owned = Some a\<rparr>, M'))"

text \<open>\<open>Shape( Shape const& other )\<close>: \<open>other.pimpl_->clone()\<close>.\<close>

definition shape34_copy :: "shape34 \<Rightarrow> ('v, 'e) mem \<Rightarrow> (shape34 \<times> ('v, 'e) mem) result" where
  "shape34_copy other M =
     bind_result (owning_model_at M (owned other)) (\<lambda>(a, v, d).
       let (b, M') = store_new (OwnedModel v d) M in Inr (\<lparr>owned = Some b\<rparr>, M'))"

text \<open>\<open>Shape( ShapeConstRef const& other )\<close>: \<open>other.pimpl()->clone()\<close>.\<close>

definition shape34_from_ref :: "shape_const_ref \<Rightarrow> ('v, 'e) mem \<Rightarrow> (shape34 \<times> ('v, 'e) mem) result" where
  "shape34_from_ref other M =
     bind_result (nonowning_clone M (raw other)) (\<lambda>(b, M'). Inr (\<lparr>owned = Some b\<rparr>, M'))"

definition shape34_destroy :: "shape34 \<Rightarrow> ('v, 'e) mem \<Rightarrow> ('v, 'e) mem result" where
  "shape34_destroy s M = unique_release (owned s) M"

definition shape34_copy_assign :: "shape34 \<Rightarrow> shape34 \<Rightarrow> ('v, 'e) mem \<Rightarrow> (shape34 \<times> ('v, 'e) mem) result" where
  "shape34_copy_assign this other M =
     bind_result (shape34_copy other M) (\<lambda>(copy, M1).
       let this' = this\<lparr>owned := owned copy\<rparr>; copy' = copy\<lparr>owned := owned this\<rparr> in
       bind_result (shape34_destroy copy' M1) (\<lambda>M2. Inr (this', M2)))"

definition shape34_draw :: "shape34 \<Rightarrow> ('v, 'e) mem \<Rightarrow> 'e result" where
  "shape34_draw shape M = bind_result (owning_model_at M (owned shape)) (\<lambda>(a, v, d). Inr (d v))"

text \<open>\<open>ShapeConstRef( Shape& other )\<close> (and the \<open>const\<close> overload):
  \<open>other.pimpl_->clone( pimpl() )\<close>.\<close>

definition ref_from_shape :: "shape34 \<Rightarrow> ('v, 'e) mem \<Rightarrow> shape_const_ref result" where
  "ref_from_shape other M =
     bind_result (owning_model_at M (owned other)) (\<lambda>(a, v, d). Inr \<lparr>raw = owning_clone_into a\<rparr>)"

text \<open>\<open>main\<close>: the draws of \<open>shape1\<close>, \<open>shaperef\<close> and \<open>shape2\<close>, then the destructors of the
  locals in reverse order (\<open>shape2\<close>, \<open>shaperef\<close>, \<open>shape1\<close>; \<open>drawer\<close> and \<open>circle\<close> are
  automatic objects that own nothing).\<close>

definition main34_2 :: "(string list \<times> (circle, string) mem) result" where
  "main34_2 =
     (let (circle, M1) = store_auto (Value \<lparr>radius = 3.14\<rparr>) empty_store;
          (drawer, M2) = store_auto (Strategy circle_drawer) M1;
          (shape1, M3) = shape34_construct \<lparr>radius = 3.14\<rparr> circle_drawer M2
      in bind_result (shape34_draw shape1 M3) (\<lambda>e1.
         bind_result (ref_from_shape shape1 M3) (\<lambda>shaperef.
         bind_result (ref_draw shaperef M3) (\<lambda>e2.
         bind_result (shape34_from_ref shaperef M3) (\<lambda>(shape2, M4).
         bind_result (shape34_draw shape2 M4) (\<lambda>e3.
         bind_result (shape34_destroy shape2 M4) (\<lambda>M5.
         bind_result (shape34_destroy shape1 M5) (\<lambda>M6. Inr ([e1, e2, e3], M6)))))))))"

subsection \<open>Reading through pointers\<close>

lemma read_member [simp]:
  "cells M a = Some (OwnedModel v d) \<Longrightarrow> read_shape M (Sub a ShapeMember) = Inr v"
  "cells M a = Some (OwnedModel v d) \<Longrightarrow> read_drawer M (Sub a DrawerMember) = Inr d"
  by (simp_all add: read_shape_def read_drawer_def)

lemma read_whole [simp]:
  "cells M a = Some (Value v) \<Longrightarrow> read_shape M (Whole a) = Inr v"
  "cells M a = Some (Strategy d) \<Longrightarrow> read_drawer M (Whole a) = Inr d"
  by (simp_all add: read_shape_def read_drawer_def)

lemma read_dead [simp]:
  "cells M a = None \<Longrightarrow> read_shape M (Whole a) = Inl Dangling"
  "cells M a = None \<Longrightarrow> read_shape M (Sub a ShapeMember) = Inl Dangling"
  by (simp_all add: read_shape_def)

lemma owning_model_at_live [simp]:
  "cells M a = Some (OwnedModel v d) \<Longrightarrow> owning_model_at M (Some a) = Inr (a, v, d)"
  by (simp add: owning_model_at_def)

text \<open>Drawing through a non-owning model depends only on the objects it points at.\<close>

lemma nonowning_draw_Inr:
  "nonowning_draw M m = Inr e \<longleftrightarrow>
     (\<exists>sp dp v d. m = NonOwningShapeModel sp dp \<and> read_shape M sp = Inr v \<and> read_drawer M dp = Inr d \<and> e = d v)"
  by (cases m) (auto simp: nonowning_draw_def bind_result_eq_Inr)

lemma nonowning_clone_Inr:
  assumes "nonowning_draw M m = Inr e"
  shows "\<exists>v d. nonowning_clone M m = Inr (store_new (OwnedModel v d) M) \<and> e = d v"
  using assms by (fastforce simp: nonowning_draw_Inr nonowning_clone_def)

lemma ref_from_shape_live:
  "cells M a = Some (OwnedModel v d) \<Longrightarrow> ref_from_shape \<lparr>owned = Some a\<rparr> M = Inr \<lparr>raw = owning_clone_into a\<rparr>"
  by (simp add: ref_from_shape_def)

lemma shape34_update_unit [simp]: "(s::shape34)\<lparr>owned := p\<rparr> = \<lparr>owned = p\<rparr>"
  by (cases s) simp

lemma shape34_destroy_live:
  "cells M a = Some c \<Longrightarrow>
     shape34_destroy \<lparr>owned = Some a\<rparr> M = Inr (M\<lparr>cells := (cells M)(a := None), deletes := Suc (deletes M)\<rparr>)"
  by (simp add: shape34_destroy_def unique_release_def store_delete_def)

subsection \<open>Properties of the non-owning reference\<close>

text \<open>A \<open>ShapeConstRef\<close> made from an owning \<open>Shape\<close> points at the value and the
  strategy inside the Shape's model (one indirection), not at the Shape; copying or
  copy-assigning the reference keeps the same two addresses; and drawing through the
  reference draws exactly what drawing the Shape draws.\<close>

theorem ref_from_shape_single_indirection:
  assumes "cells M a = Some (OwnedModel v d)"
  shows "\<exists>r. ref_from_shape \<lparr>owned = Some a\<rparr> M = Inr r
           \<and> raw r = NonOwningShapeModel (Sub a ShapeMember) (Sub a DrawerMember)
           \<and> raw (ref_copy r) = raw r \<and> raw (ref_copy_assign r' r) = raw r
           \<and> ref_draw r M = Inr (d v) \<and> ref_draw r M = shape34_draw \<lparr>owned = Some a\<rparr> M"
  using ref_from_shape_live [OF assms] assms
  by (simp add: owning_clone_into_def ref_copy_def ref_copy_assign_def nonowning_clone_into_def
      ref_draw_def nonowning_draw_def shape34_draw_def)

text \<open>C10: the round trip \<open>Shape\<close> to \<open>ShapeConstRef\<close> to \<open>Shape\<close> is a deep copy: the new
  Shape owns a new model, distinct from the original, holding the same shape and
  strategy; no other object changes; and a reference made from the new Shape points into
  the new model.\<close>

theorem shape_ref_roundtrip:
  assumes "store_wf M" and "cells M a = Some (OwnedModel v d)"
  shows "\<exists>r s2 M'. ref_from_shape \<lparr>owned = Some a\<rparr> M = Inr r \<and> shape34_from_ref r M = Inr (s2, M')
           \<and> owned s2 = Some (next_addr M) \<and> next_addr M \<noteq> a
           \<and> cells M' (next_addr M) = Some (OwnedModel v d)
           \<and> (\<forall>b. b \<noteq> next_addr M \<longrightarrow> cells M' b = cells M b)
           \<and> ref_from_shape s2 M' = Inr \<lparr>raw = owning_clone_into (next_addr M)\<rparr>"
proof -
  have "next_addr M \<noteq> a" using assms store_new_fresh [OF assms(1)] by (auto simp: store_wf_def)
  with ref_from_shape_live [OF assms(2)] assms(2) show ?thesis
    by (simp add: shape34_from_ref_def nonowning_clone_def owning_clone_into_def ref_from_shape_def store_new_def)
qed

text \<open>C11: a Shape materialised from a reference that can be drawn is independent of the
  referenced objects: its drawing depends on its own new model only, so it survives the
  destruction or change of everything the reference pointed at.\<close>

theorem shape_from_ref_independent:
  assumes "ref_draw r M = Inr e"
  shows "\<exists>s M'. shape34_from_ref r M = Inr (s, M') \<and> owned s = Some (next_addr M)
           \<and> (\<forall>M''. cells M'' (next_addr M) = cells M' (next_addr M) \<longrightarrow> shape34_draw s M'' = Inr e)"
proof -
  from nonowning_clone_Inr [OF assms [unfolded ref_draw_def]] obtain v d where
    "nonowning_clone M (raw r) = Inr (store_new (OwnedModel v d) M)" and "e = d v" by blast
  then show ?thesis by (simp add: shape34_from_ref_def shape34_draw_def owning_model_at_def store_new_def)
qed

text \<open>C12: the reference does not keep its target alive: once the Shape it was made from
  is destroyed, drawing through the reference reads a destroyed object. The source
  leaves this to the caller; the model makes the dangling read visible.\<close>

theorem ref_dangles_after_owner_destroyed:
  assumes "ref_from_shape s M = Inr r" and "shape34_destroy s M = Inr M'"
  shows "ref_draw r M' = Inl Dangling"
proof -
  from assms(1) obtain a v d where s: "s = \<lparr>owned = Some a\<rparr>" and a: "cells M a = Some (OwnedModel v d)"
    and r: "r = \<lparr>raw = owning_clone_into a\<rparr>"
    by (cases s) (auto simp: ref_from_shape_def owning_model_at_def split: option.splits obj.splits)
  have "M' = M\<lparr>cells := (cells M)(a := None), deletes := Suc (deletes M)\<rparr>"
    using assms(2) shape34_destroy_live [OF a] by (simp add: s)
  then have "cells M' a = None" by simp
  then show ?thesis by (simp add: r ref_draw_def nonowning_draw_def owning_clone_into_def)
qed

text \<open>The \<open>static_assert\<close>s of \<open>ShapeConstRef\<close> hold for every shape and strategy type:
  every \<open>NonOwningShapeModel\<close> has size \<open>MODEL_SIZE = 3*sizeof(void*)\<close> and the alignment
  of \<open>void*\<close>, so construction always succeeds and stores the two addresses.\<close>

theorem ref_construct_static_asserts_hold:
  "ref_construct shape drawer = Inr \<lparr>raw = NonOwningShapeModel (Whole shape) (Whole drawer)\<rparr>"
  by (simp add: ref_construct_def nonowning_model_layout_def model_size_def struct_layout_def
      round_up_def pointer_layout_def)

text \<open>The reference of part 1 draws the referenced shape with the referenced strategy
  through its thunk, and dangles once the shape is destroyed.\<close>

theorem ref1_draws_referenced:
  assumes "cells M shape = Some (Value v)" and "cells M drawer = Some (Strategy f)"
  shows "use_shape_const_ref (ref1_construct shape drawer) M = Inr (f v)
       \<and> use_shape_const_ref (ref1_construct shape drawer) (M\<lparr>cells := (cells M)(shape := None)\<rparr>) = Inl Dangling"
  using assms by (simp add: use_shape_const_ref_def ref1_draw_def ref1_construct_def draw_thunk_def)

subsection \<open>Instances\<close>

lemma model_mem_wf: "store_wf (snd (store_new (OwnedModel \<lparr>radius = 3.14\<rparr> circle_drawer) empty_store))"
  by (rule store_new_wf) simp

lemma model_mem_cell:
  "cells (snd (store_new (OwnedModel \<lparr>radius = 3.14\<rparr> circle_drawer) empty_store)) 0
     = Some (OwnedModel \<lparr>radius = 3.14\<rparr> circle_drawer)"
  by (simp add: empty_store_def)

theorem ref_from_shape_single_indirection_witness:
  "\<exists>r. ref_from_shape \<lparr>owned = Some 0\<rparr> (snd (store_new (OwnedModel \<lparr>radius = 3.14\<rparr> circle_drawer) empty_store)) = Inr r
     \<and> raw r = NonOwningShapeModel (Sub 0 ShapeMember) (Sub 0 DrawerMember)
     \<and> ref_draw r (snd (store_new (OwnedModel \<lparr>radius = 3.14\<rparr> circle_drawer) empty_store)) = Inr ''drawn''"
  using ref_from_shape_single_indirection [OF model_mem_cell] by (auto simp: circle_drawer_def)

theorem shape_ref_roundtrip_witness:
  "\<exists>r s2 M'. ref_from_shape \<lparr>owned = Some 0\<rparr> (snd (store_new (OwnedModel \<lparr>radius = 3.14\<rparr> circle_drawer) empty_store)) = Inr r
     \<and> shape34_from_ref r (snd (store_new (OwnedModel \<lparr>radius = 3.14\<rparr> circle_drawer) empty_store)) = Inr (s2, M')
     \<and> owned s2 = Some 1 \<and> cells M' 1 = Some (OwnedModel \<lparr>radius = 3.14\<rparr> circle_drawer)"
proof -
  from shape_ref_roundtrip [OF model_mem_wf model_mem_cell] obtain r s2 M' where
    "ref_from_shape \<lparr>owned = Some 0\<rparr> (snd (store_new (OwnedModel \<lparr>radius = 3.14\<rparr> circle_drawer) empty_store)) = Inr r"
    "shape34_from_ref r (snd (store_new (OwnedModel \<lparr>radius = 3.14\<rparr> circle_drawer) empty_store)) = Inr (s2, M')"
    "owned s2 = Some (next_addr (snd (store_new (OwnedModel \<lparr>radius = 3.14\<rparr> circle_drawer) empty_store)))"
    "cells M' (next_addr (snd (store_new (OwnedModel \<lparr>radius = 3.14\<rparr> circle_drawer) empty_store)))
       = Some (OwnedModel \<lparr>radius = 3.14\<rparr> circle_drawer)"
    by blast
  then show ?thesis by (auto simp: empty_store_def store_new_def)
qed

theorem shape_from_ref_independent_witness:
  "\<exists>s M'. shape34_from_ref \<lparr>raw = owning_clone_into 0\<rparr> (snd (store_new (OwnedModel \<lparr>radius = 3.14\<rparr> circle_drawer) empty_store))
       = Inr (s, M') \<and> owned s = Some 1
     \<and> shape34_draw s (M'\<lparr>cells := (cells M')(0 := None)\<rparr>) = Inr ''drawn''"
proof -
  have "ref_draw \<lparr>raw = owning_clone_into 0\<rparr> (snd (store_new (OwnedModel \<lparr>radius = 3.14\<rparr> circle_drawer) empty_store))
          = Inr ''drawn''"
    using model_mem_cell by (simp add: ref_draw_def owning_clone_into_def nonowning_draw_def circle_drawer_def)
  from shape_from_ref_independent [OF this] show ?thesis by (fastforce simp: empty_store_def)
qed

theorem ref_dangles_after_owner_destroyed_witness:
  "ref_draw \<lparr>raw = owning_clone_into 0\<rparr>
     ((snd (store_new (OwnedModel \<lparr>radius = 3.14\<rparr> circle_drawer) empty_store))
        \<lparr>cells := (cells (snd (store_new (OwnedModel \<lparr>radius = 3.14\<rparr> circle_drawer) empty_store)))(0 := None),
         deletes := Suc (deletes (snd (store_new (OwnedModel \<lparr>radius = 3.14\<rparr> circle_drawer) empty_store)))\<rparr>)
   = (Inl Dangling :: string result)"
  using ref_dangles_after_owner_destroyed [OF ref_from_shape_live [OF model_mem_cell] shape34_destroy_live [OF model_mem_cell]] .

theorem ref1_draws_referenced_witness:
  "use_shape_const_ref (ref1_construct 0 1) main34_1_mem = Inr ''drawn''
   \<and> use_shape_const_ref (ref1_construct 0 1) (main34_1_mem\<lparr>cells := (cells main34_1_mem)(0 := None)\<rparr>) = Inl Dangling"
  using ref1_draws_referenced [of main34_1_mem 0 "\<lparr>radius = 3.14\<rparr>" 1 circle_drawer]
  by (simp add: main34_1_mem_def store_auto_def empty_store_def circle_drawer_def)

lemma main34_1_value: "main34_1 = Inr ''drawn''"
  by (simp add: main34_1_def store_auto_def empty_store_def use_shape_const_ref_def ref1_draw_def
      ref1_construct_def draw_thunk_def circle_drawer_def)

lemma main34_2_value:
  "main34_2 = Inr ([''drawn'', ''drawn'', ''drawn''],
     \<lparr>cells = [0 \<mapsto> Value \<lparr>radius = 3.14\<rparr>, 1 \<mapsto> Strategy circle_drawer], next_addr = 4, news = 2, deletes = 2\<rparr>)"
  by (simp add: main34_2_def store_auto_def store_new_def empty_store_def shape34_construct_def shape34_draw_def
      owning_model_at_def ref_from_shape_def ref_draw_def owning_clone_into_def nonowning_draw_def
      shape34_from_ref_def nonowning_clone_def shape34_destroy_def unique_release_def store_delete_def
      circle_drawer_def fun_upd_twist)

end
