(* ===== verification/Manual_Dispatch.thy ===== *)
theory Manual_Dispatch
  imports Type_Erasure
begin

text \<open>
  Guideline 33 (\<open>src/G33_Manual_Virtual_Dispatch.cpp\<close>): the heap-backed \<open>Shape\<close>
  without virtual functions. The model \<open>OwningModel<ShapeT,DrawStrategy>\<close> is a plain
  pair of shape and strategy (the same content as \<open>OwningShapeModel\<close> of Guideline 32,
  so the same store of models is used), held by
  \<open>std::unique_ptr<void,DestroyOperation*> pimpl_\<close>, and the constructor stores three
  function pointers, instantiated for the concrete types, that delete, draw and clone
  the model through a \<open>void*\<close>. Copies and moves copy the function pointers.

  The function pointers are fields of the record; the lambdas of the constructor are
  the definitions \<open>mvd_destroy_op\<close>, \<open>mvd_draw_op\<close> and \<open>mvd_clone_op\<close>. The main result is
  a lockstep refinement: forgetting the function pointers maps every step of this
  wrapper, faults included, to the same step of the wrapper of Guideline 32.
\<close>

record ('v, 'e) mvd_shape =
  mvd_pimpl :: "addr option"
  mvd_deleter :: "addr \<Rightarrow> ('v, 'e) model_heap \<Rightarrow> ('v, 'e) model_heap result"
  mvd_draw_fn :: "addr option \<Rightarrow> ('v, 'e) model_heap \<Rightarrow> 'e result"
  mvd_clone_fn :: "addr option \<Rightarrow> ('v, 'e) model_heap \<Rightarrow> (addr \<times> ('v, 'e) model_heap) result"

type_synonym ('v, 'e) mvd_env = "var \<Rightarrow> ('v, 'e) mvd_shape option"

text \<open>The deleter lambda: \<open>delete static_cast<Model*>(shapeBytes)\<close>. \<open>unique_ptr\<close> calls it
  only with a non-null pointer.\<close>

definition mvd_destroy_op :: "addr \<Rightarrow> ('v, 'e) model_heap \<Rightarrow> ('v, 'e) model_heap result" where
  "mvd_destroy_op shapeBytes M = store_delete shapeBytes M"

text \<open>The draw lambda: \<open>(*model->drawer_)( model->shape_ )\<close> on the cast pointer.\<close>

definition mvd_draw_op :: "addr option \<Rightarrow> ('v, 'e) model_heap \<Rightarrow> 'e result" where
  "mvd_draw_op shapeBytes M =
     bind_result (deref M shapeBytes) (\<lambda>model. case model of OwningShapeModel shape drawer \<Rightarrow> Inr (drawer shape))"

text \<open>The clone lambda: \<open>return new Model( *model );\<close>\<close>

definition mvd_clone_op :: "addr option \<Rightarrow> ('v, 'e) model_heap \<Rightarrow> (addr \<times> ('v, 'e) model_heap) result" where
  "mvd_clone_op shapeBytes M = bind_result (deref M shapeBytes) (\<lambda>model. Inr (store_new model M))"

definition mvd_construct :: "'v \<Rightarrow> ('v \<Rightarrow> 'e) \<Rightarrow> ('v, 'e) model_heap \<Rightarrow> ('v, 'e) mvd_shape \<times> ('v, 'e) model_heap" where
  "mvd_construct shape drawer M =
     (let (a, M') = store_new (OwningShapeModel shape drawer) M in
      (\<lparr>mvd_pimpl = Some a, mvd_deleter = mvd_destroy_op, mvd_draw_fn = mvd_draw_op, mvd_clone_fn = mvd_clone_op\<rparr>, M'))"

text \<open>\<open>Shape( Shape const& other )\<close>: clone through \<open>other.clone_\<close>, copy the deleter and
  both function pointers.\<close>

definition mvd_copy :: "('v, 'e) mvd_shape \<Rightarrow> ('v, 'e) model_heap \<Rightarrow> (('v, 'e) mvd_shape \<times> ('v, 'e) model_heap) result" where
  "mvd_copy other M =
     bind_result (mvd_clone_fn other (mvd_pimpl other) M) (\<lambda>(a, M').
       Inr (\<lparr>mvd_pimpl = Some a, mvd_deleter = mvd_deleter other,
             mvd_draw_fn = mvd_draw_fn other, mvd_clone_fn = mvd_clone_fn other\<rparr>, M'))"

text \<open>\<open>~Shape() = default\<close>: the destructor of \<open>pimpl_\<close> calls its deleter on a non-null
  pointer.\<close>

definition mvd_destroy :: "('v, 'e) mvd_shape \<Rightarrow> ('v, 'e) model_heap \<Rightarrow> ('v, 'e) model_heap result" where
  "mvd_destroy s M = (case mvd_pimpl s of None \<Rightarrow> Inr M | Some a \<Rightarrow> mvd_deleter s a M)"

text \<open>Copy assignment: \<open>Shape copy( other );\<close> then \<open>swap\<close> of \<open>pimpl_\<close> (pointer and deleter),
  \<open>draw_\<close> and \<open>clone_\<close>; \<open>copy\<close> is destroyed with the old model.\<close>

definition mvd_copy_assign ::
  "('v, 'e) mvd_shape \<Rightarrow> ('v, 'e) mvd_shape \<Rightarrow> ('v, 'e) model_heap \<Rightarrow> (('v, 'e) mvd_shape \<times> ('v, 'e) model_heap) result" where
  "mvd_copy_assign this other M =
     bind_result (mvd_copy other M) (\<lambda>(copy, M1).
       let this' = this\<lparr>mvd_pimpl := mvd_pimpl copy, mvd_deleter := mvd_deleter copy,
                        mvd_draw_fn := mvd_draw_fn copy, mvd_clone_fn := mvd_clone_fn copy\<rparr>;
           copy' = copy\<lparr>mvd_pimpl := mvd_pimpl this, mvd_deleter := mvd_deleter this,
                        mvd_draw_fn := mvd_draw_fn this, mvd_clone_fn := mvd_clone_fn this\<rparr> in
       bind_result (mvd_destroy copy' M1) (\<lambda>M2. Inr (this', M2)))"

text \<open>\<open>Shape( Shape&& ) = default\<close>: the \<open>unique_ptr\<close> is moved (the source becomes null),
  the deleter and the raw function pointers are copied and stay in the source.\<close>

definition mvd_move :: "('v, 'e) mvd_shape \<Rightarrow> ('v, 'e) mvd_shape \<times> ('v, 'e) mvd_shape" where
  "mvd_move other = (other, other\<lparr>mvd_pimpl := None\<rparr>)"

text \<open>\<open>Shape& operator=( Shape&& ) = default\<close>, memberwise: \<open>pimpl_ = std::move(other.pimpl_)\<close>
  is \<open>reset( other.release() )\<close> with the target's old deleter, then the deleter is taken
  over; then \<open>draw_\<close> and \<open>clone_\<close> are copied.\<close>

definition mvd_move_assign ::
  "var \<Rightarrow> var \<Rightarrow> ('v, 'e) mvd_env \<Rightarrow> ('v, 'e) model_heap \<Rightarrow> (('v, 'e) mvd_env \<times> ('v, 'e) model_heap) result" where
  "mvd_move_assign x y E M =
     bind_result (lookup_var E y) (\<lambda>other.
       let p = mvd_pimpl other; E1 = E(y \<mapsto> other\<lparr>mvd_pimpl := None\<rparr>) in
       bind_result (lookup_var E1 x) (\<lambda>this.
         let old = mvd_pimpl this;
             this' = this\<lparr>mvd_pimpl := p, mvd_deleter := mvd_deleter other,
                          mvd_draw_fn := mvd_draw_fn other, mvd_clone_fn := mvd_clone_fn other\<rparr> in
         bind_result (case old of None \<Rightarrow> Inr M | Some b \<Rightarrow> mvd_deleter this b M) (\<lambda>M'.
           Inr (E1(x \<mapsto> this'), M'))))"

text \<open>\<open>friend void draw( Shape const& shape ) { shape.draw_( shape.pimpl_.get() ); }\<close>\<close>

definition mvd_draw :: "('v, 'e) mvd_shape \<Rightarrow> ('v, 'e) model_heap \<Rightarrow> 'e result" where
  "mvd_draw shape M = mvd_draw_fn shape (mvd_pimpl shape) M"

fun mvd_step ::
  "('v, 'e) mvd_env \<times> ('v, 'e) model_heap \<Rightarrow> ('v, 'e) box_op \<Rightarrow> ((('v, 'e) mvd_env \<times> ('v, 'e) model_heap) \<times> 'e list) result" where
  "mvd_step (E, M) (Construct x v d) = (let (s, M') = mvd_construct v d M in Inr ((E(x \<mapsto> s), M'), []))"
| "mvd_step (E, M) (CopyConstruct x y) =
     bind_result (lookup_var E y) (\<lambda>other.
       bind_result (mvd_copy other M) (\<lambda>(s, M'). Inr ((E(x \<mapsto> s), M'), [])))"
| "mvd_step (E, M) (MoveConstruct x y) =
     bind_result (lookup_var E y) (\<lambda>other.
       let (s, other') = mvd_move other in Inr ((E(y \<mapsto> other', x \<mapsto> s), M), []))"
| "mvd_step (E, M) (CopyAssign x y) =
     bind_result (lookup_var E x) (\<lambda>this. bind_result (lookup_var E y) (\<lambda>other.
       bind_result (mvd_copy_assign this other M) (\<lambda>(this', M'). Inr ((E(x \<mapsto> this'), M'), []))))"
| "mvd_step (E, M) (MoveAssign x y) =
     bind_result (mvd_move_assign x y E M) (\<lambda>(E', M'). Inr ((E', M'), []))"
| "mvd_step (E, M) (Draw x) =
     bind_result (lookup_var E x) (\<lambda>s. bind_result (mvd_draw s M) (\<lambda>e. Inr ((E, M), [e])))"
| "mvd_step (E, M) (Destroy x) =
     bind_result (lookup_var E x) (\<lambda>s. bind_result (mvd_destroy s M) (\<lambda>M'. Inr ((E(x := None), M'), [])))"

definition main33_mvd :: "(circle, string) box_op list" where
  "main33_mvd =
     [Construct ''shape1'' \<lparr>radius = 3.14\<rparr> circle_drawer, Draw ''shape1'',
      CopyConstruct ''shape2'' ''shape1'', Draw ''shape2'',
      Destroy ''shape2'', Destroy ''shape1'']"

subsection \<open>Abstraction to the wrapper of Guideline 32\<close>

definition mvd_abs :: "('v, 'e) mvd_shape \<Rightarrow> heap_shape" where
  "mvd_abs s = \<lparr>pimpl = mvd_pimpl s\<rparr>"

definition mvd_abs_env :: "('v, 'e) mvd_env \<Rightarrow> shape_env" where
  "mvd_abs_env E = (\<lambda>x. map_option mvd_abs (E x))"

text \<open>The function pointers are those the constructor instantiated.\<close>

definition mvd_canon :: "('v, 'e) mvd_shape \<Rightarrow> bool" where
  "mvd_canon s \<longleftrightarrow> mvd_deleter s = mvd_destroy_op \<and> mvd_draw_fn s = mvd_draw_op \<and> mvd_clone_fn s = mvd_clone_op"

definition mvd_canon_env :: "('v, 'e) mvd_env \<Rightarrow> bool" where
  "mvd_canon_env E \<longleftrightarrow> (\<forall>x s. E x = Some s \<longrightarrow> mvd_canon s)"

subsection \<open>Lockstep with the wrapper of Guideline 32\<close>

lemma map_sum_bind_result:
  "map_sum id f (bind_result r g) = bind_result r (\<lambda>a. map_sum id f (g a))"
  by (cases r) simp_all

lemma bind_result_map_sum:
  "bind_result (map_sum id f r) g = bind_result r (\<lambda>a. g (f a))"
  by (cases r) simp_all

lemma mvd_abs_env_upd [simp]:
  "mvd_abs_env (E(x \<mapsto> s)) = (mvd_abs_env E)(x \<mapsto> mvd_abs s)"
  "mvd_abs_env (E(x := None)) = (mvd_abs_env E)(x := None)"
  "mvd_abs_env Map.empty = Map.empty"
  by (simp_all add: mvd_abs_env_def fun_eq_iff)

lemma mvd_lookup_abs:
  "lookup_var (mvd_abs_env E) x = map_sum id mvd_abs (lookup_var E x)"
  by (simp add: lookup_var_def mvd_abs_env_def split: option.splits)

lemma mvd_canon_env_upd:
  "mvd_canon_env E \<Longrightarrow> mvd_canon s \<Longrightarrow> mvd_canon_env (E(x \<mapsto> s))"
  "mvd_canon_env E \<Longrightarrow> mvd_canon_env (E(x := None))"
  by (simp_all add: mvd_canon_env_def)

lemma mvd_canon_lookup:
  "mvd_canon_env E \<Longrightarrow> lookup_var E x = Inr s \<Longrightarrow> mvd_canon s"
  by (auto simp: mvd_canon_env_def lookup_var_def split: option.splits)

lemma mvd_draw_abs:
  "mvd_canon s \<Longrightarrow> mvd_draw s M = shape_draw (mvd_abs s) M"
  by (cases "deref M (mvd_pimpl s)")
     (auto simp: mvd_canon_def mvd_draw_def mvd_draw_op_def shape_draw_def mvd_abs_def model_draw_def
       split: owning_shape_model.splits)

lemma mvd_destroy_abs:
  "mvd_canon s \<Longrightarrow> mvd_destroy s M = shape_destroy (mvd_abs s) M"
  by (simp add: mvd_canon_def mvd_destroy_def mvd_destroy_op_def shape_destroy_def mvd_abs_def
      unique_release_def split: option.splits)

lemma mvd_copy_abs:
  assumes "mvd_canon s"
  shows "map_sum id (\<lambda>(c, M'). (mvd_abs c, M')) (mvd_copy s M) = shape_copy (mvd_abs s) M"
    and "mvd_copy s M = Inr (c, M') \<Longrightarrow> mvd_canon c"
  using assms
  by (auto simp: mvd_canon_def mvd_copy_def mvd_clone_op_def shape_copy_def mvd_abs_def model_clone_def
      bind_result_def split: sum.splits prod.splits)

lemma mvd_copy_assign_abs:
  assumes cthis: "mvd_canon this" and other: "mvd_canon other"
  shows "map_sum id (\<lambda>(c, M'). (mvd_abs c, M')) (mvd_copy_assign this other M) =
           shape_copy_assign (mvd_abs this) (mvd_abs other) M"
    and "mvd_copy_assign this other M = Inr (c, M') \<Longrightarrow> mvd_canon c"
proof -
  have "map_sum id (\<lambda>(c, M'). (mvd_abs c, M')) (mvd_copy_assign this other M) =
          shape_copy_assign (mvd_abs this) (mvd_abs other) M
        \<and> (mvd_copy_assign this other M = Inr (c, M') \<longrightarrow> mvd_canon c)"
  proof (cases "mvd_copy other M")
    case (Inl e)
    with mvd_copy_abs(1) [OF other, of M] have "shape_copy (mvd_abs other) M = Inl e" by simp
    with Inl show ?thesis by (simp add: mvd_copy_assign_def shape_copy_assign_def)
  next
    case (Inr r)
    obtain copy M1 where r: "r = (copy, M1)" by (cases r)
    with Inr have cp: "mvd_copy other M = Inr (copy, M1)" by simp
    have canon: "mvd_canon copy" by (rule mvd_copy_abs(2) [OF other cp])
    from mvd_copy_abs(1) [OF other, of M] cp have hc: "shape_copy (mvd_abs other) M = Inr (mvd_abs copy, M1)"
      by simp
    have "mvd_destroy (copy\<lparr>mvd_pimpl := mvd_pimpl this, mvd_deleter := mvd_deleter this,
                           mvd_draw_fn := mvd_draw_fn this, mvd_clone_fn := mvd_clone_fn this\<rparr>) M1
            = shape_destroy \<lparr>pimpl = mvd_pimpl this\<rparr> M1"
      using cthis by (simp add: mvd_destroy_abs mvd_canon_def mvd_abs_def)
    with cp hc canon show ?thesis
      by (cases "shape_destroy \<lparr>pimpl = mvd_pimpl this\<rparr> M1")
         (auto simp: mvd_copy_assign_def shape_copy_assign_def mvd_abs_def mvd_canon_def)
  qed
  then show "map_sum id (\<lambda>(c, M'). (mvd_abs c, M')) (mvd_copy_assign this other M) =
               shape_copy_assign (mvd_abs this) (mvd_abs other) M"
    and "mvd_copy_assign this other M = Inr (c, M') \<Longrightarrow> mvd_canon c" by blast+
qed

lemma mvd_move_assign_abs:
  assumes canon: "mvd_canon_env E"
  shows "map_sum id (\<lambda>(E', M'). (mvd_abs_env E', M')) (mvd_move_assign x y E M) =
           shape_move_assign x y (mvd_abs_env E) M"
    and "mvd_move_assign x y E M = Inr (E', M') \<Longrightarrow> mvd_canon_env E'"
proof -
  have "map_sum id (\<lambda>(E', M'). (mvd_abs_env E', M')) (mvd_move_assign x y E M) =
          shape_move_assign x y (mvd_abs_env E) M
        \<and> (mvd_move_assign x y E M = Inr (E', M') \<longrightarrow> mvd_canon_env E')"
  proof (cases "E y")
    case None
    then show ?thesis by (simp add: mvd_move_assign_def shape_move_assign_def lookup_var_def mvd_abs_env_def)
  next
    case (Some other)
    have co: "mvd_canon other" using canon Some by (simp add: mvd_canon_env_def)
    let ?E1 = "E(y \<mapsto> other\<lparr>mvd_pimpl := None\<rparr>)"
    have c1: "mvd_canon_env ?E1" using canon co by (simp add: mvd_canon_env_upd mvd_canon_def)
    show ?thesis
    proof (cases "?E1 x")
      case None
      then have "x \<noteq> y" "E x = None" by (auto split: if_splits)
      with Some show ?thesis
        by (simp add: mvd_move_assign_def shape_move_assign_def lookup_var_def mvd_abs_env_def mvd_abs_def)
    next
      case (Some this)
      have ct: "mvd_canon this" using c1 Some by (simp add: mvd_canon_env_def)
      have del: "(case mvd_pimpl this of None \<Rightarrow> Inr M | Some b \<Rightarrow> mvd_deleter this b M)
                   = unique_release (mvd_pimpl this) M"
        using ct by (simp add: mvd_canon_def mvd_destroy_op_def unique_release_def split: option.splits)
      have ax: "(mvd_abs_env E)(y \<mapsto> \<lparr>pimpl = None\<rparr>) = mvd_abs_env ?E1" by (simp add: mvd_abs_def)
      have ax1: "(mvd_abs_env ?E1) x = Some (mvd_abs this)" using Some by (simp add: mvd_abs_env_def)
      have c2: "mvd_canon_env (?E1(x \<mapsto> this\<lparr>mvd_pimpl := mvd_pimpl other, mvd_deleter := mvd_deleter other,
                   mvd_draw_fn := mvd_draw_fn other, mvd_clone_fn := mvd_clone_fn other\<rparr>))"
        using c1 co by (simp add: mvd_canon_env_upd mvd_canon_def)
      from \<open>E y = Some other\<close> Some del ax ax1 c2 show ?thesis
        by (cases "unique_release (mvd_pimpl this) M")
           (auto simp: mvd_move_assign_def shape_move_assign_def lookup_var_def mvd_abs_def
             mvd_abs_env_def heap_shape_update_unit)
    qed
  qed
  then show "map_sum id (\<lambda>(E', M'). (mvd_abs_env E', M')) (mvd_move_assign x y E M) =
               shape_move_assign x y (mvd_abs_env E) M"
    and "mvd_move_assign x y E M = Inr (E', M') \<Longrightarrow> mvd_canon_env E'" by blast+
qed

abbreviation mvd_abs_run where
  "mvd_abs_run \<equiv> map_sum id (\<lambda>((E', M'), t). ((mvd_abs_env E', M'), t))"

lemma mvd_canon_construct: "mvd_canon (fst (mvd_construct v d M))"
  by (simp add: mvd_construct_def mvd_canon_def split: prod.splits)

lemma mvd_step_abs:
  assumes canon: "mvd_canon_env E"
  shows "mvd_abs_run (mvd_step (E, M) p) = heap_step (mvd_abs_env E, M) p
         \<and> (mvd_step (E, M) p = Inr ((E', M'), t) \<longrightarrow> mvd_canon_env E')"
proof (cases p)
  case (Construct x v d)
  then show ?thesis using canon mvd_canon_construct [of v d M]
    by (auto simp: mvd_construct_def shape_construct_def mvd_abs_def mvd_canon_env_upd split: prod.splits)
next
  case (CopyConstruct x y)
  show ?thesis
  proof (cases "lookup_var E y")
    case (Inr other)
    have co: "mvd_canon other" using mvd_canon_lookup [OF canon Inr] .
    show ?thesis using mvd_copy_abs(1) [OF co, of M, symmetric] mvd_copy_abs(2) [OF co] CopyConstruct Inr canon
      by (cases "mvd_copy other M") (auto simp: mvd_lookup_abs mvd_canon_env_upd)
  qed (simp add: CopyConstruct mvd_lookup_abs)
next
  case (MoveConstruct x y)
  show ?thesis
  proof (cases "lookup_var E y")
    case (Inr other)
    have co: "mvd_canon other" using mvd_canon_lookup [OF canon Inr] .
    then have "mvd_canon (other\<lparr>mvd_pimpl := None\<rparr>)" by (simp add: mvd_canon_def)
    with co MoveConstruct Inr canon show ?thesis
      by (auto simp: mvd_lookup_abs mvd_move_def shape_move_def mvd_abs_def mvd_canon_env_upd)
  qed (simp add: MoveConstruct mvd_lookup_abs)
next
  case (CopyAssign x y)
  show ?thesis
  proof (cases "lookup_var E x")
    case (Inr this)
    have ct: "mvd_canon this" using mvd_canon_lookup [OF canon Inr] .
    show ?thesis
    proof (cases "lookup_var E y")
      case (Inr other)
      have co: "mvd_canon other" using mvd_canon_lookup [OF canon Inr] .
      show ?thesis using mvd_copy_assign_abs(1) [OF ct co, of M, symmetric] mvd_copy_assign_abs(2) [OF ct co]
          CopyAssign \<open>lookup_var E x = Inr this\<close> Inr canon
        by (cases "mvd_copy_assign this other M") (auto simp: mvd_lookup_abs mvd_canon_env_upd)
    qed (simp add: CopyAssign Inr mvd_lookup_abs)
  qed (simp add: CopyAssign mvd_lookup_abs)
next
  case (MoveAssign x y)
  show ?thesis using mvd_move_assign_abs(1) [OF canon, of x y M, symmetric] mvd_move_assign_abs(2) [OF canon] MoveAssign
    by (cases "mvd_move_assign x y E M") auto
next
  case (Draw x)
  show ?thesis
  proof (cases "lookup_var E x")
    case (Inr s)
    with mvd_canon_lookup [OF canon Inr] Draw canon show ?thesis
      by (cases "shape_draw (mvd_abs s) M") (auto simp: mvd_lookup_abs mvd_draw_abs)
  qed (simp add: Draw mvd_lookup_abs)
next
  case (Destroy x)
  show ?thesis
  proof (cases "lookup_var E x")
    case (Inr s)
    with mvd_canon_lookup [OF canon Inr] Destroy canon show ?thesis
      by (cases "shape_destroy (mvd_abs s) M") (auto simp: mvd_lookup_abs mvd_destroy_abs mvd_canon_env_upd)
  qed (simp add: Destroy mvd_lookup_abs)
qed

lemma mvd_run_abs:
  "mvd_canon_env E \<Longrightarrow> mvd_abs_run (script_run mvd_step (E, M) ps) = script_run heap_step (mvd_abs_env E, M) ps"
proof (induction ps arbitrary: E M)
  case (Cons p ps)
  show ?case
  proof (cases "mvd_step (E, M) p")
    case (Inl e)
    with mvd_step_abs [OF Cons.prems, of M p] have "heap_step (mvd_abs_env E, M) p = Inl e" by simp
    with Inl show ?thesis by simp
  next
    case (Inr r)
    obtain E1 M1 t1 where r: "r = ((E1, M1), t1)" by (cases r) auto
    with Inr mvd_step_abs [OF Cons.prems, of M p E1 M1 t1] have
      h: "heap_step (mvd_abs_env E, M) p = Inr ((mvd_abs_env E1, M1), t1)" and c1: "mvd_canon_env E1" by auto
    from Cons.IH [OF c1, of M1, symmetric] Inr r h show ?thesis
      by (cases "script_run mvd_step (E1, M1) ps") auto
  qed
qed simp

lemma mvd_canon_env_empty [simp]: "mvd_canon_env Map.empty"
  by (simp add: mvd_canon_env_def)

subsection \<open>Properties of manual virtual dispatch\<close>

text \<open>C15: manual virtual dispatch changes nothing observable: on every script, contract
  respecting or not, the wrapper with hand-written function pointers takes exactly the
  steps of the wrapper of Guideline 32 once its function pointers are forgotten: the
  same faults, the same draw trace, the same free store and the same pointers.\<close>

theorem mvd_lockstep_heap:
  "mvd_abs_run (script_run mvd_step (Map.empty, M) ps) = script_run heap_step (Map.empty, M) ps"
  using mvd_run_abs [OF mvd_canon_env_empty, of M ps] by simp

text \<open>C16: the wrapper with manual dispatch implements the value contract: every
  contract-respecting script runs without undefined behaviour and draws the abstract
  trace, and its handles and free store satisfy the ownership invariant of the heap
  wrapper (no leak, no double delete).\<close>

theorem mvd_refines_box:
  assumes "box_run Map.empty ps = Some (A, t)"
  shows "\<exists>E M. script_run mvd_step (Map.empty, empty_store) ps = Inr ((E, M), t) \<and> heap_rel A (mvd_abs_env E) M"
proof -
  from heap_run_sim [OF assms heap_rel_init] obtain E0 h where
    run: "script_run heap_step (Map.empty, empty_store) ps = Inr ((E0, h), t)" and rel: "heap_rel A E0 h" by blast
  have "mvd_abs_run (script_run mvd_step (Map.empty, empty_store) ps) = Inr ((E0, h), t)"
    using mvd_run_abs [OF mvd_canon_env_empty, of empty_store ps] run by simp
  then obtain E M where "script_run mvd_step (Map.empty, empty_store) ps = Inr ((E, M), t)"
    and "mvd_abs_env E = E0" "M = h"
    by (cases "script_run mvd_step (Map.empty, empty_store) ps") auto
  with rel show ?thesis by blast
qed

text \<open>C17: a moved-from wrapper keeps its draw and clone function pointers but has a null
  \<open>pimpl_\<close>: drawing or copying it calls the function on a null pointer, and only its
  destruction is harmless.\<close>

theorem mvd_moved_from_destroy_only:
  assumes "mvd_canon s"
  shows "mvd_draw_fn (snd (mvd_move s)) = mvd_draw_fn s
       \<and> mvd_draw (snd (mvd_move s)) M = Inl NullDeref
       \<and> mvd_copy (snd (mvd_move s)) M = Inl NullDeref
       \<and> mvd_destroy (snd (mvd_move s)) M = Inr M"
  using assms by (simp add: mvd_canon_def mvd_move_def mvd_draw_def mvd_draw_op_def mvd_copy_def
      mvd_clone_op_def mvd_destroy_def deref_def)

lemma main33_mvd_box_run:
  "box_run Map.empty main33_mvd = Some (Map.empty, [''drawn'', ''drawn''])"
  by (simp add: main33_mvd_def circle_drawer_def fun_upd_twist)

theorem mvd_refines_box_witness:
  "\<exists>E M. script_run mvd_step (Map.empty, empty_store) main33_mvd = Inr ((E, M), [''drawn'', ''drawn''])
     \<and> heap_rel Map.empty (mvd_abs_env E) M"
  using mvd_refines_box [OF main33_mvd_box_run] .

theorem mvd_moved_from_destroy_only_witness:
  "mvd_draw (snd (mvd_move (fst (mvd_construct \<lparr>radius = 3.14\<rparr> circle_drawer empty_store)))) empty_store
     = Inl NullDeref
   \<and> mvd_destroy (snd (mvd_move (fst (mvd_construct \<lparr>radius = 3.14\<rparr> circle_drawer empty_store)))) empty_store
     = Inr empty_store"
  using mvd_moved_from_destroy_only [OF mvd_canon_construct, of "\<lparr>radius = 3.14\<rparr>" circle_drawer empty_store empty_store]
  by simp

end
