(* ===== verification/Command.thy ===== *)
theory Command
  imports Prelude
begin

text \<open>
  Guideline 21 (\<open>src/G21_Command.cpp\<close>): a calculator that executes
  \<open>CalculatorCommand\<close>s on an \<open>int\<close> and keeps them on a stack to undo them. The class
  hierarchy \<open>Add\<close>, \<open>Subtract\<close> is a datatype with one constructor per class, the virtual
  functions \<open>execute\<close> and \<open>undo\<close> are functions by cases; the \<open>int\<close> is a 32-bit word
  (\<open>Prelude.int32\<close>) whose signed overflow is the fault \<open>SignedOverflow\<close>. The
  \<open>std::stack\<close> is a list with its top at the head.
\<close>

datatype calculator_command = Add int32 | Subtract int32

fun execute :: "calculator_command \<Rightarrow> int32 \<Rightarrow> int32 result" where
  "execute (Add operand) i = int_add i operand"
| "execute (Subtract operand) i = int_sub i operand"

fun undo :: "calculator_command \<Rightarrow> int32 \<Rightarrow> int32 result" where
  "undo (Add operand) i = int_sub i operand"
| "undo (Subtract operand) i = int_add i operand"

record calculator =
  current :: int32
  stack :: "calculator_command list"

definition calculator_init :: calculator where
  "calculator_init = \<lparr>current = 0, stack = []\<rparr>"

definition compute :: "calculator_command \<Rightarrow> calculator \<Rightarrow> calculator result" where
  "compute command c =
     bind_result (execute command (current c)) (\<lambda>r. Inr (c\<lparr>current := r, stack := command # stack c\<rparr>))"

definition undoLast :: "calculator \<Rightarrow> calculator result" where
  "undoLast c =
     (case stack c of
        [] \<Rightarrow> Inr c
      | command # rest \<Rightarrow> bind_result (undo command (current c)) (\<lambda>r. Inr (c\<lparr>current := r, stack := rest\<rparr>)))"

definition calc_result :: "calculator \<Rightarrow> int32" where
  "calc_result c = current c"

definition clear :: "calculator \<Rightarrow> calculator" where
  "clear c = c\<lparr>current := 0, stack := []\<rparr>"

text \<open>\<open>main\<close>: four commands, one undo, then \<open>calculator.result()\<close>.\<close>

definition main21 :: "int32 result" where
  "main21 =
     bind_result (compute (Add 3) calculator_init) (\<lambda>c1.
     bind_result (compute (Add 7) c1) (\<lambda>c2.
     bind_result (compute (Subtract 4) c2) (\<lambda>c3.
     bind_result (compute (Subtract 2) c3) (\<lambda>c4.
     bind_result (undoLast c4) (\<lambda>c5. Inr (calc_result c5))))))"

subsection \<open>The stack explains the current value\<close>

text \<open>The value a sequence of commands computes from a start value, in the order they
  were executed.\<close>

fun run_commands :: "int32 \<Rightarrow> calculator_command list \<Rightarrow> int32 result" where
  "run_commands i [] = Inr i"
| "run_commands i (command # cs) = bind_result (execute command i) (\<lambda>r. run_commands r cs)"

definition calc_inv :: "calculator \<Rightarrow> bool" where
  "calc_inv c \<longleftrightarrow> run_commands 0 (rev (stack c)) = Inr (current c)"

text \<open>A client that calls \<open>undoLast\<close> \<open>n\<close> times in a row.\<close>

fun undo_times :: "nat \<Rightarrow> calculator \<Rightarrow> calculator result" where
  "undo_times 0 c = Inr c"
| "undo_times (Suc n) c = bind_result (undoLast c) (undo_times n)"

lemma undo_execute: "execute command i = Inr r \<Longrightarrow> undo command r = Inr i"
  by (cases command) (simp add: int_add_sub_cancel, simp add: int_sub_add_cancel)

lemma run_commands_snoc:
  "run_commands i (cs @ [command]) = bind_result (run_commands i cs) (\<lambda>r. execute command r)"
  by (induction cs arbitrary: i) (simp_all add: bind_result_def split: sum.splits)

text \<open>Under the invariant, \<open>undoLast\<close> on a non-empty stack succeeds, pops the top
  command and keeps the invariant.\<close>

lemma undoLast_pop:
  assumes "calc_inv c" and "stack c = command # rest"
  shows "\<exists>c''. undoLast c = Inr c'' \<and> calc_inv c'' \<and> stack c'' = rest"
proof -
  from assms obtain i where i: "run_commands 0 (rev rest) = Inr i" and ex: "execute command i = Inr (current c)"
    by (auto simp: calc_inv_def run_commands_snoc bind_result_eq_Inr)
  with assms(2) show ?thesis by (simp add: undoLast_def undo_execute calc_inv_def)
qed

subsection \<open>Properties of the calculator\<close>

text \<open>C18: the invariant of the calculator: its current value is what the commands on its
  stack compute from 0, bottom to top. Initialisation and \<open>clear\<close> establish it, a
  successful \<open>compute\<close> keeps it, and under it \<open>undoLast\<close> never overflows and keeps it.\<close>

theorem calculator_invariant:
  "calc_inv calculator_init \<and> calc_inv (clear c)
   \<and> (calc_inv c \<longrightarrow> compute command c = Inr c' \<longrightarrow> calc_inv c')
   \<and> (calc_inv c \<longrightarrow> (\<exists>c''. undoLast c = Inr c'' \<and> calc_inv c''))"
proof (intro conjI impI)
  show "calc_inv calculator_init" "calc_inv (clear c)"
    by (simp_all add: calc_inv_def calculator_init_def clear_def)
next
  assume "calc_inv c" and "compute command c = Inr c'"
  then show "calc_inv c'"
    by (auto simp: calc_inv_def compute_def run_commands_snoc bind_result_eq_Inr)
next
  assume inv: "calc_inv c"
  show "\<exists>c''. undoLast c = Inr c'' \<and> calc_inv c''"
  proof (cases "stack c")
    case Nil
    with inv show ?thesis by (simp add: undoLast_def)
  next
    case (Cons command rest)
    with undoLast_pop [OF inv] show ?thesis by blast
  qed
qed

text \<open>C19: \<open>undoLast\<close> reverts a successful \<open>compute\<close> exactly: value and stack are those
  before the command, for every command and every start value.\<close>

theorem undoLast_compute:
  assumes "compute command c = Inr c'"
  shows "undoLast c' = Inr c"
  using assms by (auto simp: compute_def undoLast_def bind_result_eq_Inr undo_execute)

theorem undoLast_compute_witness:
  "compute (Add 3) calculator_init = Inr \<lparr>current = 3, stack = [Add 3]\<rparr>
   \<and> undoLast \<lparr>current = 3, stack = [Add 3]\<rparr> = Inr calculator_init"
proof -
  have c: "compute (Add 3) calculator_init = Inr \<lparr>current = 3, stack = [Add 3]\<rparr>"
    by (simp add: compute_def calculator_init_def int_add_def int32_fits_def)
  with undoLast_compute [OF c] show ?thesis by simp
qed

theorem calculator_invariant_witness:
  "calc_inv \<lparr>current = 3, stack = [Add 3]\<rparr>
   \<and> (\<exists>c''. undoLast calculator_init = Inr c'' \<and> calc_inv c'')"
proof -
  have c: "compute (Add 3) calculator_init = Inr \<lparr>current = 3, stack = [Add 3]\<rparr>"
    by (simp add: compute_def calculator_init_def int_add_def int32_fits_def)
  from calculator_invariant [of calculator_init "Add 3" "\<lparr>current = 3, stack = [Add 3]\<rparr>"] c
  show ?thesis by simp
qed

text \<open>C13: undoing makes progress to the start: from every calculator whose value its
  stack explains, calling \<open>undoLast\<close> once per command on the stack succeeds every time
  and reaches the initial calculator, value 0 and empty stack.\<close>

theorem undo_all_restores:
  assumes "calc_inv c"
  shows "undo_times (length (stack c)) c = Inr calculator_init"
  using assms
proof (induction "stack c" arbitrary: c)
  case Nil
  then have "current c = 0" by (simp add: calc_inv_def)
  with Nil.hyps show ?case by (simp add: calculator_init_def)
next
  case (Cons command rest)
  from undoLast_pop [OF Cons.prems Cons.hyps(2) [symmetric]] obtain c'' where
    "undoLast c = Inr c''" "calc_inv c''" "stack c'' = rest" by blast
  with Cons.hyps(1) [of c''] Cons.hyps(2) [symmetric] show ?case by simp
qed

theorem undo_all_restores_witness:
  "calc_inv \<lparr>current = 3, stack = [Add 3]\<rparr>
   \<and> undo_times 1 \<lparr>current = 3, stack = [Add 3]\<rparr> = Inr calculator_init"
proof -
  have inv: "calc_inv \<lparr>current = 3, stack = [Add 3]\<rparr>"
    by (simp add: calc_inv_def int_add_def int32_fits_def)
  from undo_all_restores [OF inv] inv show ?thesis by simp
qed

lemma main21_value: "main21 = Inr 6"
  by (simp add: main21_def compute_def undoLast_def calc_result_def calculator_init_def
      int_add_def int_sub_def int32_fits_def)

end
