(* ===== verification/Visitors.thy ===== *)
theory Visitors
  imports Shapes
begin

text \<open>
  Guidelines 15 to 18: four ways to add the operation \<open>draw\<close> to the closed set of shapes
  \<open>Circle\<close> and \<open>Square\<close>, each driven by \<open>drawAllShapes\<close> over a vector of shapes.
  \<^item> \<open>src/G15_Procedural_Solution.cpp\<close>: a \<open>ShapeType\<close> tag in the base class, a \<open>switch\<close>
    on it and a \<open>static_cast\<close> to the derived class;
  \<^item> \<open>src/G16_Cyclic_Visitor.cpp\<close>: the classic Visitor, \<open>accept\<close> calls the
    \<open>visit\<close> overload of the visitor for the object's class (double dispatch);
  \<^item> \<open>src/G17_Visitor.cpp\<close>: \<open>std::variant<Circle,Square>\<close> and \<open>std::visit\<close>;
  \<^item> \<open>src/G18_Acyclic_Visitor.cpp\<close>: \<open>accept\<close> asks with \<open>dynamic_cast\<close> whether the visitor
    implements \<open>Visitor<Circle>\<close> (or \<open>Visitor<Square>\<close>) and does nothing otherwise.
  The drawing functions have empty bodies in the source; drawing is observed as the
  event of calling the circle or the square drawing function with the object, so a run
  of \<open>drawAllShapes\<close> is a list of events. Besides, \<open>src/G17_Variant.cpp\<close> demonstrates
  \<open>std::variant<int,double,std::string>\<close>.
\<close>

datatype draw_event = DrawCircle circle | DrawSquare square

text \<open>The dynamic class of a shape object of the class hierarchies.\<close>

datatype shape_obj = CircleObj circle | SquareObj square

text \<open>What drawing a shape means, independent of the dispatch technique.\<close>

fun draw_ref :: "shape_obj \<Rightarrow> draw_event" where
  "draw_ref (CircleObj c) = DrawCircle c"
| "draw_ref (SquareObj s) = DrawSquare s"

subsection \<open>Guideline 15: type tag and \<open>switch\<close>\<close>

datatype shape_type = CircleType | SquareType

text \<open>A \<open>Shape\<close> object: the tag \<open>type_\<close> of the base class and the derived part.\<close>

record g15_shape =
  type_tag :: shape_type
  derived :: shape_obj

definition g15_circle :: "real \<Rightarrow> g15_shape" where
  "g15_circle r = \<lparr>type_tag = CircleType, derived = CircleObj \<lparr>radius = r\<rparr>\<rparr>"

definition g15_square :: "real \<Rightarrow> g15_shape" where
  "g15_square s = \<lparr>type_tag = SquareType, derived = SquareObj \<lparr>side = s\<rparr>\<rparr>"

text \<open>\<open>static_cast<Circle const&>( *shape )\<close> and \<open>static_cast<Square const&>( *shape )\<close>: a cast to
  a class the object does not have is undefined behaviour.\<close>

definition cast_circle :: "g15_shape \<Rightarrow> circle result" where
  "cast_circle s = (case derived s of CircleObj c \<Rightarrow> Inr c | SquareObj _ \<Rightarrow> Inl BadCast)"

definition cast_square :: "g15_shape \<Rightarrow> square result" where
  "cast_square s = (case derived s of SquareObj q \<Rightarrow> Inr q | CircleObj _ \<Rightarrow> Inl BadCast)"

fun g15_draw_all :: "g15_shape list \<Rightarrow> draw_event list result" where
  "g15_draw_all [] = Inr []"
| "g15_draw_all (shape # shapes) =
     bind_result
       (case type_tag shape of
          CircleType \<Rightarrow> bind_result (cast_circle shape) (\<lambda>c. Inr (DrawCircle c))
        | SquareType \<Rightarrow> bind_result (cast_square shape) (\<lambda>q. Inr (DrawSquare q)))
       (\<lambda>e. bind_result (g15_draw_all shapes) (\<lambda>es. Inr (e # es)))"

definition main15 :: "g15_shape list" where
  "main15 = [g15_circle 2.3, g15_square 1.2, g15_circle 4.1]"

subsection \<open>Guideline 16: the cyclic Visitor\<close>

text \<open>A \<open>ShapeVisitor\<close>: one \<open>visit\<close> overload per shape class.\<close>

record 'e shape_visitor =
  visit_circle :: "circle \<Rightarrow> 'e"
  visit_square :: "square \<Rightarrow> 'e"

text \<open>\<open>Circle::accept\<close> and \<open>Square::accept\<close>: \<open>v.visit( *this )\<close>.\<close>

fun accept :: "shape_obj \<Rightarrow> 'e shape_visitor \<Rightarrow> 'e" where
  "accept (CircleObj c) v = visit_circle v c"
| "accept (SquareObj s) v = visit_square v s"

definition draw_visitor :: "draw_event shape_visitor" where
  "draw_visitor = \<lparr>visit_circle = DrawCircle, visit_square = DrawSquare\<rparr>"

definition g16_draw_all :: "shape_obj list \<Rightarrow> draw_event list" where
  "g16_draw_all shapes = map (\<lambda>shape. accept shape draw_visitor) shapes"

text \<open>\<open>main\<close> of G16: a circle, a square and a circle, drawn in order.\<close>

definition main16 :: "shape_obj list" where
  "main16 = [CircleObj \<lparr>radius = 2.3\<rparr>, SquareObj \<lparr>side = 1.2\<rparr>, CircleObj \<lparr>radius = 4.1\<rparr>]"

subsection \<open>Guideline 17: \<open>std::variant\<close> and \<open>std::visit\<close>\<close>

datatype shape_variant = VCircle circle | VSquare square

text \<open>\<open>std::visit( Draw{}, shape )\<close>: the overload of \<open>Draw::operator()\<close> for the active
  alternative.\<close>

fun visit_draw :: "shape_variant \<Rightarrow> draw_event" where
  "visit_draw (VCircle c) = DrawCircle c"
| "visit_draw (VSquare s) = DrawSquare s"

definition g17_draw_all :: "shape_variant list \<Rightarrow> draw_event list" where
  "g17_draw_all shapes = map visit_draw shapes"

definition main17 :: "shape_variant list" where
  "main17 = [VCircle \<lparr>radius = 2.3\<rparr>, VSquare \<lparr>side = 1.2\<rparr>, VCircle \<lparr>radius = 4.1\<rparr>]"

subsection \<open>Guideline 18: the acyclic Visitor\<close>

text \<open>An \<open>AbstractVisitor\<close>, seen through \<open>dynamic_cast\<close>: the \<open>Visitor<Circle>\<close> and
  \<open>Visitor<Square>\<close> bases it has, if any.\<close>

record 'e acyclic_visitor =
  as_circle_visitor :: "(circle \<Rightarrow> 'e) option"
  as_square_visitor :: "(square \<Rightarrow> 'e) option"

fun acyclic_accept :: "shape_obj \<Rightarrow> 'e acyclic_visitor \<Rightarrow> 'e list" where
  "acyclic_accept (CircleObj c) v = (case as_circle_visitor v of Some cv \<Rightarrow> [cv c] | None \<Rightarrow> [])"
| "acyclic_accept (SquareObj s) v = (case as_square_visitor v of Some sv \<Rightarrow> [sv s] | None \<Rightarrow> [])"

definition acyclic_draw :: "draw_event acyclic_visitor" where
  "acyclic_draw = \<lparr>as_circle_visitor = Some DrawCircle, as_square_visitor = Some DrawSquare\<rparr>"

definition g18_draw_all :: "shape_obj list \<Rightarrow> draw_event list" where
  "g18_draw_all shapes = concat (map (\<lambda>shape. acyclic_accept shape acyclic_draw) shapes)"

text \<open>\<open>main\<close> of G18: the same three shapes.\<close>

definition main18 :: "shape_obj list" where
  "main18 = [CircleObj \<lparr>radius = 2.3\<rparr>, SquareObj \<lparr>side = 1.2\<rparr>, CircleObj \<lparr>radius = 4.1\<rparr>]"

subsection \<open>\<open>std::variant<int,double,std::string>\<close>\<close>

datatype print_variant = VInt int32 | VDouble real | VString string

text \<open>The output of the \<open>Print\<close> visitor, one line per call.\<close>

datatype printed = PrintedInt int32 | PrintedDouble real | PrintedString string

fun print_visit :: "print_variant \<Rightarrow> printed" where
  "print_visit (VInt value) = PrintedInt value"
| "print_visit (VDouble value) = PrintedDouble value"
| "print_visit (VString value) = PrintedString value"

text \<open>A value-initialised variant holds its first alternative, \<open>int\<close> 0.\<close>

definition variant_default :: print_variant where
  "variant_default = VInt 0"

text \<open>\<open>std::get<int>\<close> throws \<open>std::bad_variant_access\<close> unless \<open>int\<close> is active;
  \<open>std::get_if<int>\<close> returns a null pointer instead.\<close>

definition get_int :: "print_variant \<Rightarrow> int32 result" where
  "get_int v = (case v of VInt i \<Rightarrow> Inr i | _ \<Rightarrow> Inl BadVariantAccess)"

definition get_if_int :: "print_variant \<Rightarrow> int32 option" where
  "get_if_int v = (case v of VInt i \<Rightarrow> Some i | _ \<Rightarrow> None)"

text \<open>\<open>main\<close>: the successive assignments (the \<open>float\<close> \<open>2.71F\<close> is converted to \<open>double\<close>;
  its rounding to single precision is not modelled), then \<open>get\<close>, \<open>get_if\<close> and
  \<open>std::visit( Print{}, v )\<close>.\<close>

definition main17_variant :: "(int32 \<times> int32 option \<times> printed) result" where
  "main17_variant =
     (let v = fold (\<lambda>new old. new) [VInt 42, VDouble 3.14, VDouble 2.71, VString ''Bjarne'', VInt 43] variant_default
      in bind_result (get_int v) (\<lambda>i. Inr (i, get_if_int v, print_visit v)))"

subsection \<open>Lemmas\<close>

text \<open>The constructors of \<open>Circle\<close> and \<open>Square\<close>, as \<open>main\<close> calls them for a shape.\<close>

fun g15_make :: "shape_obj \<Rightarrow> g15_shape" where
  "g15_make (CircleObj c) = g15_circle (radius c)"
| "g15_make (SquareObj q) = g15_square (side q)"

fun to_variant :: "shape_obj \<Rightarrow> shape_variant" where
  "to_variant (CircleObj c) = VCircle c"
| "to_variant (SquareObj q) = VSquare q"

text \<open>The tag of the base class names the class of the object.\<close>

fun tag_of :: "shape_obj \<Rightarrow> shape_type" where
  "tag_of (CircleObj c) = CircleType"
| "tag_of (SquareObj q) = SquareType"

definition g15_tag_ok :: "g15_shape \<Rightarrow> bool" where
  "g15_tag_ok s \<longleftrightarrow> type_tag s = tag_of (derived s)"

lemma g15_step:
  "(case type_tag s of
      CircleType \<Rightarrow> bind_result (cast_circle s) (\<lambda>c. Inr (DrawCircle c))
    | SquareType \<Rightarrow> bind_result (cast_square s) (\<lambda>q. Inr (DrawSquare q)))
   = (if g15_tag_ok s then Inr (draw_ref (derived s)) else Inl BadCast)"
  by (cases "type_tag s"; cases "derived s") (simp_all add: g15_tag_ok_def cast_circle_def cast_square_def)

lemma g15_make_radius [simp]: "\<lparr>radius = radius c\<rparr> = c" and g15_make_side [simp]: "\<lparr>side = side q\<rparr> = q"
  by (cases c, simp) (cases q, simp)

lemma g15_make_ok: "g15_tag_ok (g15_make x)" and g15_make_derived: "derived (g15_make x) = x"
  by (cases x; simp add: g15_tag_ok_def g15_circle_def g15_square_def)+

lemma accept_draw: "accept x draw_visitor = draw_ref x"
  and visit_draw_variant: "visit_draw (to_variant x) = draw_ref x"
  and acyclic_accept_draw: "acyclic_accept x acyclic_draw = [draw_ref x]"
  by (cases x; simp add: draw_visitor_def acyclic_draw_def)+

subsection \<open>Properties\<close>

text \<open>C20: the \<open>switch\<close> with \<open>static_cast\<close> of Guideline 15 is correct exactly as long as every
  object's tag names its class: then \<open>drawAllShapes\<close> calls the right drawing function for
  each shape in order, and otherwise it performs a bad cast. The constructors of
  \<open>Circle\<close> and \<open>Square\<close> always set the right tag, so the shapes of any program built
  from them are drawn correctly.\<close>

theorem g15_draw_all_correct:
  "g15_draw_all ss = (if list_all g15_tag_ok ss then Inr (map (draw_ref \<circ> derived) ss) else Inl BadCast)
   \<and> g15_draw_all (map g15_make xs) = Inr (map draw_ref xs)"
proof
  show "g15_draw_all ss = (if list_all g15_tag_ok ss then Inr (map (draw_ref \<circ> derived) ss) else Inl BadCast)"
    by (induction ss) (auto simp: g15_step)
  have "g15_draw_all ss = Inr (map (draw_ref \<circ> derived) ss)" if "list_all g15_tag_ok ss" for ss
    using that by (induction ss) (auto simp: g15_step)
  moreover have "list_all g15_tag_ok (map g15_make xs)" by (simp add: list_all_iff g15_make_ok)
  moreover have "map (draw_ref \<circ> derived) (map g15_make xs) = map draw_ref xs" by (simp add: g15_make_derived)
  ultimately show "g15_draw_all (map g15_make xs) = Inr (map draw_ref xs)" by simp
qed

text \<open>C21: the cyclic Visitor, \<open>std::visit\<close> on \<open>std::variant\<close> and the acyclic Visitor with
  the \<open>Draw\<close> visitor all draw every shape once, in order, with the drawing function of
  its class: the three techniques are interchangeable.\<close>

theorem visitors_equivalent:
  "g16_draw_all xs = map draw_ref xs
   \<and> g17_draw_all (map to_variant xs) = map draw_ref xs
   \<and> g18_draw_all xs = map draw_ref xs"
proof (intro conjI)
  show "g16_draw_all xs = map draw_ref xs"
    by (simp add: g16_draw_all_def accept_draw)
  show "g17_draw_all (map to_variant xs) = map draw_ref xs"
    by (simp add: g17_draw_all_def visit_draw_variant)
  show "g18_draw_all xs = map draw_ref xs"
    by (induction xs) (simp_all add: g18_draw_all_def acyclic_accept_draw)
qed

text \<open>An acyclic visitor that does not derive from \<open>Visitor<Square>\<close> silently skips
  the squares: accepting it on all shapes calls it on the circles only, in order.\<close>

theorem acyclic_visitor_skips:
  "concat (map (\<lambda>shape. acyclic_accept shape \<lparr>as_circle_visitor = Some f, as_square_visitor = None\<rparr>) xs)
     = map f [c. CircleObj c \<leftarrow> xs]"
  by (induction xs) (auto elim: acyclic_accept.elims split: shape_obj.splits)

lemma main15_draws:
  "g15_draw_all main15 = Inr [DrawCircle \<lparr>radius = 2.3\<rparr>, DrawSquare \<lparr>side = 1.2\<rparr>, DrawCircle \<lparr>radius = 4.1\<rparr>]"
  by (simp add: main15_def g15_circle_def g15_square_def cast_circle_def cast_square_def)

lemma main16_main18_draw:
  "g16_draw_all main16 = [DrawCircle \<lparr>radius = 2.3\<rparr>, DrawSquare \<lparr>side = 1.2\<rparr>, DrawCircle \<lparr>radius = 4.1\<rparr>]
   \<and> g18_draw_all main18 = g16_draw_all main16"
  by (simp add: main16_def main18_def g16_draw_all_def g18_draw_all_def draw_visitor_def acyclic_draw_def)

lemma main17_variant_value: "main17_variant = Inr (43, Some 43, PrintedInt 43)"
  by (simp add: main17_variant_def get_int_def get_if_int_def)

end
