(* ===== verification/Strategy.thy ===== *)
theory Strategy
  imports Visitors
begin

text \<open>
  Guidelines 19 and 23: drawing shapes with an injected strategy, compared with the
  inheritance-based design it replaces.
  \<^item> \<open>src/G19_Extensive_Hierarchy.cpp\<close>: \<open>OpenGLCircle\<close> and \<open>OpenGLSquare\<close> derive from
    \<open>Circle\<close> and \<open>Square\<close> and implement \<open>draw\<close>;
  \<^item> \<open>src/G19_Strategy.cpp\<close>: every shape owns a \<open>std::unique_ptr<DrawStrategy<T>>\<close> and
    \<open>draw\<close> forwards to it;
  \<^item> \<open>src/G23_Strategy.cpp\<close>: the strategy is a \<open>std::function<void(T const&)>\<close> value;
  \<^item> \<open>src/G23_Function.cpp\<close>: the value semantics of \<open>std::function\<close>;
  \<^item> \<open>src/G31_External_Polymorphism.cpp\<close>: a \<open>ShapeModel<ShapeT,DrawStrategy>\<close> outside the
    shape classes holds a shape and a strategy object and implements \<open>ShapeConcept::draw\<close>.
  A strategy object is modelled by its \<open>draw\<close> function; a null \<open>unique_ptr\<close> and an empty
  \<open>std::function\<close> are \<open>None\<close>. Drawing is observed as in theory \<open>Visitors\<close>: the OpenGL
  strategies emit \<open>DrawCircle\<close> and \<open>DrawSquare\<close>.
\<close>

subsection \<open>Guideline 19: the extensive hierarchy\<close>

datatype ext_shape = OpenGLCircle circle | OpenGLSquare square

text \<open>\<open>OpenGLCircle::draw\<close> and \<open>OpenGLSquare::draw\<close>.\<close>

fun ext_draw :: "ext_shape \<Rightarrow> draw_event" where
  "ext_draw (OpenGLCircle c) = DrawCircle c"
| "ext_draw (OpenGLSquare s) = DrawSquare s"

definition ext_draw_all :: "ext_shape list \<Rightarrow> draw_event list" where
  "ext_draw_all shapes = map ext_draw shapes"

definition main19_ext :: "ext_shape list" where
  "main19_ext = [OpenGLCircle \<lparr>radius = 2.3\<rparr>, OpenGLSquare \<lparr>side = 1.2\<rparr>, OpenGLCircle \<lparr>radius = 4.1\<rparr>]"

subsection \<open>Guideline 19: Strategy through \<open>std::unique_ptr<DrawStrategy<T>>\<close>\<close>

text \<open>A \<open>Circle\<close> or \<open>Square\<close> with its \<open>drawer_\<close>; the constructor stores the pointer it is
  given, null or not.\<close>

datatype g19_shape =
    G19Circle real "(circle \<Rightarrow> draw_event) option"
  | G19Square real "(square \<Rightarrow> draw_event) option"

text \<open>\<open>OpenGLCircleStrategy::draw\<close> and \<open>OpenGLSquareStrategy::draw\<close>.\<close>

definition opengl_circle_strategy :: "circle \<Rightarrow> draw_event" where
  "opengl_circle_strategy circle = DrawCircle circle"

definition opengl_square_strategy :: "square \<Rightarrow> draw_event" where
  "opengl_square_strategy square = DrawSquare square"

text \<open>\<open>Circle::draw\<close> and \<open>Square::draw\<close>: \<open>drawer_->draw( *this )\<close>.\<close>

fun g19_draw :: "g19_shape \<Rightarrow> draw_event result" where
  "g19_draw (G19Circle r drawer) = (case drawer of None \<Rightarrow> Inl NullDeref | Some d \<Rightarrow> Inr (d \<lparr>radius = r\<rparr>))"
| "g19_draw (G19Square s drawer) = (case drawer of None \<Rightarrow> Inl NullDeref | Some d \<Rightarrow> Inr (d \<lparr>side = s\<rparr>))"

fun g19_draw_all :: "g19_shape list \<Rightarrow> draw_event list result" where
  "g19_draw_all [] = Inr []"
| "g19_draw_all (shape # shapes) =
     bind_result (g19_draw shape) (\<lambda>e. bind_result (g19_draw_all shapes) (\<lambda>es. Inr (e # es)))"

definition main19 :: "g19_shape list" where
  "main19 =
     [G19Circle 2.3 (Some opengl_circle_strategy), G19Square 1.2 (Some opengl_square_strategy),
      G19Circle 4.1 (Some opengl_circle_strategy)]"

subsection \<open>Guideline 23: Strategy as a \<open>std::function\<close> value\<close>

datatype g23_shape =
    G23Circle real "(circle \<Rightarrow> draw_event) option"
  | G23Square real "(square \<Rightarrow> draw_event) option"

text \<open>The strategies of G23 are function objects: \<open>OpenGLCircleStrategy::operator()\<close>
  and \<open>OpenGLSquareStrategy::operator()\<close>.\<close>

definition opengl_circle_functor :: "circle \<Rightarrow> draw_event" where
  "opengl_circle_functor circle = DrawCircle circle"

definition opengl_square_functor :: "square \<Rightarrow> draw_event" where
  "opengl_square_functor square = DrawSquare square"

text \<open>\<open>Circle::draw\<close> and \<open>Square::draw\<close>: \<open>drawer_( *this )\<close>; calling an empty
  \<open>std::function\<close> throws \<open>std::bad_function_call\<close>.\<close>

fun g23_draw :: "g23_shape \<Rightarrow> draw_event result" where
  "g23_draw (G23Circle r drawer) = (case drawer of None \<Rightarrow> Inl BadFunctionCall | Some d \<Rightarrow> Inr (d \<lparr>radius = r\<rparr>))"
| "g23_draw (G23Square s drawer) = (case drawer of None \<Rightarrow> Inl BadFunctionCall | Some d \<Rightarrow> Inr (d \<lparr>side = s\<rparr>))"

text \<open>The loop of \<open>main\<close> over all shapes.\<close>

fun g23_draw_all :: "g23_shape list \<Rightarrow> draw_event list result" where
  "g23_draw_all [] = Inr []"
| "g23_draw_all (shape # shapes) =
     bind_result (g23_draw shape) (\<lambda>e. bind_result (g23_draw_all shapes) (\<lambda>es. Inr (e # es)))"

definition main23 :: "g23_shape list" where
  "main23 =
     [G23Circle 2.3 (Some opengl_circle_functor), G23Square 1.2 (Some opengl_square_functor),
      G23Circle 4.1 (Some opengl_circle_functor)]"

subsection \<open>\<open>std::function\<close> as a value\<close>

datatype fn_output = LambdaOut int32 | FooOut int32

definition foo :: "int32 \<Rightarrow> fn_output" where
  "foo i = FooOut i"

definition call_function :: "(int32 \<Rightarrow> fn_output) option \<Rightarrow> int32 \<Rightarrow> fn_output result" where
  "call_function f i = (case f of None \<Rightarrow> Inl BadFunctionCall | Some h \<Rightarrow> Inr (h i))"

text \<open>\<open>main\<close>: \<open>f\<close> starts empty, is assigned the lambda, called, copied into \<open>g\<close>,
  reassigned to \<open>foo\<close>; then both are called.\<close>

definition main23_function :: "fn_output list result" where
  "main23_function =
     (let f0 = (None :: (int32 \<Rightarrow> fn_output) option); f1 = Some LambdaOut in
      bind_result (call_function f1 1) (\<lambda>o1.
        let g = f1; f2 = Some foo in
        bind_result (call_function f2 2) (\<lambda>o2.
        bind_result (call_function g 3) (\<lambda>o3. Inr [o1, o2, o3]))))"

subsection \<open>Guideline 31: External Polymorphism\<close>

text \<open>\<open>OpenGLDrawStrategy\<close> has no data members modelled (its colours are comments); its
  two call operators draw a circle and a square.\<close>

record opengl_draw_strategy =
  strategy_id :: nat

definition opengl_draw_circle :: "opengl_draw_strategy \<Rightarrow> circle \<Rightarrow> draw_event" where
  "opengl_draw_circle drawer circle = DrawCircle circle"

definition opengl_draw_square :: "opengl_draw_strategy \<Rightarrow> square \<Rightarrow> draw_event" where
  "opengl_draw_square drawer square = DrawSquare square"

text \<open>\<open>ShapeModel<ShapeT,DrawStrategy>\<close>, and the \<open>ShapeConcept\<close> objects of \<open>main\<close>: the
  instantiations \<open>CircleModel\<close> and \<open>SquareModel\<close>.\<close>

record ('s, 'd) shape_model =
  model_shape :: 's
  model_drawer :: 'd

datatype shape_concept =
    CircleModel "(circle, opengl_draw_strategy) shape_model"
  | SquareModel "(square, opengl_draw_strategy) shape_model"

text \<open>\<open>ShapeModel::draw() const override { drawer_(shape_); }\<close>.\<close>

fun concept_draw :: "shape_concept \<Rightarrow> draw_event" where
  "concept_draw (CircleModel m) = opengl_draw_circle (model_drawer m) (model_shape m)"
| "concept_draw (SquareModel m) = opengl_draw_square (model_drawer m) (model_shape m)"

text \<open>The drawing loop of \<open>main\<close>, and its shapes (red, green and blue strategies).\<close>

definition g31_draw_all :: "shape_concept list \<Rightarrow> draw_event list" where
  "g31_draw_all shapes = map concept_draw shapes"

definition main31 :: "shape_concept list" where
  "main31 =
     [CircleModel \<lparr>model_shape = \<lparr>radius = 2.3\<rparr>, model_drawer = \<lparr>strategy_id = 0\<rparr>\<rparr>,
      SquareModel \<lparr>model_shape = \<lparr>side = 1.2\<rparr>, model_drawer = \<lparr>strategy_id = 1\<rparr>\<rparr>,
      CircleModel \<lparr>model_shape = \<lparr>radius = 4.1\<rparr>, model_drawer = \<lparr>strategy_id = 2\<rparr>\<rparr>]"

subsection \<open>Lemmas\<close>

text \<open>The shapes of the drivers, in each design, each with its OpenGL strategy.\<close>

fun to_ext :: "shape_obj \<Rightarrow> ext_shape" where
  "to_ext (CircleObj c) = OpenGLCircle c"
| "to_ext (SquareObj q) = OpenGLSquare q"

fun to_g19 :: "shape_obj \<Rightarrow> g19_shape" where
  "to_g19 (CircleObj c) = G19Circle (radius c) (Some opengl_circle_strategy)"
| "to_g19 (SquareObj q) = G19Square (side q) (Some opengl_square_strategy)"

fun to_g23 :: "shape_obj \<Rightarrow> g23_shape" where
  "to_g23 (CircleObj c) = G23Circle (radius c) (Some opengl_circle_functor)"
| "to_g23 (SquareObj q) = G23Square (side q) (Some opengl_square_functor)"

fun to_g31 :: "shape_obj \<Rightarrow> shape_concept" where
  "to_g31 (CircleObj c) = CircleModel \<lparr>model_shape = c, model_drawer = \<lparr>strategy_id = 0\<rparr>\<rparr>"
| "to_g31 (SquareObj q) = SquareModel \<lparr>model_shape = q, model_drawer = \<lparr>strategy_id = 0\<rparr>\<rparr>"

fun g19_has_drawer :: "g19_shape \<Rightarrow> bool" where
  "g19_has_drawer (G19Circle r d) = (d \<noteq> None)"
| "g19_has_drawer (G19Square s d) = (d \<noteq> None)"

fun g23_has_drawer :: "g23_shape \<Rightarrow> bool" where
  "g23_has_drawer (G23Circle r d) = (d \<noteq> None)"
| "g23_has_drawer (G23Square s d) = (d \<noteq> None)"

lemma strategy_draw_obj:
  "ext_draw (to_ext x) = draw_ref x"
  "concept_draw (to_g31 x) = draw_ref x"
  "g19_draw (to_g19 x) = Inr (draw_ref x)"
  "g23_draw (to_g23 x) = Inr (draw_ref x)"
  by (cases x; simp add: opengl_circle_strategy_def opengl_square_strategy_def opengl_draw_circle_def
      opengl_circle_functor_def opengl_square_functor_def
      opengl_draw_square_def)+

lemma g19_draw_fault: "g19_draw s = Inl e \<longleftrightarrow> \<not> g19_has_drawer s \<and> e = NullDeref"
  and g23_draw_fault: "g23_draw t = Inl e \<longleftrightarrow> \<not> g23_has_drawer t \<and> e = BadFunctionCall"
  by (cases s; auto split: option.splits) (cases t; auto split: option.splits)

lemma g19_draw_ok: "g19_has_drawer s \<longleftrightarrow> (\<exists>x. g19_draw s = Inr x)"
  and g23_draw_ok: "g23_has_drawer t \<longleftrightarrow> (\<exists>x. g23_draw t = Inr x)"
  by (cases s; auto split: option.splits) (cases t; auto split: option.splits)

lemma g19_draw_all_fault: "g19_draw_all ss = Inl e \<longleftrightarrow> \<not> list_all g19_has_drawer ss \<and> e = NullDeref"
proof (induction ss)
  case (Cons a ss)
  show ?case
  proof (cases "g19_draw a")
    case (Inl e')
    then show ?thesis using g19_draw_fault [of a e'] by auto
  next
    case (Inr x)
    then have "g19_has_drawer a" using g19_draw_ok by blast
    with Inr Cons.IH show ?thesis by (cases "g19_draw_all ss") auto
  qed
qed simp

lemma g23_draw_all_fault: "g23_draw_all ts = Inl e \<longleftrightarrow> \<not> list_all g23_has_drawer ts \<and> e = BadFunctionCall"
proof (induction ts)
  case (Cons a ts)
  show ?case
  proof (cases "g23_draw a")
    case (Inl e')
    then show ?thesis using g23_draw_fault [of a e'] by auto
  next
    case (Inr x)
    then have "g23_has_drawer a" using g23_draw_ok by blast
    with Inr Cons.IH show ?thesis by (cases "g23_draw_all ts") auto
  qed
qed simp

subsection \<open>Properties\<close>

text \<open>C22: the four designs draw alike: the extensive hierarchy, the Strategy through
  \<open>std::unique_ptr\<close>, the Strategy as \<open>std::function\<close> and the External Polymorphism
  \<open>ShapeModel\<close>, each with the OpenGL strategies,
  draw every shape once, in order, exactly as the reference (and so as the visitors of
  Guidelines 15 to 18).\<close>

theorem strategy_designs_equivalent:
  "ext_draw_all (map to_ext xs) = map draw_ref xs
   \<and> g19_draw_all (map to_g19 xs) = Inr (map draw_ref xs)
   \<and> g23_draw_all (map to_g23 xs) = Inr (map draw_ref xs)
   \<and> g31_draw_all (map to_g31 xs) = map draw_ref xs"
  by (induction xs) (simp_all add: ext_draw_all_def g31_draw_all_def strategy_draw_obj)

text \<open>The constructors accept a missing strategy (the validity check promised in their
  comments is absent), and drawing then fails: \<open>drawAllShapes\<close> of Guideline 19 faults
  with a null dereference, the loop of Guideline 23 throws \<open>std::bad_function_call\<close>,
  exactly when some shape lacks its strategy.\<close>

theorem strategy_missing_drawer:
  "(g19_draw_all ss = Inl NullDeref \<longleftrightarrow> \<not> list_all g19_has_drawer ss)
   \<and> (list_all g19_has_drawer ss \<longleftrightarrow> (\<exists>es. g19_draw_all ss = Inr es))
   \<and> (g23_draw_all ts = Inl BadFunctionCall \<longleftrightarrow> \<not> list_all g23_has_drawer ts)
   \<and> (list_all g23_has_drawer ts \<longleftrightarrow> (\<exists>es. g23_draw_all ts = Inr es))"
proof -
  have "(\<exists>es. g19_draw_all ss = Inr es) \<longleftrightarrow> \<not> (\<exists>e. g19_draw_all ss = Inl e)"
    and "(\<exists>es. g23_draw_all ts = Inr es) \<longleftrightarrow> \<not> (\<exists>e. g23_draw_all ts = Inl e)"
    by (cases "g19_draw_all ss"; auto) (cases "g23_draw_all ts"; auto)
  then show ?thesis by (auto simp: g19_draw_all_fault g23_draw_all_fault)
qed

theorem strategy_missing_drawer_witness:
  "g19_draw_all [G19Circle 2.3 (Some opengl_circle_strategy), G19Square 1.2 None] = Inl NullDeref
   \<and> g23_draw_all [G23Square 1.2 None] = Inl BadFunctionCall"
  using strategy_missing_drawer [of "[G19Circle 2.3 (Some opengl_circle_strategy), G19Square 1.2 None]" "[G23Square 1.2 None]"]
  by simp

lemma main19_draws: "g19_draw_all main19 = Inr [DrawCircle \<lparr>radius = 2.3\<rparr>, DrawSquare \<lparr>side = 1.2\<rparr>, DrawCircle \<lparr>radius = 4.1\<rparr>]"
  by (simp add: main19_def opengl_circle_strategy_def opengl_square_strategy_def)

lemma main23_draws: "g23_draw_all main23 = Inr [DrawCircle \<lparr>radius = 2.3\<rparr>, DrawSquare \<lparr>side = 1.2\<rparr>, DrawCircle \<lparr>radius = 4.1\<rparr>]"
  by (simp add: main23_def opengl_circle_functor_def opengl_square_functor_def)

lemma main23_function_value: "main23_function = Inr [LambdaOut 1, FooOut 2, LambdaOut 3]"
  by (simp add: main23_function_def call_function_def foo_def)

lemma main31_draws: "g31_draw_all main31 = [DrawCircle \<lparr>radius = 2.3\<rparr>, DrawSquare \<lparr>side = 1.2\<rparr>, DrawCircle \<lparr>radius = 4.1\<rparr>]"
  by (simp add: g31_draw_all_def main31_def opengl_draw_circle_def opengl_draw_square_def)

end
