(* ===== verification/Observer.thy ===== *)
theory Observer
  imports Prelude
begin

text \<open>
  Guideline 25: the Observer pattern. \<open>Person\<close> keeps its observers in a
  \<open>std::set<PersonObserver*>\<close> and notifies all of them after every change of a name
  or of the address.
  \<^item> \<open>src/G25_Classic_Observer.cpp\<close>: observers derive from \<open>Observer<Person,StateChange>\<close>
    and override \<open>update\<close> (\<open>NameObserver\<close>, \<open>AddressObserver\<close>);
  \<^item> \<open>src/G25_Modern_Observer.cpp\<close>: one class \<open>Observer\<close> that wraps a
    \<open>std::function\<close> \<open>onUpdate_\<close>.
  An observer is named by its address; the observers alive in the program are a map
  from addresses to observer objects, so a pointer to a destroyed observer dangles. A
  \<open>std::set\<close> of pointers is a finite set of addresses, iterated in increasing order.
  The observers' responses (\<open>// ... Respond to changed name\<close>) are recorded as events
  carrying the person the observer was shown.
\<close>

datatype state_change = ForenameChanged | SurnameChanged | AddressChanged

record person =
  forename :: string
  surname :: string
  address :: string
  observers :: "addr set"

datatype response = RespondName person | RespondAddress person

text \<open>\<open>Person( forename, surname )\<close>: the address is empty, no observer is attached.\<close>

definition person_construct :: "string \<Rightarrow> string \<Rightarrow> person" where
  "person_construct fn sn = \<lparr>forename = fn, surname = sn, address = [], observers = {}\<rparr>"

text \<open>\<open>attach\<close>: \<open>observers_.insert( observer )\<close>, reporting whether it was new.\<close>

definition attach :: "addr \<Rightarrow> person \<Rightarrow> bool \<times> person" where
  "attach observer p =
     (observer \<notin> observers p, p\<lparr>observers := insert observer (observers p)\<rparr>)"

text \<open>\<open>detach\<close>: \<open>observers_.erase( observer ) > 0U\<close>.\<close>

definition detach :: "addr \<Rightarrow> person \<Rightarrow> bool \<times> person" where
  "detach observer p =
     (observer \<in> observers p, p\<lparr>observers := observers p - {observer}\<rparr>)"

subsection \<open>The classic observers\<close>

datatype person_observer = NameObserver | AddressObserver

text \<open>\<open>NameObserver::update\<close> and \<open>AddressObserver::update\<close>.\<close>

fun classic_update :: "person_observer \<Rightarrow> person \<Rightarrow> state_change \<Rightarrow> response list" where
  "classic_update NameObserver person property =
     (if property = ForenameChanged \<or> property = SurnameChanged then [RespondName person] else [])"
| "classic_update AddressObserver person property =
     (if property = AddressChanged then [RespondAddress person] else [])"

text \<open>\<open>Person::notify\<close>: \<open>(*pos)->update( *this, property )\<close> for every observer, in the
  order of the set; a pointer to a destroyed observer is a dangling dereference.\<close>

fun notify_each ::
  "(addr \<Rightarrow> person_observer option) \<Rightarrow> person \<Rightarrow> state_change \<Rightarrow> addr list \<Rightarrow> (addr \<times> response list) list result" where
  "notify_each live p property [] = Inr []"
| "notify_each live p property (a # as) =
     (case live a of
        None \<Rightarrow> Inl Dangling
      | Some obs \<Rightarrow> bind_result (notify_each live p property as) (\<lambda>rs. Inr ((a, classic_update obs p property) # rs)))"

definition notify :: "(addr \<Rightarrow> person_observer option) \<Rightarrow> person \<Rightarrow> state_change \<Rightarrow> (addr \<times> response list) list result" where
  "notify live p property = notify_each live p property (sorted_list_of_set (observers p))"

text \<open>The setters: assign the member, then \<open>notify\<close> with the matching tag. \<open>Person\<close> is the
  same in both files; the setters are stated for either \<open>notify\<close>.\<close>

definition set_forename ::
  "(person \<Rightarrow> state_change \<Rightarrow> 'r result) \<Rightarrow> string \<Rightarrow> person \<Rightarrow> (person \<times> 'r) result" where
  "set_forename notify_fn newForename p =
     (let p' = p\<lparr>forename := newForename\<rparr> in bind_result (notify_fn p' ForenameChanged) (\<lambda>rs. Inr (p', rs)))"

definition set_surname ::
  "(person \<Rightarrow> state_change \<Rightarrow> 'r result) \<Rightarrow> string \<Rightarrow> person \<Rightarrow> (person \<times> 'r) result" where
  "set_surname notify_fn newSurname p =
     (let p' = p\<lparr>surname := newSurname\<rparr> in bind_result (notify_fn p' SurnameChanged) (\<lambda>rs. Inr (p', rs)))"

definition set_address ::
  "(person \<Rightarrow> state_change \<Rightarrow> 'r result) \<Rightarrow> string \<Rightarrow> person \<Rightarrow> (person \<times> 'r) result" where
  "set_address notify_fn newAddress p =
     (let p' = p\<lparr>address := newAddress\<rparr> in bind_result (notify_fn p' AddressChanged) (\<lambda>rs. Inr (p', rs)))"

text \<open>\<open>main\<close>: \<open>nameObserver\<close> at address 0 and \<open>addressObserver\<close> at address 1 outlive the
  three persons. The result lists each person's final state and the responses.\<close>

definition main25_live :: "addr \<Rightarrow> person_observer option" where
  "main25_live = [0 \<mapsto> NameObserver, 1 \<mapsto> AddressObserver]"

definition main25 :: "(person list \<times> (addr \<times> response list) list list \<times> bool) result" where
  "main25 =
     (let homer = snd (attach 0 (person_construct ''Homer'' ''Simpson''));
          marge = snd (attach 1 (person_construct ''Marge'' ''Simpson''));
          monty = snd (attach 1 (person_construct ''Montgomery'' ''Burns''))
      in bind_result (set_forename (notify main25_live) ''Homer Jay'' homer) (\<lambda>(homer', r1).
         bind_result (set_address (notify main25_live) ''712 Red Bark Lane, Henderson, Clark County, Nevada 89011'' marge) (\<lambda>(marge', r2).
         bind_result (set_address (notify main25_live) ''Springfield Nuclear Power Plant'' monty) (\<lambda>(monty', r3).
         let (detached, homer'') = detach 0 homer' in
         Inr ([homer'', marge', monty'], [r1, r2, r3], detached)))))"

subsection \<open>The observers with \<open>std::function\<close>\<close>

text \<open>\<open>Observer( OnUpdate onUpdate )\<close>: the wrapped callable, \<open>None\<close> when empty.\<close>

record modern_observer =
  on_update :: "(person \<Rightarrow> state_change \<Rightarrow> response list) option"

text \<open>\<open>Observer::update\<close>: \<open>onUpdate_( subject, property )\<close>.\<close>

definition modern_update :: "modern_observer \<Rightarrow> person \<Rightarrow> state_change \<Rightarrow> response list result" where
  "modern_update obs person property =
     (case on_update obs of None \<Rightarrow> Inl BadFunctionCall | Some f \<Rightarrow> Inr (f person property))"

text \<open>\<open>propertyChanged\<close> and the address lambda of \<open>main\<close>.\<close>

definition propertyChanged :: "person \<Rightarrow> state_change \<Rightarrow> response list" where
  "propertyChanged person property =
     (if property = ForenameChanged \<or> property = SurnameChanged then [RespondName person] else [])"

definition address_lambda :: "person \<Rightarrow> state_change \<Rightarrow> response list" where
  "address_lambda person property = (if property = AddressChanged then [RespondAddress person] else [])"

fun modern_notify_each ::
  "(addr \<Rightarrow> modern_observer option) \<Rightarrow> person \<Rightarrow> state_change \<Rightarrow> addr list \<Rightarrow> (addr \<times> response list) list result" where
  "modern_notify_each live p property [] = Inr []"
| "modern_notify_each live p property (a # as) =
     (case live a of
        None \<Rightarrow> Inl Dangling
      | Some obs \<Rightarrow> bind_result (modern_update obs p property) (\<lambda>r.
                    bind_result (modern_notify_each live p property as) (\<lambda>rs. Inr ((a, r) # rs))))"

definition modern_notify ::
  "(addr \<Rightarrow> modern_observer option) \<Rightarrow> person \<Rightarrow> state_change \<Rightarrow> (addr \<times> response list) list result" where
  "modern_notify live p property = modern_notify_each live p property (sorted_list_of_set (observers p))"

text \<open>\<open>Observer( OnUpdate onUpdate )\<close> stores the callable without the check its comment
  considers, so an empty \<open>std::function\<close> is accepted.\<close>

definition modern_observer_construct ::
  "(person \<Rightarrow> state_change \<Rightarrow> response list) option \<Rightarrow> modern_observer" where
  "modern_observer_construct onUpdate = \<lparr>on_update = onUpdate\<rparr>"

text \<open>\<open>main\<close> of \<open>G25_Modern_Observer.cpp\<close>: the two observers (at addresses 0 and 1)
  and three persons, each with one observer attached; nothing is changed afterwards.\<close>

definition main25_modern_live :: "addr \<Rightarrow> modern_observer option" where
  "main25_modern_live = [0 \<mapsto> modern_observer_construct (Some propertyChanged),
                         1 \<mapsto> modern_observer_construct (Some address_lambda)]"

definition main25_modern :: "person list" where
  "main25_modern =
     [snd (attach 0 (person_construct ''Homer'' ''Simpson'')),
      snd (attach 1 (person_construct ''Marge'' ''Simpson'')),
      snd (attach 1 (person_construct ''Montgomery'' ''Burns''))]"

text \<open>The classic observers of \<open>main\<close> as \<open>std::function\<close> observers.\<close>

fun to_modern :: "person_observer \<Rightarrow> modern_observer" where
  "to_modern NameObserver = \<lparr>on_update = Some propertyChanged\<rparr>"
| "to_modern AddressObserver = \<lparr>on_update = Some address_lambda\<rparr>"

subsection \<open>Lemmas\<close>

lemma notify_each_eq:
  "notify_each live p property as =
     (if \<forall>a\<in>set as. live a \<noteq> None
      then Inr (map (\<lambda>a. (a, classic_update (the (live a)) p property)) as) else Inl Dangling)"
  by (induction as) (auto split: option.splits)

lemma modern_update_to_modern: "modern_update (to_modern obs) p property = Inr (classic_update obs p property)"
  by (cases obs) (simp_all add: modern_update_def propertyChanged_def address_lambda_def)

lemma modern_notify_each_eq:
  "modern_notify_each (map_option to_modern \<circ> live) p property as = notify_each live p property as"
  by (induction as) (simp_all add: modern_update_to_modern split: option.splits)

subsection \<open>Properties\<close>

text \<open>\<open>attach\<close> and \<open>detach\<close> have set semantics: \<open>attach\<close> reports whether the observer
  was new, attaching twice reports \<open>false\<close> the second time, \<open>detach\<close> reports whether the
  observer was attached, and detaching undoes attaching whatever was attached before.\<close>

theorem attach_detach:
  "fst (attach ob p) = (ob \<notin> observers p)
   \<and> observers (snd (attach ob p)) = insert ob (observers p)
   \<and> \<not> fst (attach ob (snd (attach ob p)))
   \<and> fst (detach ob (snd (attach ob p)))
   \<and> snd (detach ob (snd (attach ob p))) = snd (detach ob p)
   \<and> \<not> fst (detach ob (snd (detach ob p)))"
  by (simp add: attach_def detach_def)

text \<open>\<open>notify\<close> calls \<open>update\<close> of every attached observer exactly once, in increasing
  address order, each with the person as it is after the change and the tag of the
  change; and the setters change exactly their member before notifying.\<close>

theorem notify_each_once:
  assumes "finite (observers p)" and "\<forall>a\<in>observers p. live a \<noteq> None"
  shows "\<exists>rs. notify live p property = Inr rs \<and> map fst rs = sorted_list_of_set (observers p)
           \<and> (\<forall>(a, r)\<in>set rs. \<exists>obs. live a = Some obs \<and> r = classic_update obs p property)"
  using assms by (auto simp: notify_def notify_each_eq comp_def)

text \<open>C25: the two designs of Guideline 25 behave alike: with \<open>propertyChanged\<close> and the
  address lambda wrapped in \<open>std::function\<close> observers in place of \<open>NameObserver\<close> and
  \<open>AddressObserver\<close>, every notification and every setter gives the same responses,
  faults included.\<close>

theorem classic_modern_equivalent:
  "modern_notify (map_option to_modern \<circ> live) p property = notify live p property
   \<and> set_forename (modern_notify (map_option to_modern \<circ> live)) n p = set_forename (notify live) n p
   \<and> set_surname (modern_notify (map_option to_modern \<circ> live)) n p = set_surname (notify live) n p
   \<and> set_address (modern_notify (map_option to_modern \<circ> live)) n p = set_address (notify live) n p"
proof -
  have eq: "modern_notify (map_option to_modern \<circ> live) = notify live"
    by (simp add: fun_eq_iff modern_notify_def notify_def modern_notify_each_eq)
  then show ?thesis by simp
qed

text \<open>C26: \<open>Person\<close> does not know when an observer dies: notifying faults with a dangling
  dereference exactly when an attached observer no longer exists.\<close>

theorem notify_dangling:
  assumes "finite (observers p)"
  shows "notify live p property = Inl Dangling \<longleftrightarrow> (\<exists>a\<in>observers p. live a = None)"
  using assms by (auto simp: notify_def notify_each_eq)

lemma main25_person: "finite (observers (snd (attach 1 (person_construct ''Marge'' ''Simpson''))))"
  by (simp add: attach_def person_construct_def)

theorem notify_each_once_witness:
  "\<exists>rs. notify main25_live (snd (attach 1 (person_construct ''Marge'' ''Simpson''))) AddressChanged = Inr rs
     \<and> map fst rs = [1]"
proof -
  have "\<forall>a\<in>observers (snd (attach 1 (person_construct ''Marge'' ''Simpson''))). main25_live a \<noteq> None"
    by (simp add: attach_def person_construct_def main25_live_def)
  from notify_each_once [OF main25_person this, of AddressChanged] obtain rs where
    "notify main25_live (snd (attach 1 (person_construct ''Marge'' ''Simpson''))) AddressChanged = Inr rs"
    and "map fst rs = sorted_list_of_set (observers (snd (attach 1 (person_construct ''Marge'' ''Simpson''))))"
    by blast
  then show ?thesis by (simp add: attach_def person_construct_def)
qed

theorem notify_dangling_witness:
  "notify Map.empty (snd (attach 1 (person_construct ''Marge'' ''Simpson''))) AddressChanged = Inl Dangling"
  using notify_dangling [OF main25_person, of Map.empty AddressChanged]
  by (simp add: attach_def person_construct_def)

text \<open>An observer built from an empty \<open>std::function\<close> throws \<open>std::bad_function_call\<close>
  on the first notification; in \<open>main\<close> every person has its one observer and a change
  of a name reaches only the name observer.\<close>

lemma modern_empty_observer:
  "observers p = {a} \<Longrightarrow>
   modern_notify [a \<mapsto> modern_observer_construct None] p property = Inl BadFunctionCall"
  by (simp add: modern_notify_def modern_update_def modern_observer_construct_def)

lemma main25_modern_value:
  "map observers main25_modern = [{0}, {1}, {1}]
   \<and> modern_notify main25_modern_live (hd main25_modern) ForenameChanged
       = Inr [(0, [RespondName (hd main25_modern)])]"
  by (simp add: main25_modern_def main25_modern_live_def attach_def person_construct_def modern_notify_def
      modern_update_def modern_observer_construct_def propertyChanged_def)

end
