(* ===== verification/Observer_Notify.thy ===== *)
theory Observer_Notify
  imports Observer
begin

text \<open>
  \<open>Person::notify\<close> of Guideline 25 as it is written: an iterator over the
  \<open>std::set\<close> of observer pointers that is advanced before the observer is called
  (\<open>auto const pos = iter++; (*pos)->update( *this, property );\<close>), so that an
  observer may \<open>detach()\<close> itself from within \<open>update\<close>. An observer is any
  \<open>Observer\<close> subclass: its \<open>update\<close> returns its responses and the observers it
  detaches from the person. Erasing an element of a \<open>std::set\<close> invalidates only the
  iterators to that element; going on with an invalidated iterator is undefined
  behaviour. The loop is a \<open>partial_function (option)\<close>: \<open>None\<close> would be a loop that
  does not end, and it is proved that it always ends.
\<close>

type_synonym 'o observer_update = "'o \<Rightarrow> person \<Rightarrow> state_change \<Rightarrow> response list \<times> addr list"

text \<open>\<open>begin( observers_ )\<close> and \<open>++iter\<close> on the ordered set of addresses.\<close>

definition set_begin :: "addr set \<Rightarrow> addr option" where
  "set_begin S = (case sorted_list_of_set S of [] \<Rightarrow> None | x # xs \<Rightarrow> Some x)"

definition set_successor :: "addr set \<Rightarrow> addr \<Rightarrow> addr option" where
  "set_successor S a = find (\<lambda>x. a < x) (sorted_list_of_set S)"

partial_function (option) notify_loop ::
  "'o observer_update \<Rightarrow> (addr \<Rightarrow> 'o option) \<Rightarrow> state_change \<Rightarrow> addr option \<Rightarrow> person
   \<Rightarrow> ((addr \<times> response list) list \<times> person) result option" where
  "notify_loop upd live property iter p =
     (case iter of
        None \<Rightarrow> Some (Inr ([], p))
      | Some pos \<Rightarrow>
          if pos \<notin> observers p then Some (Inl Dangling)
          else (let iter' = set_successor (observers p) pos in
                case live pos of
                  None \<Rightarrow> Some (Inl Dangling)
                | Some obs \<Rightarrow>
                    (case upd obs p property of (rs, ds) \<Rightarrow>
                       Option.bind (notify_loop upd live property iter' (p\<lparr>observers := observers p - set ds\<rparr>))
                         (\<lambda>r. Some (bind_result r (\<lambda>(trace, p'). Inr ((pos, rs) # trace, p')))))))"

definition person_notify ::
  "'o observer_update \<Rightarrow> (addr \<Rightarrow> 'o option) \<Rightarrow> person \<Rightarrow> state_change
   \<Rightarrow> ((addr \<times> response list) list \<times> person) result option" where
  "person_notify upd live p property = notify_loop upd live property (set_begin (observers p)) p"

text \<open>The classic observers of \<open>main\<close> never detach.\<close>

definition classic_observer_update :: "person_observer observer_update" where
  "classic_observer_update obs p property = (classic_update obs p property, [])"

text \<open>An observer that detaches itself from the person it observes (an \<open>Observer\<close>
  subclass whose object at address \<open>a\<close> calls \<open>person.detach( this )\<close> in \<open>update\<close>).\<close>

definition self_detach_update :: "addr observer_update" where
  "self_detach_update a p property = ([], [a])"

subsection \<open>The iterator over an ordered set\<close>

lemma find_less_sorted:
  "sorted xs \<Longrightarrow> find (\<lambda>x. a < x) xs
     = (if {x \<in> set xs. a < x} = {} then None else Some (Min {x \<in> set xs. a < x}))"
proof (induction xs)
  case (Cons y ys)
  show ?case
  proof (cases "a < y")
    case True
    with Cons.prems have "Min {x \<in> set (y # ys). a < x} = y"
      by (intro Min_eqI) auto
    with True show ?thesis by auto
  next
    case False
    then have "{x \<in> set (y # ys). a < x} = {x \<in> set ys. a < x}" by auto
    with False Cons show ?thesis by simp
  qed
qed simp

lemma set_successor_Min:
  "finite S \<Longrightarrow> set_successor S a = (if {x \<in> S. a < x} = {} then None else Some (Min {x \<in> S. a < x}))"
  by (simp add: set_successor_def find_less_sorted)

lemma set_begin_Min:
  "finite S \<Longrightarrow> set_begin S = (if S = {} then None else Some (Min S))"
  by (auto simp: set_begin_def sorted_list_of_set_nonempty split: list.splits)

subsection \<open>Observers that detach at most themselves\<close>

definition detaches_only_self :: "'o observer_update \<Rightarrow> (addr \<Rightarrow> 'o option) \<Rightarrow> state_change \<Rightarrow> bool" where
  "detaches_only_self upd live property \<longleftrightarrow>
     (\<forall>a obs q. live a = Some obs \<longrightarrow> set (snd (upd obs q property)) \<subseteq> {a})"

lemma sorted_list_of_set_from:
  assumes "finite S" and "pos \<in> S"
  shows "sorted_list_of_set {x \<in> S. pos \<le> x} = pos # sorted_list_of_set {x \<in> S. pos < x}"
proof -
  have "Min {x \<in> S. pos \<le> x} = pos" using assms by (intro Min_eqI) auto
  moreover have "{x \<in> S. pos \<le> x} - {pos} = {x \<in> S. pos < x}" by auto
  ultimately show ?thesis using assms sorted_list_of_set_nonempty [of "{x \<in> S. pos \<le> x}"] by auto
qed

lemma notify_loop_self_detach:
  "finite (observers p) \<Longrightarrow> \<forall>a \<in> observers p. live a \<noteq> None \<Longrightarrow> detaches_only_self upd live property
   \<Longrightarrow> pos \<in> observers p
   \<Longrightarrow> \<exists>trace p'. notify_loop upd live property (Some pos) p = Some (Inr (trace, p'))
          \<and> map fst trace = sorted_list_of_set {x \<in> observers p. pos \<le> x} \<and> observers p' \<subseteq> observers p"
proof (induction "card {x \<in> observers p. pos \<le> x}" arbitrary: p pos rule: less_induct)
  case less
  let ?S = "observers p"
  from less.prems obtain obs where lv: "live pos = Some obs" by auto
  obtain rs ds where u: "upd obs p property = (rs, ds)" by fastforce
  have ds: "set ds \<subseteq> {pos}"
    using less.prems(3) lv u unfolding detaches_only_self_def by (metis snd_conv)
  let ?p = "p\<lparr>observers := ?S - set ds\<rparr>"
  have sub: "observers ?p \<subseteq> ?S" by auto
  have above: "{x \<in> observers ?p. pos < x} = {x \<in> ?S. pos < x}" using ds by auto
  have unfold: "notify_loop upd live property (Some pos) p =
      Option.bind (notify_loop upd live property (set_successor ?S pos) ?p)
        (\<lambda>r. Some (bind_result r (\<lambda>(trace, p'). Inr ((pos, rs) # trace, p'))))"
    using less.prems(4) lv u by (simp add: notify_loop.simps [of _ _ _ "Some pos"])
  have from_pos: "sorted_list_of_set {x \<in> ?S. pos \<le> x} = pos # sorted_list_of_set {x \<in> ?S. pos < x}"
    using sorted_list_of_set_from [OF less.prems(1,4)] .
  show ?case
  proof (cases "{x \<in> ?S. pos < x} = {}")
    case True
    with less.prems(1) have "set_successor ?S pos = None" by (simp add: set_successor_Min)
    then have "notify_loop upd live property (Some pos) p = Some (Inr ([(pos, rs)], ?p))"
      by (simp add: unfold notify_loop.simps [of _ _ _ None])
    with from_pos True show ?thesis by auto
  next
    case False
    define b where "b = Min {x \<in> ?S. pos < x}"
    from less.prems(1) False have succ: "set_successor ?S pos = Some b" by (simp add: set_successor_Min b_def)
    from less.prems(1) False have b: "b \<in> ?S" "pos < b" "\<forall>x \<in> ?S. pos < x \<longrightarrow> b \<le> x"
      unfolding b_def using Min_in [of "{x \<in> ?S. pos < x}"] Min_le [of "{x \<in> ?S. pos < x}"] by auto
    with ds have b': "b \<in> observers ?p" by auto
    have same: "{x \<in> observers ?p. b \<le> x} = {x \<in> ?S. pos < x}" using above b by auto
    have "{x \<in> ?S. pos < x} \<subset> {x \<in> ?S. pos \<le> x}" using less.prems(4) by auto
    then have "card {x \<in> observers ?p. b \<le> x} < card {x \<in> ?S. pos \<le> x}"
      unfolding same using less.prems(1) by (intro psubset_card_mono) auto
    moreover have "finite (observers ?p)" "\<forall>a \<in> observers ?p. live a \<noteq> None"
      using less.prems(1,2) sub by auto
    ultimately obtain trace p' where
      r: "notify_loop upd live property (Some b) ?p = Some (Inr (trace, p'))"
      and t: "map fst trace = sorted_list_of_set {x \<in> observers ?p. b \<le> x}" and o: "observers p' \<subseteq> observers ?p"
      using less.hyps [of ?p b] less.prems(3) b' by blast
    from unfold succ r have "notify_loop upd live property (Some pos) p = Some (Inr ((pos, rs) # trace, p'))" by simp
    with t o sub from_pos same show ?thesis by auto
  qed
qed

subsection \<open>Termination, and the loop over classic observers\<close>

text \<open>Whatever the observers detach, the loop ends: the iterator only moves up through a
  finite set that does not grow.\<close>

lemma notify_loop_terminates:
  "finite (observers p) \<Longrightarrow> \<exists>r. notify_loop upd live property iter p = Some r"
proof (induction "case iter of None \<Rightarrow> 0 | Some pos \<Rightarrow> card {x \<in> observers p. pos \<le> x}"
    arbitrary: p iter rule: less_induct)
  case less
  show ?case
  proof (cases iter)
    case None
    then show ?thesis by (simp add: notify_loop.simps [of _ _ _ None])
  next
    case (Some pos)
    let ?S = "observers p"
    show ?thesis
    proof (cases "pos \<in> ?S \<and> live pos \<noteq> None")
      case False
      with Some show ?thesis by (auto simp: notify_loop.simps [of _ _ _ "Some pos"])
    next
      case True
      then obtain obs where lv: "live pos = Some obs" by auto
      obtain rs ds where u: "upd obs p property = (rs, ds)" by fastforce
      let ?p = "p\<lparr>observers := ?S - set ds\<rparr>"
      let ?it = "set_successor ?S pos"
      have "(case ?it of None \<Rightarrow> 0 | Some b \<Rightarrow> card {x \<in> observers ?p. b \<le> x}) < card {x \<in> ?S. pos \<le> x}"
      proof (cases ?it)
        case None
        with True less.prems show ?thesis by (auto simp: card_gt_0_iff)
      next
        case (Some b)
        with less.prems have ne: "{x \<in> ?S. pos < x} \<noteq> {}" and bm: "b = Min {x \<in> ?S. pos < x}"
          by (simp_all add: set_successor_Min split: if_splits)
        from Min_in [OF _ ne] less.prems have "pos < b" by (simp add: bm)
        then have "pos \<notin> {x \<in> observers ?p. b \<le> x}" by auto
        moreover have "pos \<in> {x \<in> ?S. pos \<le> x}" using True by auto
        moreover have "{x \<in> observers ?p. b \<le> x} \<subseteq> {x \<in> ?S. pos \<le> x}" using \<open>pos < b\<close> by auto
        ultimately have "{x \<in> observers ?p. b \<le> x} \<subset> {x \<in> ?S. pos \<le> x}" by blast
        with Some less.prems show ?thesis by (simp add: psubset_card_mono)
      qed
      with less.hyps [of ?p ?it] less.prems obtain r where "notify_loop upd live property ?it ?p = Some r"
        using Some by fastforce
      with Some True lv u show ?thesis by (auto simp: notify_loop.simps [of _ _ _ "Some pos"])
    qed
  qed
qed

text \<open>With observers that never detach, the loop is the iteration over the ordered set
  that \<open>notify\<close> describes.\<close>

lemma notify_loop_classic:
  "finite (observers p) \<Longrightarrow> pos \<in> observers p \<Longrightarrow>
   notify_loop classic_observer_update live property (Some pos) p
     = Some (bind_result (notify_each live p property (sorted_list_of_set {x \<in> observers p. pos \<le> x}))
                         (\<lambda>t. Inr (t, p)))"
proof (induction "card {x \<in> observers p. pos \<le> x}" arbitrary: pos rule: less_induct)
  case less
  let ?S = "observers p"
  have from_pos: "sorted_list_of_set {x \<in> ?S. pos \<le> x} = pos # sorted_list_of_set {x \<in> ?S. pos < x}"
    using sorted_list_of_set_from [OF less.prems] .
  show ?case
  proof (cases "live pos")
    case None
    with less.prems from_pos show ?thesis by (simp add: notify_loop.simps [of _ _ _ "Some pos"])
  next
    case (Some obs)
    show ?thesis
    proof (cases "{x \<in> ?S. pos < x} = {}")
      case True
      with less.prems Some from_pos show ?thesis
        by (simp add: notify_loop.simps [of _ _ _ "Some pos"] notify_loop.simps [of _ _ _ None]
            set_successor_Min classic_observer_update_def)
    next
      case False
      define b where "b = Min {x \<in> ?S. pos < x}"
      from less.prems False have b: "b \<in> ?S" "pos < b" "\<forall>x \<in> ?S. pos < x \<longrightarrow> b \<le> x"
        unfolding b_def using Min_in [of "{x \<in> ?S. pos < x}"] Min_le [of "{x \<in> ?S. pos < x}"] by auto
      then have same: "{x \<in> ?S. b \<le> x} = {x \<in> ?S. pos < x}" by auto
      from less.prems False have succ: "set_successor ?S pos = Some b" by (simp add: set_successor_Min b_def)
      have "card {x \<in> ?S. b \<le> x} < card {x \<in> ?S. pos \<le> x}"
        unfolding same using less.prems by (intro psubset_card_mono) auto
      from less.hyps [OF this less.prems(1) b(1)] less.prems Some from_pos same succ show ?thesis
        by (simp add: notify_loop.simps [of _ _ _ "Some pos"] classic_observer_update_def
            bind_result_def split: sum.splits)
    qed
  qed
qed

lemma person_notify_classic:
  "finite (observers p) \<Longrightarrow>
   person_notify classic_observer_update live p property = Some (bind_result (notify live p property) (\<lambda>t. Inr (t, p)))"
proof (cases "observers p = {}")
  case True
  then show ?thesis by (simp add: person_notify_def set_begin_def notify_def notify_loop.simps [of _ _ _ None])
next
  case False
  assume fin: "finite (observers p)"
  with False have m: "Min (observers p) \<in> observers p" by simp
  have "{x \<in> observers p. Min (observers p) \<le> x} = observers p" using fin by auto
  with notify_loop_classic [OF fin m] fin False show ?thesis
    by (simp add: person_notify_def set_begin_Min notify_def)
qed

subsection \<open>Detaching during notification\<close>

text \<open>C24: the formulation of \<open>notify\<close> with \<open>pos = iter++\<close> keeps its promise: for any
  observers that detach at most themselves from within \<open>update\<close>, notification of a
  person whose attached observers are alive ends without undefined behaviour, calls
  every observer attached at the start exactly once, in increasing address order, and
  leaves a subset of the observers attached.\<close>

theorem notify_detach_self_safe:
  assumes "finite (observers p)" and "\<forall>a \<in> observers p. live a \<noteq> None"
    and "detaches_only_self upd live property"
  shows "\<exists>trace p'. person_notify upd live p property = Some (Inr (trace, p'))
           \<and> map fst trace = sorted_list_of_set (observers p) \<and> observers p' \<subseteq> observers p"
proof (cases "observers p = {}")
  case True
  then show ?thesis by (simp add: person_notify_def set_begin_def notify_loop.simps [of _ _ _ None])
next
  case False
  with assms(1) have m: "Min (observers p) \<in> observers p" by simp
  have all: "{x \<in> observers p. Min (observers p) \<le> x} = observers p" using assms(1) by auto
  from notify_loop_self_detach [OF assms m] all False assms(1) show ?thesis
    by (simp add: person_notify_def set_begin_Min)
qed

theorem notify_detach_self_safe_witness:
  "(case person_notify self_detach_update [0 \<mapsto> 0, 1 \<mapsto> 1]
          \<lparr>forename = ''Homer'', surname = ''Simpson'', address = [], observers = {0, 1}\<rparr> ForenameChanged of
      Some (Inr (trace, p')) \<Rightarrow> map fst trace | _ \<Rightarrow> []) = [0, 1]"
proof -
  let ?p = "\<lparr>forename = ''Homer'', surname = ''Simpson'', address = [], observers = {0, 1 :: addr}\<rparr>"
  have "detaches_only_self self_detach_update [0 \<mapsto> 0, 1 \<mapsto> (1::addr)] ForenameChanged"
    by (auto simp: detaches_only_self_def self_detach_update_def split: if_splits)
  moreover have "finite (observers ?p)" "\<forall>a \<in> observers ?p. [0 \<mapsto> (0::addr), 1 \<mapsto> 1] a \<noteq> None"
    by simp_all
  ultimately obtain trace p' where
    "person_notify self_detach_update [0 \<mapsto> 0, 1 \<mapsto> 1] ?p ForenameChanged = Some (Inr (trace, p'))"
    "map fst trace = sorted_list_of_set (observers ?p)"
    using notify_detach_self_safe [of ?p "[0 \<mapsto> 0, 1 \<mapsto> 1]" self_detach_update ForenameChanged] by blast
  then show ?thesis by simp
qed

text \<open>Detaching another observer is not covered: if the observer at address 0 detaches
  the one at address 1 while the iterator already points to it, \<open>notify\<close> goes on with
  an invalidated iterator.\<close>

lemma notify_detach_next_dangles:
  "person_notify (\<lambda>a p property. ([], [1])) [0 \<mapsto> (0::addr), 1 \<mapsto> 1]
     \<lparr>forename = ''Homer'', surname = ''Simpson'', address = [], observers = {0, 1}\<rparr> ForenameChanged
   = Some (Inl Dangling)"
  by (simp add: person_notify_def set_begin_def set_successor_def notify_loop.simps [of _ _ _ "Some _"])

end
