(* ===== verification/Decorator.thy ===== *)
theory Decorator
  imports Prelude
begin

text \<open>
  Guidelines 35 and 36: prices of items decorated with discounts and taxes.
  \<^item> \<open>src/G35_Decorator_1.cpp\<close>: the classic Decorator, a class hierarchy \<open>Item\<close> with
    \<open>DecoratedItem\<close> owning the decorated item through \<open>std::unique_ptr<Item>\<close>; the
    constructors validate their arguments and throw \<open>std::invalid_argument\<close>;
  \<^item> \<open>src/G36_Compile_Time_Decorator.cpp\<close>: \<open>Discounted<discount,Item>\<close> and
    \<open>Taxed<taxRate,Item>\<close> class templates over the concept \<open>PricedItem\<close>;
  \<^item> \<open>src/G36_Runtime_Decorator.cpp\<close>: a type-erased value \<open>Item\<close> and plain value
    decorators, without validation.
  \<open>Money\<close> is a \<open>uint64_t\<close> (\<open>64 word\<close>). \<open>Money * factor\<close> multiplies in \<open>double\<close> and
  converts back with \<open>static_cast<uint64_t>\<close>, which truncates toward zero and is
  undefined when the truncated value is not representable. \<open>double\<close> values are
  modelled as reals: their binary rounding is not modelled, the truncation is.
\<close>

record money =
  money_value :: "64 word"

text \<open>\<open>operator*( Money, T factor )\<close>: \<open>Money{ static_cast<uint64_t>( money.value * factor ) }\<close>.
  The conversion of the \<open>uint64_t\<close> to \<open>double\<close> and the \<open>double\<close> product are taken as
  exact real arithmetic: their rounding (above \<open>2^53\<close> the conversion is inexact) is not
  modelled, only the truncation of the \<open>static_cast\<close> and its range.\<close>

definition money_mul :: "money \<Rightarrow> real \<Rightarrow> money result" where
  "money_mul m factor =
     (let p = real (unat (money_value m)) * factor in
      if - 1 < p \<and> p < 2 ^ 64 then Inr \<lparr>money_value = of_nat (nat \<lfloor>p\<rfloor>)\<rparr> else Inl FloatToIntOverflow)"

text \<open>\<open>operator+( Money, Money )\<close>: unsigned addition wraps.\<close>

definition money_add :: "money \<Rightarrow> money \<Rightarrow> money" where
  "money_add lhs rhs = \<lparr>money_value = money_value lhs + money_value rhs\<rparr>"

subsection \<open>Guideline 35: the classic Decorator\<close>

text \<open>The dynamic classes of \<open>Item\<close>; \<open>Discounted\<close> and \<open>Taxed\<close> hold their \<open>factor_\<close> and the
  decorated item.\<close>

datatype item =
    CppBook string money
  | ConferenceTicket string money
  | Discounted real item
  | Taxed real item

text \<open>The constructors of the decorators: \<open>DecoratedItem\<close> rejects a null item, then the
  decorator checks its rate.\<close>

definition discounted_construct :: "real \<Rightarrow> item option \<Rightarrow> item result" where
  "discounted_construct discount item =
     (case item of
        None \<Rightarrow> Inl (InvalidArgument ''Invalid item'')
      | Some i \<Rightarrow> if discount < 0 \<or> discount > 1 then Inl (InvalidArgument ''Invalid discount'')
                  else Inr (Discounted (1 - discount) i))"

definition taxed_construct :: "real \<Rightarrow> item option \<Rightarrow> item result" where
  "taxed_construct taxRate item =
     (case item of
        None \<Rightarrow> Inl (InvalidArgument ''Invalid item'')
      | Some i \<Rightarrow> if taxRate < 0 then Inl (InvalidArgument ''Invalid tax'')
                  else Inr (Taxed (1 + taxRate) i))"

text \<open>\<open>price()\<close> of each class.\<close>

fun price :: "item \<Rightarrow> money result" where
  "price (CppBook title p) = Inr p"
| "price (ConferenceTicket name p) = Inr p"
| "price (Discounted factor i) = bind_result (price i) (\<lambda>p. money_mul p factor)"
| "price (Taxed factor i) = bind_result (price i) (\<lambda>p. money_mul p factor)"

definition main35 :: "(money \<times> money) result" where
  "main35 =
     bind_result (taxed_construct 0.07 (Some (CppBook ''Effective C++'' \<lparr>money_value = 19\<rparr>))) (\<lambda>item1.
     bind_result (discounted_construct 0.2 (Some (ConferenceTicket ''CppCon'' \<lparr>money_value = 999\<rparr>))) (\<lambda>d.
     bind_result (taxed_construct 0.19 (Some d)) (\<lambda>item2.
     bind_result (price item1) (\<lambda>totalPrice1.
     bind_result (price item2) (\<lambda>totalPrice2. Inr (totalPrice1, totalPrice2))))))"

subsection \<open>Guideline 36: decorators as class templates\<close>

text \<open>\<open>Taxed<taxRate, Discounted<discount, ConferenceTicket>>\<close>: the template arguments are
  the rates.\<close>

datatype ct_item =
    CTConferenceTicket string money
  | CTDiscounted real ct_item
  | CTTaxed real ct_item

fun ct_price :: "ct_item \<Rightarrow> money result" where
  "ct_price (CTConferenceTicket name p) = Inr p"
| "ct_price (CTDiscounted discount i) = bind_result (ct_price i) (\<lambda>p. money_mul p (1 - discount))"
| "ct_price (CTTaxed taxRate i) = bind_result (ct_price i) (\<lambda>p. money_mul p (1 + taxRate))"

definition main36_ct :: "money result" where
  "main36_ct = ct_price (CTTaxed 0.15 (CTDiscounted 0.2 (CTConferenceTicket ''Core C++'' \<lparr>money_value = 499\<rparr>)))"

subsection \<open>Guideline 36: a type-erased \<open>Item\<close> and value decorators\<close>

text \<open>\<open>Item\<close> owns a \<open>Model<T>\<close> of one of the value types; the decorators hold an \<open>Item\<close>
  and their factor, computed without any validation.\<close>

datatype rt_value =
    RTConferenceTicket string money
  | RTDiscounted rt_item real
  | RTTaxed rt_item real
and rt_item = RTItem rt_value

fun rt_value_price :: "rt_value \<Rightarrow> money result"
and rt_item_price :: "rt_item \<Rightarrow> money result" where
  "rt_value_price (RTConferenceTicket name p) = Inr p"
| "rt_value_price (RTDiscounted i factor) = bind_result (rt_item_price i) (\<lambda>p. money_mul p factor)"
| "rt_value_price (RTTaxed i factor) = bind_result (rt_item_price i) (\<lambda>p. money_mul p factor)"
| "rt_item_price (RTItem v) = rt_value_price v"

definition rt_discounted :: "real \<Rightarrow> rt_item \<Rightarrow> rt_value" where
  "rt_discounted discount i = RTDiscounted i (1 - discount)"

definition rt_taxed :: "real \<Rightarrow> rt_item \<Rightarrow> rt_value" where
  "rt_taxed taxRate i = RTTaxed i (1 + taxRate)"

definition main36_rt :: "money result" where
  "main36_rt =
     rt_item_price (RTItem (rt_taxed 0.15 (RTItem (rt_discounted 0.2 (RTItem (RTConferenceTicket ''Core C++'' \<lparr>money_value = 499\<rparr>))))))"

subsection \<open>One decoration, three designs\<close>

text \<open>A conference ticket under a chain of discounts and taxes, and what each design
  builds for it.\<close>

datatype decoration = DTicket string money | DDiscount real decoration | DTax real decoration

fun to_g35 :: "decoration \<Rightarrow> item" where
  "to_g35 (DTicket n p) = ConferenceTicket n p"
| "to_g35 (DDiscount d x) = Discounted (1 - d) (to_g35 x)"
| "to_g35 (DTax t x) = Taxed (1 + t) (to_g35 x)"

fun to_ct :: "decoration \<Rightarrow> ct_item" where
  "to_ct (DTicket n p) = CTConferenceTicket n p"
| "to_ct (DDiscount d x) = CTDiscounted d (to_ct x)"
| "to_ct (DTax t x) = CTTaxed t (to_ct x)"

fun to_rt :: "decoration \<Rightarrow> rt_item" where
  "to_rt (DTicket n p) = RTItem (RTConferenceTicket n p)"
| "to_rt (DDiscount d x) = RTItem (rt_discounted d (to_rt x))"
| "to_rt (DTax t x) = RTItem (rt_taxed t (to_rt x))"

text \<open>The price in exact arithmetic, and the items whose factors are not negative.\<close>

fun exact_price :: "item \<Rightarrow> real" where
  "exact_price (CppBook title p) = real (unat (money_value p))"
| "exact_price (ConferenceTicket name p) = real (unat (money_value p))"
| "exact_price (Discounted factor i) = factor * exact_price i"
| "exact_price (Taxed factor i) = factor * exact_price i"

fun item_valid :: "item \<Rightarrow> bool" where
  "item_valid (Discounted factor i) = (0 \<le> factor \<and> item_valid i)"
| "item_valid (Taxed factor i) = (0 \<le> factor \<and> item_valid i)"
| "item_valid _ = True"

lemma exact_price_nonneg: "item_valid i \<Longrightarrow> 0 \<le> exact_price i"
  by (induction i) simp_all

lemma construct_valid:
  "discounted_construct d item = Inr j \<Longrightarrow> (\<exists>i. item = Some i \<and> 0 \<le> d \<and> d \<le> 1 \<and> j = Discounted (1 - d) i)"
  "taxed_construct t item = Inr j \<Longrightarrow> (\<exists>i. item = Some i \<and> 0 \<le> t \<and> j = Taxed (1 + t) i)"
  by (auto simp: discounted_construct_def taxed_construct_def split: option.splits if_splits)

subsection \<open>Properties of the decorators\<close>

text \<open>C27: the three designs compute the same price for the same chain of decorations:
  the classic Decorator of G35, the class templates of G36 and the type-erased value
  decorators of G36, faults included.\<close>

theorem decorator_designs_equivalent:
  "price (to_g35 x) = ct_price (to_ct x) \<and> rt_item_price (to_rt x) = ct_price (to_ct x)"
  by (induction x) (simp_all add: rt_discounted_def rt_taxed_def)

text \<open>The \<open>main\<close> functions print 20 and 950 (G35) and 458 (both G36 programs): the
  conversion to \<open>uint64_t\<close> truncates, so each decorator drops the cents.\<close>

lemma main_prices:
  "main35 = Inr (\<lparr>money_value = 20\<rparr>, \<lparr>money_value = 950\<rparr>)
   \<and> main36_ct = Inr \<lparr>money_value = 458\<rparr> \<and> main36_rt = Inr \<lparr>money_value = 458\<rparr>"
  by (simp add: main35_def main36_ct_def main36_rt_def rt_discounted_def rt_taxed_def
      taxed_construct_def discounted_construct_def money_mul_def floor_eq_iff)

text \<open>C29: the G35 constructors reject a null item and a rate out of range with
  \<open>std::invalid_argument\<close>, and what they accept keeps every factor of the item not
  negative (a discount factor at most 1, a tax factor at least 1).\<close>

theorem construct_checks:
  "discounted_construct d None = Inl (InvalidArgument ''Invalid item'')
   \<and> taxed_construct t None = Inl (InvalidArgument ''Invalid item'')
   \<and> ((d < 0 \<or> 1 < d) \<longrightarrow> discounted_construct d (Some i) = Inl (InvalidArgument ''Invalid discount''))
   \<and> (t < 0 \<longrightarrow> taxed_construct t (Some i) = Inl (InvalidArgument ''Invalid tax''))
   \<and> (item_valid i \<longrightarrow> discounted_construct d (Some i) = Inr j \<longrightarrow> item_valid j \<and> exact_price j \<le> exact_price i)
   \<and> (item_valid i \<longrightarrow> taxed_construct t (Some i) = Inr j \<longrightarrow> item_valid j \<and> exact_price i \<le> exact_price j)"
proof (intro conjI impI)
  assume v: "item_valid i"
  { assume "discounted_construct d (Some i) = Inr j"
    with construct_valid(1) obtain "0 \<le> d" "d \<le> 1" "j = Discounted (1 - d) i" by blast
    with exact_price_nonneg [OF v] v show "item_valid j" "exact_price j \<le> exact_price i"
      by (simp_all add: mult_left_le_one_le) }
  { assume "taxed_construct t (Some i) = Inr j"
    with construct_valid(2) obtain "0 \<le> t" "j = Taxed (1 + t) i" by blast
    with exact_price_nonneg [OF v] v show "item_valid j" "exact_price i \<le> exact_price j"
      by (simp_all add: mult_le_cancel_right1) }
qed (simp_all add: discounted_construct_def taxed_construct_def)

theorem construct_checks_witness:
  "discounted_construct 1.5 (Some (CppBook ''Effective C++'' \<lparr>money_value = 19\<rparr>))
     = Inl (InvalidArgument ''Invalid discount'')
   \<and> taxed_construct (- 0.1) (Some (CppBook ''Effective C++'' \<lparr>money_value = 19\<rparr>))
     = Inl (InvalidArgument ''Invalid tax'')
   \<and> item_valid (Discounted 0.8 (CppBook ''Effective C++'' \<lparr>money_value = 19\<rparr>))"
proof -
  have "discounted_construct 0.2 (Some (CppBook ''Effective C++'' \<lparr>money_value = 19\<rparr>))
          = Inr (Discounted 0.8 (CppBook ''Effective C++'' \<lparr>money_value = 19\<rparr>))"
    by (simp add: discounted_construct_def)
  with construct_checks [of "1.5" "- 0.1" "CppBook ''Effective C++'' \<lparr>money_value = 19\<rparr>"
      "Discounted 0.8 (CppBook ''Effective C++'' \<lparr>money_value = 19\<rparr>)"]
  show ?thesis by simp
qed

text \<open>C30: the runtime decorators of G36 do not validate their rate: a discount of 1.5 makes
  the factor negative, and for every price of at least 2 the conversion of the negative
  product to \<open>uint64_t\<close> is undefined behaviour, while G35 rejects the same discount.\<close>

theorem rt_discount_unchecked:
  assumes "2 \<le> unat (money_value p)"
  shows "rt_item_price (RTItem (rt_discounted 1.5 (RTItem (RTConferenceTicket n p)))) = Inl FloatToIntOverflow
         \<and> discounted_construct 1.5 (Some (ConferenceTicket n p)) = Inl (InvalidArgument ''Invalid discount'')"
proof -
  have "(2::real) \<le> real (unat (money_value p))" using assms by (metis of_nat_le_iff of_nat_numeral)
  then have "real (unat (money_value p)) * (1 - 1.5) \<le> - 1" by simp
  then show ?thesis by (simp add: rt_discounted_def money_mul_def discounted_construct_def)
qed

theorem rt_discount_unchecked_witness:
  "rt_item_price (RTItem (rt_discounted 1.5 (RTItem (RTConferenceTicket ''Core C++'' \<lparr>money_value = 499\<rparr>))))
     = Inl FloatToIntOverflow"
  using rt_discount_unchecked [of "\<lparr>money_value = 499\<rparr>" "''Core C++''"] by simp

end
