(* ===== verification/Value_Semantics.thy ===== *)
theory Value_Semantics
  imports Prelude
begin

text \<open>
  Guideline 22 (\<open>src/G22_Example_1.cpp\<close>, \<open>src/G22_Example_2.cpp\<close>): two programs whose
  behaviour depends on reference semantics.
  \<^item> Example 1: a \<open>std::span<int>\<close> refers to the buffer of a \<open>std::vector<int>\<close>; the
    vector's buffer is a cell of an explicit store of \<open>int\<close> arrays, so that assigning a
    longer list, which reallocates, leaves the span dangling.
  \<^item> Example 2: \<open>vec.erase( std::remove( begin(vec), end(vec), *pos ), end(vec) )\<close>
    passes the largest element by reference: \<open>std::remove\<close> reads the value through
    the reference while it moves elements over it. The algorithms \<open>std::max_element\<close>,
    \<open>std::find\<close> and \<open>std::remove\<close> are those of the C++ standard library (the loops
    of libstdc++), with the value to remove read from the current vector by a function,
    so that an aliased value and a copied one are the same definition.
  \<open>int\<close> is \<open>int32\<close>; the comparisons are signed.
\<close>

subsection \<open>Example 1: a span into a vector\<close>

text \<open>A \<open>std::vector<int>\<close> is its buffer pointer, size and capacity; the buffer is a cell
  holding the live elements. Constructing from an initializer list and copying allocate
  exactly the needed capacity (as libstdc++ and libc++ do).\<close>

record vector =
  vdata :: addr
  vsize :: nat
  vcap :: nat

type_synonym buffers = "int32 list store"

definition vector_construct :: "int32 list \<Rightarrow> buffers \<Rightarrow> vector \<times> buffers" where
  "vector_construct xs h =
     (case store_new xs h of (a, h') \<Rightarrow> (\<lparr>vdata = a, vsize = length xs, vcap = length xs\<rparr>, h'))"

definition vector_copy :: "vector \<Rightarrow> buffers \<Rightarrow> (vector \<times> buffers) result" where
  "vector_copy v h = bind_result (deref h (Some (vdata v))) (\<lambda>xs. Inr (vector_construct xs h))"

text \<open>\<open>v = { ... }\<close>: \<open>vector::assign\<close> reuses the buffer when the new elements fit its
  capacity; otherwise it allocates a new buffer, copies, and deallocates the old one.\<close>

definition vector_assign :: "vector \<Rightarrow> int32 list \<Rightarrow> buffers \<Rightarrow> (vector \<times> buffers) result" where
  "vector_assign v xs h =
     (if length xs \<le> vcap v then
        (case cells h (vdata v) of
           None \<Rightarrow> Inl Dangling
         | Some _ \<Rightarrow> Inr (v\<lparr>vsize := length xs\<rparr>, h\<lparr>cells := (cells h)(vdata v \<mapsto> xs)\<rparr>))
      else
        (case store_new xs h of (a, h1) \<Rightarrow>
           bind_result (store_delete (vdata v) h1)
             (\<lambda>h2. Inr (\<lparr>vdata = a, vsize = length xs, vcap = length xs\<rparr>, h2))))"

text \<open>\<open>std::span<int> const s{ v }\<close> copies \<open>v.data()\<close> and \<open>v.size()\<close>.\<close>

record span =
  sdata :: addr
  ssize :: nat

definition span_of :: "vector \<Rightarrow> span" where
  "span_of v = \<lparr>sdata = vdata v, ssize = vsize v\<rparr>"

text \<open>\<open>s[i] = x\<close>: an index not below \<open>size()\<close> violates the precondition; the element is
  written through the pointer, which may no longer point to a live buffer.\<close>

definition span_set :: "span \<Rightarrow> nat \<Rightarrow> int32 \<Rightarrow> buffers \<Rightarrow> buffers result" where
  "span_set s i x h =
     (if i < ssize s then
        (case cells h (sdata s) of
           None \<Rightarrow> Inl Dangling
         | Some xs \<Rightarrow> if i < length xs then Inr (h\<lparr>cells := (cells h)(sdata s \<mapsto> xs[i := x])\<rparr>) else Inl OutOfBounds)
      else Inl OutOfBounds)"

text \<open>\<open>print( s )\<close>: the range-for reads every element of the span.\<close>

definition print_span :: "span \<Rightarrow> buffers \<Rightarrow> int32 list result" where
  "print_span s h =
     (case cells h (sdata s) of
        None \<Rightarrow> Inl Dangling
      | Some xs \<Rightarrow> if ssize s \<le> length xs then Inr (take (ssize s) xs) else Inl OutOfBounds)"

text \<open>\<open>main\<close>: the two printed lines, or the fault that ends the run.\<close>

definition main22_1 :: "(int32 list \<times> int32 list) result" where
  "main22_1 =
     (case vector_construct [1, 2, 3, 4] empty_store of (v, h1) \<Rightarrow>
      bind_result (vector_copy v h1) (\<lambda>(w, h2). let s = span_of v in
      bind_result (span_set s 2 99 h2) (\<lambda>h3.
      bind_result (print_span s h3) (\<lambda>out1.
      bind_result (vector_assign v [5, 6, 7, 8, 9] h3) (\<lambda>(v', h4).
      bind_result (span_set s 2 99 h4) (\<lambda>h5.
      bind_result (print_span s h5) (\<lambda>out2. Inr (out1, out2))))))))"

subsection \<open>Example 2: erase-remove with an aliased value\<close>

text \<open>\<open>std::max_element\<close>: the first position holding a largest element.\<close>

function max_element_from :: "int32 list \<Rightarrow> nat \<Rightarrow> nat \<Rightarrow> nat" where
  "max_element_from xs largest i =
     (if i < length xs
      then max_element_from xs (if sint (xs ! largest) < sint (xs ! i) then i else largest) (Suc i)
      else largest)"
  by pat_completeness auto
termination by (relation "measure (\<lambda>(xs, _, i). length xs - i)") auto

declare max_element_from.simps [simp del]

definition max_element :: "int32 list \<Rightarrow> nat" where
  "max_element xs = (if xs = [] then 0 else max_element_from xs 0 1)"

text \<open>\<open>std::find( first, last, value )\<close>, with \<open>value\<close> read from the current vector.\<close>

function find_from :: "(int32 list \<Rightarrow> int32) \<Rightarrow> int32 list \<Rightarrow> nat \<Rightarrow> nat" where
  "find_from val xs i = (if i < length xs then (if xs ! i = val xs then i else find_from val xs (Suc i)) else i)"
  by pat_completeness auto
termination by (relation "measure (\<lambda>(_, xs, i). length xs - i)") auto

declare find_from.simps [simp del]

text \<open>The loop of \<open>std::remove\<close>: \<open>if( !( *first == value ) ) *result++ = std::move( *first );\<close>.\<close>

function remove_loop :: "(int32 list \<Rightarrow> int32) \<Rightarrow> int32 list \<Rightarrow> nat \<Rightarrow> nat \<Rightarrow> int32 list \<times> nat" where
  "remove_loop val xs r i =
     (if i < length xs
      then (if xs ! i \<noteq> val xs then remove_loop val (xs[r := xs ! i]) (Suc r) (Suc i)
            else remove_loop val xs r (Suc i))
      else (xs, r))"
  by pat_completeness auto
termination by (relation "measure (\<lambda>(_, xs, _, i). length xs - i)") auto

declare remove_loop.simps [simp del]

definition std_remove :: "(int32 list \<Rightarrow> int32) \<Rightarrow> int32 list \<Rightarrow> int32 list \<times> nat" where
  "std_remove val xs = (let f = find_from val xs 0 in if f = length xs then (xs, f) else remove_loop val xs f (Suc f))"

text \<open>\<open>vec.erase( result, end(vec) )\<close>.\<close>

definition erase_remove :: "(int32 list \<Rightarrow> int32) \<Rightarrow> int32 list \<Rightarrow> int32 list" where
  "erase_remove val xs = (case std_remove val xs of (ys, r) \<Rightarrow> take r ys)"

text \<open>\<open>main\<close>: \<open>*pos\<close> binds the \<open>const int&\<close> parameter of \<open>std::remove\<close> to \<open>vec[pos]\<close>.\<close>

definition vec22 :: "int32 list" where
  "vec22 = [1, -3, 27, 42, 4, -8, 22, 42, 37, 4, 18, 9]"

definition main22_2 :: "int32 list" where
  "main22_2 = (let pos = max_element vec22 in erase_remove (\<lambda>v. v ! pos) vec22)"

subsection \<open>The loops of the algorithms\<close>

lemma max_element_from_props:
  "l < i \<Longrightarrow> i \<le> length xs \<Longrightarrow> \<forall>j < i. sint (xs ! j) \<le> sint (xs ! l) \<Longrightarrow> \<forall>j < l. sint (xs ! j) < sint (xs ! l)
   \<Longrightarrow> max_element_from xs l i < length xs
     \<and> (\<forall>j < length xs. sint (xs ! j) \<le> sint (xs ! max_element_from xs l i))
     \<and> (\<forall>j < max_element_from xs l i. sint (xs ! j) < sint (xs ! max_element_from xs l i))"
proof (induction xs l i rule: max_element_from.induct)
  case (1 xs l i)
  show ?case
  proof (cases "i < length xs")
    case True
    let ?l' = "if sint (xs ! l) < sint (xs ! i) then i else l"
    have "\<forall>j < Suc i. sint (xs ! j) \<le> sint (xs ! ?l')" "\<forall>j < ?l'. sint (xs ! j) < sint (xs ! ?l')"
      using "1.prems" by (auto simp: less_Suc_eq)
    with "1.IH" [OF True] "1.prems" True show ?thesis
      by (simp add: max_element_from.simps [of xs l i])
  next
    case False
    then have "max_element_from xs l i = l" by (subst max_element_from.simps) simp
    moreover have "i = length xs" using False "1.prems"(2) by simp
    ultimately show ?thesis using "1.prems" by simp
  qed
qed

lemma find_from_props:
  "i \<le> find_from val xs i \<and> find_from val xs i \<le> max i (length xs)
   \<and> (\<forall>j. i \<le> j \<and> j < find_from val xs i \<longrightarrow> xs ! j \<noteq> val xs)
   \<and> (find_from val xs i < length xs \<longrightarrow> xs ! find_from val xs i = val xs)"
proof (induction val xs i rule: find_from.induct)
  case (1 val xs i)
  show ?case
  proof (cases "i < length xs \<and> xs ! i \<noteq> val xs")
    case True
    with "1.IH" show ?thesis
      by (auto simp: find_from.simps [of val xs i] Suc_le_eq) (metis le_neq_implies_less)+
  next
    case False
    then show ?thesis by (auto simp: find_from.simps [of val xs i])
  qed
qed

lemma find_from_eqI:
  "i \<le> k \<Longrightarrow> k < length xs \<Longrightarrow> xs ! k = val xs \<Longrightarrow> \<forall>j. i \<le> j \<and> j < k \<longrightarrow> xs ! j \<noteq> val xs
   \<Longrightarrow> find_from val xs i = k"
proof (induction val xs i rule: find_from.induct)
  case (1 val xs i)
  show ?case
  proof (cases "i = k")
    case True
    with "1.prems" show ?thesis by (subst find_from.simps) simp
  next
    case False
    with "1.prems" have "xs ! i \<noteq> val xs" "i < length xs" by auto
    with "1.IH" "1.prems" False show ?thesis by (simp add: find_from.simps [of val xs i])
  qed
qed

lemma remove_loop_const:
  "val = (\<lambda>_. c) \<Longrightarrow> r \<le> i \<Longrightarrow> remove_loop val xs r i = (ys, r') \<Longrightarrow>
   take r' ys = take r xs @ filter (\<lambda>x. x \<noteq> c) (drop i xs)"
proof (induction val xs r i arbitrary: ys r' rule: remove_loop.induct)
  case (1 val xs r i)
  show ?case
  proof (cases "i < length xs")
    case True
    then have d: "drop i xs = xs ! i # drop (Suc i) xs" by (simp add: Cons_nth_drop_Suc)
    show ?thesis
    proof (cases "xs ! i \<noteq> c")
      case ne: True
      have t: "take (Suc r) (xs[r := xs ! i]) = take r xs @ [xs ! i]"
        using True "1.prems"(2) by (simp add: take_Suc_conv_app_nth)
      have "drop (Suc i) (xs[r := xs ! i]) = drop (Suc i) xs" using "1.prems"(2) by simp
      moreover have "remove_loop val xs r i = remove_loop val (xs[r := xs ! i]) (Suc r) (Suc i)"
        using "1.prems"(1) True ne by (subst remove_loop.simps) simp
      then have "remove_loop val (xs[r := xs ! i]) (Suc r) (Suc i) = (ys, r')"
        using "1.prems"(3) by simp
      ultimately show ?thesis using "1.IH"(1) "1.prems" True t d ne by simp
    next
      case False
      then have "remove_loop val xs r i = remove_loop val xs r (Suc i)"
        using "1.prems"(1) True by (subst remove_loop.simps) simp
      then have "remove_loop val xs r (Suc i) = (ys, r')" using "1.prems"(3) by simp
      with "1.IH"(2) False "1.prems" True d show ?thesis by simp
    qed
  next
    case False
    then have "remove_loop val xs r i = (xs, r)" by (subst remove_loop.simps) simp
    with False "1.prems" show ?thesis by simp
  qed
qed

lemma remove_loop_alias_frozen:
  "val = (\<lambda>ys. ys ! k) \<Longrightarrow> k < r \<Longrightarrow> r \<le> i \<Longrightarrow>
   remove_loop val xs r i = remove_loop (\<lambda>_. xs ! k) xs r i"
proof (induction val xs r i rule: remove_loop.induct)
  case (1 val xs r i)
  show ?case
  proof (cases "i < length xs")
    case True
    show ?thesis
    proof (cases "xs ! i \<noteq> xs ! k")
      case ne: True
      have "xs[r := xs ! i] ! k = xs ! k" using "1.prems"(2) by simp
      with "1.IH"(1) [OF True] ne "1.prems" True show ?thesis
        by (simp add: remove_loop.simps [of _ xs r i])
    next
      case False
      with "1.IH"(2) [OF True] "1.prems" True show ?thesis
        by (simp add: remove_loop.simps [of _ xs r i])
    qed
  next
    case False
    then show ?thesis by (simp add: remove_loop.simps [of _ xs r i])
  qed
qed

subsection \<open>Properties\<close>

text \<open>C31: \<open>std::max_element\<close> returns the first position of a largest element of a
  non-empty vector, so \<open>*pos\<close> in \<open>main\<close> is a valid dereference of the maximum.\<close>

theorem max_element_first_largest:
  assumes "xs \<noteq> []"
  shows "max_element xs < length xs
         \<and> (\<forall>j < length xs. sint (xs ! j) \<le> sint (xs ! max_element xs))
         \<and> (\<forall>j < max_element xs. sint (xs ! j) < sint (xs ! max_element xs))"
proof -
  from assms have "1 \<le> length xs" by (simp add: Suc_le_eq)
  with max_element_from_props [of 0 1 xs] assms show ?thesis by (simp add: max_element_def less_Suc_eq)
qed

theorem max_element_first_largest_witness:
  "vec22 \<noteq> [] \<and> max_element vec22 = 3 \<and> sint (vec22 ! 7) \<le> sint (vec22 ! 3) \<and> sint (vec22 ! 2) < sint (vec22 ! 3)"
proof -
  have m: "max_element vec22 = 3"
    by (simp add: max_element_def vec22_def max_element_from.simps)
  have ne: "vec22 \<noteq> []" and l: "7 < length vec22" by (simp_all add: vec22_def)
  from max_element_first_largest [OF ne] m
  have A: "\<forall>j < length vec22. sint (vec22 ! j) \<le> sint (vec22 ! 3)"
    and B: "\<forall>j < 3. sint (vec22 ! j) < sint (vec22 ! 3)" by simp_all
  from A l have "sint (vec22 ! 7) \<le> sint (vec22 ! 3)" by blast
  moreover from B have "sint (vec22 ! 2) < sint (vec22 ! 3)" by simp
  ultimately show ?thesis using ne m by simp
qed

text \<open>C32: erase-remove with a value held by copy is \<open>filter\<close>: it removes exactly the
  elements equal to the value and keeps the order of the others.\<close>

theorem erase_remove_copy: "erase_remove (\<lambda>_. c) xs = filter (\<lambda>x. x \<noteq> c) xs"
proof -
  define f where "f = find_from (\<lambda>_. c) xs 0"
  have f: "f \<le> length xs" "\<forall>j < f. xs ! j \<noteq> c" "f < length xs \<longrightarrow> xs ! f = c"
    using find_from_props [of 0 "\<lambda>_. c" xs] unfolding f_def by auto
  have "\<forall>x \<in> set (take f xs). x \<noteq> c"
  proof
    fix x assume "x \<in> set (take f xs)"
    then obtain j where "j < f" "xs ! j = x" by (auto simp: in_set_conv_nth)
    with f(2) show "x \<noteq> c" by blast
  qed
  then have pre: "filter (\<lambda>x. x \<noteq> c) (take f xs) = take f xs" by (simp only: filter_id_conv)
  show ?thesis
  proof (cases "f = length xs")
    case True
    with pre show ?thesis by (simp add: erase_remove_def std_remove_def f_def [symmetric])
  next
    case False
    with f have lt: "f < length xs" and at: "xs ! f = c" by auto
    obtain ys r' where rl: "remove_loop (\<lambda>_. c) xs f (Suc f) = (ys, r')" by fastforce
    from id_take_nth_drop [OF lt]
    have "filter (\<lambda>x. x \<noteq> c) xs = filter (\<lambda>x. x \<noteq> c) (take f xs @ xs ! f # drop (Suc f) xs)"
      by (rule arg_cong)
    also have "\<dots> = take f xs @ filter (\<lambda>x. x \<noteq> c) (drop (Suc f) xs)" using pre at by simp
    finally have split: "filter (\<lambda>x. x \<noteq> c) xs = take f xs @ filter (\<lambda>x. x \<noteq> c) (drop (Suc f) xs)" .
    with remove_loop_const [OF refl _ rl] False show ?thesis
      by (simp add: erase_remove_def std_remove_def f_def [symmetric] rl)
  qed
qed

text \<open>C33: erase-remove with the value read through a reference into the vector: once
  \<open>std::remove\<close> moves the first kept element \<open>w\<close> onto the referenced position, it goes
  on removing \<open>w\<close> instead of \<open>v\<close>. In \<open>main\<close> the second 42 survives and the second 4 is
  removed.\<close>

theorem erase_remove_alias:
  assumes "v \<notin> set pre" and "w \<noteq> v"
  shows "erase_remove (\<lambda>ys. ys ! length pre) (pre @ v # w # rest) = pre @ w # filter (\<lambda>x. x \<noteq> w) rest"
proof -
  let ?xs = "pre @ v # w # rest" and ?f = "length pre"
  have find: "find_from (\<lambda>ys. ys ! ?f) ?xs 0 = ?f"
    using assms(1) by (intro find_from_eqI) (auto simp: nth_append in_set_conv_nth)
  have step: "remove_loop (\<lambda>ys. ys ! ?f) ?xs ?f (Suc ?f)
            = remove_loop (\<lambda>ys. ys ! ?f) (pre @ w # w # rest) (Suc ?f) (Suc (Suc ?f))"
    using assms(2) by (subst remove_loop.simps) (simp add: nth_append list_update_append)
  obtain ys r' where rl: "remove_loop (\<lambda>_. w) (pre @ w # w # rest) (Suc ?f) (Suc (Suc ?f)) = (ys, r')"
    by fastforce
  have "remove_loop (\<lambda>ys. ys ! ?f) (pre @ w # w # rest) (Suc ?f) (Suc (Suc ?f)) = (ys, r')"
    using remove_loop_alias_frozen [OF refl, of ?f "Suc ?f" "Suc (Suc ?f)" "pre @ w # w # rest"] rl
    by simp
  with remove_loop_const [OF refl _ rl] find step show ?thesis
    by (simp add: erase_remove_def std_remove_def)
qed

theorem erase_remove_alias_witness: "main22_2 = [1, -3, 27, 4, -8, 22, 42, 37, 18, 9]"
proof -
  have "max_element vec22 = 3"
    by (simp add: max_element_def vec22_def max_element_from.simps)
  with erase_remove_alias [of 42 "[1, -3, 27]" 4 "[-8, 22, 42, 37, 4, 18, 9]"]
  show ?thesis by (simp add: main22_2_def vec22_def numeral_3_eq_3)
qed

text \<open>C34: a span into a vector survives an assignment to the vector exactly when the new
  contents fit its capacity: otherwise the buffer is reallocated and every access through
  the span is a dangling access (in \<open>main\<close>, the second \<open>s[2] = 99\<close>).\<close>

theorem span_dangles_iff_realloc:
  assumes "store_wf h" and "cells h (vdata v) = Some ys"
  shows "\<exists>v' h'. vector_assign v xs h = Inr (v', h')
           \<and> (print_span (span_of v) h' = Inl Dangling \<longleftrightarrow> vcap v < length xs)
           \<and> (length xs \<le> vcap v \<longrightarrow> vdata v' = vdata v)"
proof (cases "length xs \<le> vcap v")
  case True
  with assms(2) show ?thesis
    by (simp add: vector_assign_def print_span_def span_of_def)
next
  case False
  from assms have fresh: "next_addr h \<noteq> vdata v" by (auto simp: store_wf_def)
  with assms(2) False show ?thesis
    by (simp add: vector_assign_def print_span_def span_of_def store_new_def store_delete_def)
qed

theorem span_dangles_iff_realloc_witness:
  "main22_1 = Inl Dangling
   \<and> (\<exists>v' h'. vector_assign \<lparr>vdata = 0, vsize = 4, vcap = 4\<rparr> [5, 6, 7, 8, 9]
                 (snd (store_new [1, 2, 3, 4] (empty_store :: buffers))) = Inr (v', h')
             \<and> print_span \<lparr>sdata = 0, ssize = 4\<rparr> h' = Inl Dangling)"
proof -
  have m: "main22_1 = Inl Dangling"
    by (simp add: main22_1_def vector_construct_def vector_copy_def span_of_def span_set_def print_span_def
        vector_assign_def store_new_def store_delete_def deref_def empty_store_def)
  have "store_wf (snd (store_new [1, 2, 3, 4] (empty_store :: buffers)))"
    and "cells (snd (store_new [1, 2, 3, 4] (empty_store :: buffers))) (vdata \<lparr>vdata = 0, vsize = 4, vcap = 4\<rparr>)
           = Some [1, 2, 3, 4]"
    by (simp_all add: store_wf_def store_new_def empty_store_def)
  from span_dangles_iff_realloc [where xs = "[5, 6, 7, 8, 9]", OF this] m show ?thesis
    by (simp add: span_of_def)
qed

end
