(* ===== verification/Singleton.thy ===== *)
theory Singleton
  imports Prelude
begin

text \<open>
  Guideline 38 (\<open>src/G38_Singleton.cpp\<close>): a global \<open>PersistenceInterface* instance\<close>
  with a setter for dependency injection and a getter that, on its first call only,
  installs a function-local \<open>static Database\<close> if no instance has been set. The global
  state is a record: the pointer \<open>instance\<close> (field \<open>instance_ptr\<close>, as \<open>instance\<close> is a keyword), whether the initializer of the local
  \<open>static bool init\<close> has run, and how many \<open>Database\<close> objects have been constructed.
  A pointer is \<open>None\<close> (null) or names the object it points to: the local static
  \<open>Database\<close> or a \<open>CustomPersistence\<close> at an address. \<open>do_read\<close> and \<open>do_write\<close> of both
  classes return \<open>true\<close>. Client code is a list of operations run in order.
\<close>

datatype persistence = StaticDatabase | CustomPersistence addr

record singleton_state =
  instance_ptr :: "persistence option"
  init_done :: bool
  db_constructions :: nat

definition singleton_init :: singleton_state where
  "singleton_init = \<lparr>instance_ptr = None, init_done = False, db_constructions = 0\<rparr>"

text \<open>The overriders of \<open>do_read\<close> and \<open>do_write\<close> in \<open>Database\<close> and in
  \<open>CustomPersistence\<close>; all of them report success.\<close>

definition database_do_read :: bool where
  "database_do_read = True"

definition database_do_write :: bool where
  "database_do_write = True"

definition custom_persistence_do_read :: bool where
  "custom_persistence_do_read = True"

definition custom_persistence_do_write :: bool where
  "custom_persistence_do_write = True"

text \<open>\<open>CustomPersistence()\<close>: a custom persistence object at an address.\<close>

definition custom_persistence_construct :: "addr \<Rightarrow> persistence" where
  "custom_persistence_construct a = CustomPersistence a"

text \<open>The pure virtual \<open>do_read\<close> and \<open>do_write\<close> of \<open>PersistenceInterface\<close>: a call
  runs the overrider of the object's dynamic class. \<open>PersistenceInterface::read\<close> and
  \<open>write\<close> make that call; through a null pointer it is undefined behaviour.\<close>

fun do_read :: "persistence \<Rightarrow> bool" where
  "do_read StaticDatabase = database_do_read"
| "do_read (CustomPersistence a) = custom_persistence_do_read"

fun do_write :: "persistence \<Rightarrow> bool" where
  "do_write StaticDatabase = database_do_write"
| "do_write (CustomPersistence a) = custom_persistence_do_write"

definition persistence_read :: "persistence option \<Rightarrow> bool result" where
  "persistence_read p = (case p of None \<Rightarrow> Inl NullDeref | Some obj \<Rightarrow> Inr (do_read obj))"

definition persistence_write :: "persistence option \<Rightarrow> bool result" where
  "persistence_write p = (case p of None \<Rightarrow> Inl NullDeref | Some obj \<Rightarrow> Inr (do_write obj))"

text \<open>\<open>get_persistence_interface()\<close>: the initializer of \<open>static bool init\<close> runs on the
  first call only; it constructs the local \<open>static Database db\<close> and points
  \<open>instance\<close> to it when \<open>instance\<close> is null. Then \<open>instance\<close> is returned.\<close>

definition get_persistence_interface :: "singleton_state \<Rightarrow> persistence option \<times> singleton_state" where
  "get_persistence_interface st =
     (let st' = (if init_done st then st
                 else if instance_ptr st = None
                      then st\<lparr>instance_ptr := Some StaticDatabase, init_done := True,
                              db_constructions := Suc (db_constructions st)\<rparr>
                      else st\<lparr>init_done := True\<rparr>)
      in (instance_ptr st', st'))"

definition set_persistence_interface :: "persistence option \<Rightarrow> singleton_state \<Rightarrow> singleton_state" where
  "set_persistence_interface persistence st = st\<lparr>instance_ptr := persistence\<rparr>"

text \<open>\<open>Widget\<close> stores the injected pointer, but \<open>doSomething()\<close> without arguments asks
  the getter again and reads through what it returns.\<close>

record widget =
  persistence_ :: "persistence option"

definition widget_construct :: "persistence option \<Rightarrow> widget" where
  "widget_construct persistence = \<lparr>persistence_ = persistence\<rparr>"

definition widget_doSomething_with :: "persistence option \<Rightarrow> bool result" where
  "widget_doSomething_with persistence = persistence_read persistence"

definition widget_doSomething :: "widget \<Rightarrow> singleton_state \<Rightarrow> (bool \<times> singleton_state) result" where
  "widget_doSomething w st =
     (case get_persistence_interface st of (p, st') \<Rightarrow>
        bind_result (widget_doSomething_with p) (\<lambda>r. Inr (r, st')))"

text \<open>The operations client code performs on the global state, and their run; the
  trace collects the results of the reads.\<close>

datatype singleton_op = OpSet "persistence option" | OpGet | OpWidgetDo

fun singleton_step :: "singleton_op \<Rightarrow> singleton_state \<Rightarrow> (bool list \<times> singleton_state) result" where
  "singleton_step (OpSet p) st = Inr ([], set_persistence_interface p st)"
| "singleton_step OpGet st = Inr ([], snd (get_persistence_interface st))"
| "singleton_step OpWidgetDo st =
     bind_result (widget_doSomething (widget_construct (instance_ptr st)) st) (\<lambda>(r, st'). Inr ([r], st'))"

fun singleton_run :: "singleton_op list \<Rightarrow> singleton_state \<Rightarrow> (bool list \<times> singleton_state) result" where
  "singleton_run [] st = Inr ([], st)"
| "singleton_run (op # ops) st =
     bind_result (singleton_step op st) (\<lambda>(t, st').
     bind_result (singleton_run ops st') (\<lambda>(t', st''). Inr (t @ t', st'')))"

text \<open>\<open>main\<close>: a local \<open>CustomPersistence\<close> is injected before the first call of the
  getter, a \<open>Widget\<close> is constructed from the getter, and \<open>doSomething()\<close> reads.\<close>

definition main38 :: "(bool \<times> singleton_state) result" where
  "main38 =
     (let st1 = set_persistence_interface (Some (custom_persistence_construct 0)) singleton_init;
          (p, st2) = get_persistence_interface st1;
          widget = widget_construct p
      in widget_doSomething widget st2)"

text \<open>The states reachable from program start by any sequence of getter and setter
  calls.\<close>

inductive singleton_reachable :: "singleton_state \<Rightarrow> bool" where
  start: "singleton_reachable singleton_init"
| set: "singleton_reachable st \<Longrightarrow> singleton_reachable (set_persistence_interface p st)"
| get: "singleton_reachable st \<Longrightarrow> singleton_reachable (snd (get_persistence_interface st))"

definition singleton_inv :: "singleton_state \<Rightarrow> bool" where
  "singleton_inv st \<longleftrightarrow> db_constructions st \<le> 1 \<and> (\<not> init_done st \<longrightarrow> db_constructions st = 0)"

definition instance_set :: "singleton_state \<Rightarrow> bool" where
  "instance_set st \<longleftrightarrow> (init_done st \<longrightarrow> instance_ptr st \<noteq> None)"

subsection \<open>The getter and the setter keep the invariants\<close>

lemma do_read_true [simp]: "do_read p"
  by (cases p) (simp_all add: database_do_read_def custom_persistence_do_read_def)

lemma do_write_true [simp]: "do_write p"
  by (cases p) (simp_all add: database_do_write_def custom_persistence_do_write_def)

lemma get_persistence_interface_inv:
  "singleton_inv st \<Longrightarrow> singleton_inv (snd (get_persistence_interface st))"
  by (auto simp: singleton_inv_def get_persistence_interface_def Let_def)

lemma set_persistence_interface_inv:
  "singleton_inv st \<Longrightarrow> singleton_inv (set_persistence_interface p st)"
  by (simp add: singleton_inv_def set_persistence_interface_def)

lemma singleton_reachable_inv: "singleton_reachable st \<Longrightarrow> singleton_inv st"
proof (induction rule: singleton_reachable.induct)
  case start
  show ?case by (simp add: singleton_inv_def singleton_init_def)
qed (simp_all add: set_persistence_interface_inv get_persistence_interface_inv)

lemma get_persistence_interface_nonnull:
  "instance_set st \<Longrightarrow> fst (get_persistence_interface st) \<noteq> None
     \<and> instance_set (snd (get_persistence_interface st))"
  by (auto simp: instance_set_def get_persistence_interface_def Let_def)

lemma singleton_step_ok:
  assumes "singleton_reachable st" and "instance_set st" and "op \<noteq> OpSet None"
  shows "\<exists>t st'. singleton_step op st = Inr (t, st') \<and> singleton_reachable st' \<and> instance_set st'
           \<and> list_all id t"
proof (cases op)
  case (OpSet p)
  with assms show ?thesis
    by (auto simp: instance_set_def set_persistence_interface_def intro: singleton_reachable.set
        [unfolded set_persistence_interface_def])
next
  case OpGet
  with assms get_persistence_interface_nonnull [of st] show ?thesis
    by (auto intro: singleton_reachable.get)
next
  case OpWidgetDo
  obtain p st' where g: "get_persistence_interface st = (p, st')" by fastforce
  with get_persistence_interface_nonnull [OF assms(2)] have "p \<noteq> None" "instance_set st'" by simp_all
  moreover from singleton_reachable.get [OF assms(1)] g have "singleton_reachable st'" by simp
  ultimately show ?thesis
    using OpWidgetDo g by (auto simp: widget_doSomething_def widget_doSomething_with_def persistence_read_def)
qed

lemma singleton_run_ok:
  "singleton_reachable st \<Longrightarrow> instance_set st \<Longrightarrow> OpSet None \<notin> set ops \<Longrightarrow>
   \<exists>t st'. singleton_run ops st = Inr (t, st') \<and> singleton_reachable st' \<and> list_all id t"
proof (induction ops arbitrary: st)
  case (Cons op ops)
  then obtain t st' where "singleton_step op st = Inr (t, st')" "singleton_reachable st'" "instance_set st'"
      "list_all id t"
    using singleton_step_ok [of st op] by auto
  with Cons.IH [of st'] Cons.prems(3) show ?case by (auto simp: id_def)
qed simp

subsection \<open>Properties of the singleton\<close>

text \<open>C35: for every sequence of getter, setter and \<open>Widget::doSomething()\<close> calls that
  never injects a null pointer, the program has no undefined behaviour, every read
  succeeds, the local \<open>static Database\<close> is constructed at most once, and only by the
  first call of the getter.\<close>

theorem singleton_safe:
  assumes "OpSet None \<notin> set ops"
  shows "\<exists>t st'. singleton_run ops singleton_init = Inr (t, st') \<and> list_all id t
           \<and> db_constructions st' \<le> 1 \<and> (init_done st' \<or> db_constructions st' = 0)"
proof -
  have "instance_set singleton_init" by (simp add: instance_set_def singleton_init_def)
  from singleton_run_ok [OF singleton_reachable.start this assms] obtain t st' where
    "singleton_run ops singleton_init = Inr (t, st')" "singleton_reachable st'" "list_all id t" by blast
  with singleton_reachable_inv [of st'] show ?thesis by (auto simp: singleton_inv_def)
qed

theorem singleton_safe_witness:
  "OpSet None \<notin> set [OpSet (Some (CustomPersistence 0)), OpGet, OpWidgetDo]
   \<and> singleton_run [OpSet (Some (CustomPersistence 0)), OpGet, OpWidgetDo] singleton_init
       = Inr ([True], \<lparr>instance_ptr = Some (CustomPersistence 0), init_done = True, db_constructions = 0\<rparr>)"
proof -
  have run: "singleton_run [OpSet (Some (CustomPersistence 0)), OpGet, OpWidgetDo] singleton_init
       = Inr ([True], \<lparr>instance_ptr = Some (CustomPersistence 0), init_done = True, db_constructions = 0\<rparr>)"
    by (simp add: singleton_init_def set_persistence_interface_def get_persistence_interface_def
        widget_doSomething_def widget_doSomething_with_def persistence_read_def)
  have "OpSet None \<notin> set [OpSet (Some (CustomPersistence 0)), OpGet, OpWidgetDo]" by simp
  with singleton_safe [OF this] run show ?thesis by simp
qed

text \<open>Injecting a null pointer after the first call of the getter is not caught: the
  next \<open>doSomething()\<close> reads through a null pointer.\<close>

lemma singleton_null_injection:
  "singleton_run [OpGet, OpSet None, OpWidgetDo] singleton_init = Inl NullDeref"
  by (simp add: singleton_init_def set_persistence_interface_def get_persistence_interface_def
      widget_doSomething_def widget_doSomething_with_def persistence_read_def)

text \<open>In \<open>main\<close> the custom persistence is injected first, so the \<open>Database\<close> is never
  constructed.\<close>

lemma main38_value:
  "main38 = Inr (True, \<lparr>instance_ptr = Some (CustomPersistence 0), init_done = True, db_constructions = 0\<rparr>)"
  by (simp add: main38_def singleton_init_def set_persistence_interface_def get_persistence_interface_def
      custom_persistence_construct_def
      widget_construct_def widget_doSomething_def widget_doSomething_with_def persistence_read_def)

end
