(* ===== verification/Prototype.thy ===== *)
theory Prototype
  imports Prelude
begin

text \<open>
  Guideline 30 (\<open>src/G30_Prototype.cpp\<close>): \<open>Animal::clone\<close> copies an object through a
  pointer to its base class. The free store of theory \<open>Prelude\<close> holds the animals;
  a \<open>std::unique_ptr<Animal>\<close> is an optional address, \<open>makeSound\<close> returns the line it
  prints, and the destructors of \<open>main\<close>'s locals run in reverse order of declaration.
\<close>

datatype animal = Sheep string

type_synonym animals = "animal store"

text \<open>\<open>std::make_unique<Sheep>( name )\<close>.\<close>

definition make_sheep :: "string \<Rightarrow> animals \<Rightarrow> addr option \<times> animals" where
  "make_sheep name h = (case store_new (Sheep name) h of (a, h') \<Rightarrow> (Some a, h'))"

text \<open>\<open>Sheep::makeSound\<close> and \<open>Sheep::clone\<close> (\<open>std::make_unique<Sheep>( *this )\<close>),
  called through a \<open>std::unique_ptr<Animal>\<close>.\<close>

fun makeSound :: "animal \<Rightarrow> string" where
  "makeSound (Sheep name) = ''baa''"

definition animal_makeSound :: "addr option \<Rightarrow> animals \<Rightarrow> string result" where
  "animal_makeSound p h = bind_result (deref h p) (\<lambda>x. Inr (makeSound x))"

definition animal_clone :: "addr option \<Rightarrow> animals \<Rightarrow> (addr option \<times> animals) result" where
  "animal_clone p h =
     bind_result (deref h p) (\<lambda>x. case x of Sheep name \<Rightarrow> Inr (make_sheep name h))"

definition main30 :: "(string list \<times> animals) result" where
  "main30 =
     (case make_sheep ''Dolly'' empty_store of (dolly, h1) \<Rightarrow>
      bind_result (animal_clone dolly h1) (\<lambda>(dollyClone, h2).
      bind_result (animal_makeSound dolly h2) (\<lambda>s1.
      bind_result (animal_makeSound dollyClone h2) (\<lambda>s2.
      bind_result (unique_release dollyClone h2) (\<lambda>h3.
      bind_result (unique_release dolly h3) (\<lambda>h4. Inr ([s1, s2], h4)))))))"

subsection \<open>Lemmas\<close>

text \<open>A clone is a new object, equal to its prototype, and nothing else of the store
  changes: the copy is deep.\<close>

lemma animal_clone_fresh:
  assumes "store_wf h" and "cells h a = Some x"
  shows "\<exists>b h'. animal_clone (Some a) h = Inr (Some b, h') \<and> b \<noteq> a \<and> cells h' b = Some x
           \<and> (\<forall>c. c \<noteq> b \<longrightarrow> cells h' c = cells h c) \<and> store_wf h'"
proof -
  from assms have "next_addr h \<noteq> a" by (auto simp: store_wf_def)
  with assms show ?thesis
    by (cases x) (auto simp: animal_clone_def make_sheep_def deref_def store_new_def store_wf_def
        intro: less_SucI)
qed

text \<open>\<open>main\<close> prints \<open>baa\<close> twice and releases both sheep: two allocations, two
  deallocations, an empty store.\<close>

lemma main30_value:
  "main30 = Inr ([''baa'', ''baa''], empty_store\<lparr>next_addr := 2, news := 2, deletes := 2\<rparr>)"
  by (simp add: main30_def make_sheep_def animal_clone_def animal_makeSound_def unique_release_def
      store_new_def store_delete_def deref_def empty_store_def fun_upd_twist)

end
