(* ===== verification/Strong_Type.thy ===== *)
theory Strong_Type
  imports Prelude
begin

text \<open>
  Guideline 27 (\<open>src/G27_StrongType.cpp\<close>): \<open>StrongType<T,Tag,Skills...>\<close> wraps a value
  of type \<open>T\<close>; the CRTP skill classes \<open>Addable\<close>, \<open>Subtractable\<close>, \<open>Printable\<close> and
  \<open>Swappable\<close> add operators. The tag is a phantom type parameter of the datatype, so
  that \<open>Meter<long>\<close> and \<open>Kilometer<long>\<close> are different types, as in C++. The
  arithmetic skills are instantiated at \<open>long\<close>, a 64-bit word whose signed overflow is
  the fault \<open>SignedOverflow\<close>; the printer returns the printed value.
\<close>

datatype ('t, 'tag) strong_type = StrongType 't

fun get :: "('t, 'tag) strong_type \<Rightarrow> 't" where
  "get (StrongType v) = v"

datatype meter_tag = MeterTag
datatype kilometer_tag = KilometerTag
datatype surname_tag = SurnameTag

type_synonym long = "64 word"
type_synonym 'tag long_strong = "(long, 'tag) strong_type"
type_synonym meter = "meter_tag long_strong"
type_synonym kilometer = "kilometer_tag long_strong"
type_synonym surname = "(string, surname_tag) strong_type"

text \<open>The signed arithmetic of \<open>long\<close>.\<close>

definition long_fits :: "int \<Rightarrow> bool" where
  "long_fits k \<longleftrightarrow> - (2 ^ 63) \<le> k \<and> k < 2 ^ 63"

definition long_add :: "long \<Rightarrow> long \<Rightarrow> long result" where
  "long_add a b = (if long_fits (sint a + sint b) then Inr (a + b) else Inl SignedOverflow)"

definition long_sub :: "long \<Rightarrow> long \<Rightarrow> long result" where
  "long_sub a b = (if long_fits (sint a - sint b) then Inr (a - b) else Inl SignedOverflow)"

text \<open>\<open>Addable\<close>: \<open>operator+\<close> builds \<open>Derived{ lhs.get() + rhs.get() }\<close>, \<open>operator+=\<close> adds
  in place. \<open>Subtractable\<close> likewise.\<close>

definition strong_plus :: "'tag long_strong \<Rightarrow> 'tag long_strong \<Rightarrow> 'tag long_strong result" where
  "strong_plus lhs rhs = bind_result (long_add (get lhs) (get rhs)) (\<lambda>v. Inr (StrongType v))"

definition strong_plus_assign :: "'tag long_strong \<Rightarrow> 'tag long_strong \<Rightarrow> 'tag long_strong result" where
  "strong_plus_assign lhs rhs = (case lhs of StrongType v \<Rightarrow>
     bind_result (long_add v (get rhs)) (\<lambda>v'. Inr (StrongType v')))"

definition strong_minus :: "'tag long_strong \<Rightarrow> 'tag long_strong \<Rightarrow> 'tag long_strong result" where
  "strong_minus lhs rhs = bind_result (long_sub (get lhs) (get rhs)) (\<lambda>v. Inr (StrongType v))"

definition strong_minus_assign :: "'tag long_strong \<Rightarrow> 'tag long_strong \<Rightarrow> 'tag long_strong result" where
  "strong_minus_assign lhs rhs = (case lhs of StrongType v \<Rightarrow>
     bind_result (long_sub v (get rhs)) (\<lambda>v'. Inr (StrongType v')))"

text \<open>\<open>Printable\<close>: the friend \<open>operator<<\<close> prints \<open>get()\<close>.\<close>

definition strong_print :: "('t, 'tag) strong_type \<Rightarrow> 't" where
  "strong_print d = get d"

text \<open>\<open>Swappable\<close>: the friend \<open>swap\<close> exchanges the values \<open>get()\<close>.\<close>

definition strong_swap :: "('t, 'tag) strong_type \<Rightarrow> ('t, 'tag) strong_type \<Rightarrow> ('t, 'tag) strong_type \<times> ('t, 'tag) strong_type" where
  "strong_swap a b = (StrongType (get b), StrongType (get a))"

text \<open>The member \<open>StrongType::swap\<close> swaps \<open>value_\<close> with \<open>other.value_\<close>; the free
  function templates \<open>operator<<\<close> and \<open>swap\<close> below the class are declared for every
  \<open>StrongType\<close>, whatever its skills.\<close>

definition member_swap :: "('t, 'tag) strong_type \<Rightarrow> ('t, 'tag) strong_type \<Rightarrow> ('t, 'tag) strong_type \<times> ('t, 'tag) strong_type" where
  "member_swap a b = (case (a, b) of (StrongType v, StrongType w) \<Rightarrow> (StrongType w, StrongType v))"

definition free_stream :: "('t, 'tag) strong_type \<Rightarrow> 't" where
  "free_stream nt = get nt"

definition free_swap :: "('t, 'tag) strong_type \<Rightarrow> ('t, 'tag) strong_type \<Rightarrow> ('t, 'tag) strong_type \<times> ('t, 'tag) strong_type" where
  "free_swap a b = member_swap a b"

subsection \<open>Skills and overload resolution\<close>

text \<open>The skill class templates a \<open>StrongType\<close> derives from; \<open>IntegralArithmetic\<close>
  derives from \<open>Addable\<close> and \<open>Subtractable\<close>.\<close>

datatype skill = Addable | Subtractable | IntegralArithmetic | Printable | Swappable

fun skill_bases :: "skill \<Rightarrow> skill list" where
  "skill_bases IntegralArithmetic = [Addable, Subtractable]"
| "skill_bases Addable = []"
| "skill_bases Subtractable = []"
| "skill_bases Printable = []"
| "skill_bases Swappable = []"

text \<open>\<open>StrongType<T,Tag,Skills...>\<close> derives from every \<open>Skills<StrongType>\<close>, and so from
  their bases: it has the friend functions of each.\<close>

definition has_skill :: "skill list \<Rightarrow> skill \<Rightarrow> bool" where
  "has_skill skills s \<longleftrightarrow> list_ex (\<lambda>k. k = s \<or> s \<in> set (skill_bases k)) skills"

definition meter_skills :: "skill list" where
  "meter_skills = [IntegralArithmetic, Printable, Swappable]"

definition kilometer_skills :: "skill list" where
  "kilometer_skills = [IntegralArithmetic, Printable, Swappable]"

definition surname_skills :: "skill list" where
  "surname_skills = [Printable, Swappable]"

text \<open>A call \<open>os << nt\<close> or \<open>swap( a, b )\<close> sees the hidden friend of the skill (by
  argument-dependent lookup) if the type has the skill, and always the free function
  template; with equally good conversions the non-template friend wins. \<open>a + b\<close> has
  only the friend of \<open>Addable\<close>: without it the call does not compile.\<close>

datatype overload = SkillFriend | FreeTemplate

definition print_overload :: "skill list \<Rightarrow> overload" where
  "print_overload skills = (if has_skill skills Printable then SkillFriend else FreeTemplate)"

definition swap_overload :: "skill list \<Rightarrow> overload" where
  "swap_overload skills = (if has_skill skills Swappable then SkillFriend else FreeTemplate)"

definition stream_insert :: "skill list \<Rightarrow> ('t, 'tag) strong_type \<Rightarrow> 't" where
  "stream_insert skills nt =
     (case print_overload skills of SkillFriend \<Rightarrow> strong_print nt | FreeTemplate \<Rightarrow> free_stream nt)"

definition swap_call ::
  "skill list \<Rightarrow> ('t, 'tag) strong_type \<Rightarrow> ('t, 'tag) strong_type \<Rightarrow> ('t, 'tag) strong_type \<times> ('t, 'tag) strong_type" where
  "swap_call skills a b = (case swap_overload skills of SkillFriend \<Rightarrow> strong_swap a b | FreeTemplate \<Rightarrow> free_swap a b)"

definition plus_call ::
  "skill list \<Rightarrow> 'tag long_strong \<Rightarrow> 'tag long_strong \<Rightarrow> 'tag long_strong result" where
  "plus_call skills lhs rhs =
     (if has_skill skills Addable then strong_plus lhs rhs
      else Inl (StaticAssert ''no match for operator+''))"

text \<open>\<open>main\<close>: \<open>m3 = m1 + m2\<close> with \<open>Meter<long>{ 100 }\<close> and \<open>Meter<long>{ 50 }\<close>; the result is
  the printed value.\<close>

definition main27 :: "long result" where
  "main27 =
     (let m1 = (StrongType 100 :: meter); m2 = (StrongType 50 :: meter)
      in bind_result (plus_call meter_skills m1 m2) (\<lambda>m3. Inr (stream_insert meter_skills m3)))"

subsection \<open>Lemmas\<close>

lemma long_add_Inr: "long_add a b = Inr r \<longleftrightarrow> long_fits (sint a + sint b) \<and> r = a + b"
  by (auto simp: long_add_def)

lemma sint_long_add:
  assumes "long_fits (sint a + sint b)"
  shows "sint (a + b :: long) = sint a + sint b"
  using assms by (simp add: long_fits_def sint_word_ariths signed_take_bit_int_eq_self)

lemma sint_long_sub:
  assumes "long_fits (sint a - sint b)"
  shows "sint (a - b :: long) = sint a - sint b"
  using assms by (simp add: long_fits_def sint_word_ariths signed_take_bit_int_eq_self)

text \<open>The strong type adds like the integers it wraps, faults exactly on signed
  overflow, and its compound assignment agrees with its binary operator.\<close>

lemma strong_plus_exact:
  "(strong_plus a b = Inl e \<longleftrightarrow> \<not> long_fits (sint (get a) + sint (get b)) \<and> e = SignedOverflow)
   \<and> (strong_plus a b = Inr c \<longrightarrow> sint (get c) = sint (get a) + sint (get b))"
  by (auto simp: strong_plus_def long_add_def sint_long_add)

lemma strong_minus_exact:
  "(strong_minus a b = Inl e \<longleftrightarrow> \<not> long_fits (sint (get a) - sint (get b)) \<and> e = SignedOverflow)
   \<and> (strong_minus a b = Inr c \<longrightarrow> sint (get c) = sint (get a) - sint (get b))"
  by (auto simp: strong_minus_def long_sub_def sint_long_sub)

lemma strong_assign_agree:
  "strong_plus_assign a b = strong_plus a b \<and> strong_minus_assign a b = strong_minus a b"
  by (cases a) (simp add: strong_plus_assign_def strong_plus_def strong_minus_assign_def strong_minus_def)

lemma long_fits_sint: "long_fits (sint (w :: long))"
  using sint_ge [of w] sint_lt [of w] by (simp add: long_fits_def)

lemma strong_plus_minus_cancel:
  assumes "strong_plus a b = Inr c"
  shows "strong_minus c b = Inr a"
proof -
  obtain x where a: "a = StrongType x" by (cases a)
  from assms a have fits: "long_fits (sint x + sint (get b))" and c: "c = StrongType (x + get b)"
    by (auto simp: strong_plus_def long_add_def split: if_splits)
  from sint_long_add [OF fits] have "sint (get c) - sint (get b) = sint x" by (simp add: c)
  with long_fits_sint [of x] a c show ?thesis by (simp add: strong_minus_def long_sub_def)
qed

lemma strong_swap_twice: "case_prod strong_swap (strong_swap a b) = (a, b)"
  by (cases a; cases b) (simp add: strong_swap_def)

text \<open>Every \<open>StrongType\<close> can be printed and swapped, whatever its skills: the skills
  \<open>Printable\<close> and \<open>Swappable\<close> only choose between two overloads that do the same.
  Arithmetic, in contrast, exists exactly for the types with the skill.\<close>

lemma skills_print_swap_redundant:
  "stream_insert skills nt = get nt
   \<and> swap_call skills a b = (StrongType (get b), StrongType (get a))
   \<and> print_overload [IntegralArithmetic] = FreeTemplate
   \<and> (\<exists>r. plus_call skills x y = Inr r) = (has_skill skills Addable \<and> long_fits (sint (get x) + sint (get y)))"
proof -
  have "member_swap a b = (StrongType (get b), StrongType (get a))"
    by (cases a; cases b) (simp add: member_swap_def)
  then show ?thesis
    by (auto simp: stream_insert_def swap_call_def strong_print_def free_stream_def strong_swap_def free_swap_def
        print_overload_def swap_overload_def has_skill_def plus_call_def strong_plus_def long_add_def
        split: overload.splits)
qed

lemma main27_value: "main27 = Inr 150"
  by (simp add: main27_def plus_call_def meter_skills_def has_skill_def stream_insert_def print_overload_def
      strong_plus_def long_add_def long_fits_def strong_print_def)

end
