(* ===== verification/Dense_Vector.thy ===== *)
theory Dense_Vector
  imports Prelude
begin

text \<open>
  Guideline 26 (\<open>src/G26_CRTP_1.cpp\<close>, and \<open>src/G26_CRTP_2.cpp\<close> with a concept instead
  of the CRTP base class): \<open>DenseVector<Derived>\<close> forwards \<open>size()\<close> and \<open>operator[]\<close>
  to the derived class by \<open>static_cast\<close>; \<open>operator<<\<close> and \<open>l2norm\<close> are written once
  for all dense vectors. The derived classes of \<open>main\<close> are a datatype:
  \<open>DynamicVector<int>\<close> holds its \<open>std::vector\<close>, \<open>StaticVector<int,Size>\<close> its
  \<open>std::array\<close>, whose elements are \<open>None\<close> while indeterminate: the constructor only
  copies the initializer list over the default-initialised array.
  \<open>std::inner_product\<close> accumulates in \<open>int\<close> (\<open>T{}\<close>), so its products and sums are
  checked 32-bit arithmetic; \<open>std::sqrt\<close> of the \<open>int\<close> is the real square root.
\<close>

datatype dense_vector = DynamicVector "int32 list" | StaticVector nat "int32 option list"

definition dynamic_vector_construct :: "int32 list \<Rightarrow> dense_vector" where
  "dynamic_vector_construct init = DynamicVector init"

text \<open>\<open>std::copy( std::begin(init), std::end(init), std::begin(values_) )\<close> writes past the
  array if the list is longer than \<open>Size\<close>.\<close>

definition static_vector_construct :: "nat \<Rightarrow> int32 list \<Rightarrow> dense_vector result" where
  "static_vector_construct n init =
     (if length init \<le> n then Inr (StaticVector n (map Some init @ replicate (n - length init) None))
      else Inl OutOfBounds)"

text \<open>\<open>DenseVector::size\<close> and \<open>DenseVector::operator[]\<close>, dispatched to the derived class;
  \<open>operator[]\<close> does not check its index.\<close>

fun dense_size :: "dense_vector \<Rightarrow> nat" where
  "dense_size (DynamicVector values) = length values"
| "dense_size (StaticVector n values) = n"

fun dense_index :: "dense_vector \<Rightarrow> nat \<Rightarrow> int32 result" where
  "dense_index (DynamicVector values) i = (if i < length values then Inr (values ! i) else Inl OutOfBounds)"
| "dense_index (StaticVector n values) i =
     (if i < length values then (case values ! i of None \<Rightarrow> Inl Indeterminate | Some x \<Rightarrow> Inr x)
      else Inl OutOfBounds)"

text \<open>Reading the elements \<open>0 .. size()-1\<close> in order, as the loop of \<open>operator<<\<close> and the
  iterator range of \<open>l2norm\<close> do.\<close>

fun read_elements :: "dense_vector \<Rightarrow> nat list \<Rightarrow> int32 list result" where
  "read_elements v [] = Inr []"
| "read_elements v (i # idx) =
     bind_result (dense_index v i) (\<lambda>x. bind_result (read_elements v idx) (\<lambda>xs. Inr (x # xs)))"

definition print_dense :: "dense_vector \<Rightarrow> int32 list result" where
  "print_dense v = read_elements v [0 ..< dense_size v]"

text \<open>\<open>std::inner_product( first1, last1, first2, init )\<close>:
  \<open>init = init + *first1 * *first2\<close> for every element of the first range.\<close>

fun inner_product :: "int32 list \<Rightarrow> int32 list \<Rightarrow> int32 \<Rightarrow> int32 result" where
  "inner_product [] ys init = Inr init"
| "inner_product (x # xs) [] init = Inl OutOfBounds"
| "inner_product (x # xs) (y # ys) init =
     bind_result (int_mul x y) (\<lambda>p. bind_result (int_add init p) (\<lambda>s. inner_product xs ys s))"

definition l2norm :: "dense_vector \<Rightarrow> real result" where
  "l2norm v =
     bind_result (read_elements v [0 ..< dense_size v]) (\<lambda>xs.
     bind_result (inner_product xs xs 0) (\<lambda>s. Inr (sqrt (real_of_int (sint s)))))"

text \<open>\<open>main\<close>: the printed vectors and norms of \<open>a{ 1, 2, 3 }\<close> and \<open>b{ 4, 5, 6, 7 }\<close>.\<close>

definition main26 :: "((int32 list \<times> real) \<times> (int32 list \<times> real)) result" where
  "main26 =
     (let a = dynamic_vector_construct [1, 2, 3] in
      bind_result (static_vector_construct 4 [4, 5, 6, 7]) (\<lambda>b.
      bind_result (print_dense a) (\<lambda>pa. bind_result (l2norm a) (\<lambda>na.
      bind_result (print_dense b) (\<lambda>pb. bind_result (l2norm b) (\<lambda>nb. Inr ((pa, na), (pb, nb))))))))"

definition sum_squares :: "int32 list \<Rightarrow> int" where
  "sum_squares xs = (\<Sum>x\<leftarrow>xs. sint x * sint x)"

subsection \<open>Lemmas\<close>

lemma read_elements_dynamic:
  "\<forall>i \<in> set idx. i < length vs \<Longrightarrow> read_elements (DynamicVector vs) idx = Inr (map (\<lambda>i. vs ! i) idx)"
  by (induction idx) simp_all

lemma read_elements_all_dynamic: "read_elements (DynamicVector vs) [0 ..< length vs] = Inr vs"
  using read_elements_dynamic [of "[0 ..< length vs]" vs] by (simp add: map_nth)

text \<open>The inner product of a vector with itself is the sum of squares, without overflow
  as long as that sum fits in an \<open>int\<close>: every product and partial sum is smaller.\<close>

lemma inner_product_self:
  "0 \<le> sint acc \<Longrightarrow> sint acc + sum_squares xs < 2 ^ 31 \<Longrightarrow>
   \<exists>r. inner_product xs xs acc = Inr r \<and> sint r = sint acc + sum_squares xs"
proof (induction xs arbitrary: acc)
  case Nil
  then show ?case by (simp add: sum_squares_def)
next
  case (Cons x xs)
  have sq: "0 \<le> sint x * sint x" by simp
  have rest: "0 \<le> sum_squares xs" by (induction xs) (simp_all add: sum_squares_def add_nonneg_nonneg)
  have "sint x * sint x < 2 ^ 31" using Cons.prems rest by (simp add: sum_squares_def)
  with sq have "int32_fits (sint x * sint x)" unfolding int32_fits_def by linarith
  then have m: "int_mul x x = Inr (x * x)" and sm: "sint (x * x) = sint x * sint x"
    by (simp_all add: int_mul_def sint_mul_fits)
  have "sint acc + sint x * sint x < 2 ^ 31" using Cons.prems rest by (simp add: sum_squares_def)
  with sq sm Cons.prems(1) have "int32_fits (sint acc + sint (x * x))" unfolding int32_fits_def by linarith
  then have a: "int_add acc (x * x) = Inr (acc + x * x)" and sa: "sint (acc + x * x) = sint acc + sint x * sint x"
    by (simp_all add: int_add_def sint_add_fits sm)
  have "0 \<le> sint (acc + x * x)" "sint (acc + x * x) + sum_squares xs < 2 ^ 31"
    using Cons.prems sq sa by (simp_all add: sum_squares_def)
  from Cons.IH [OF this] m a sa show ?case by (auto simp: sum_squares_def)
qed

lemma read_elements_fault:
  "\<forall>j \<in> set idx. \<exists>x. dense_index v j = Inr x \<Longrightarrow> dense_index v i = Inl e \<Longrightarrow>
   read_elements v (idx @ i # rest) = Inl e"
  by (induction idx) auto

lemma read_elements_static_full:
  "read_elements (StaticVector (length init) (map Some init)) [0 ..< length init] = Inr init"
proof -
  have "\<forall>i \<in> set idx. i < length init \<Longrightarrow>
        read_elements (StaticVector (length init) (map Some init)) idx = Inr (map (\<lambda>i. init ! i) idx)" for idx
    by (induction idx) simp_all
  then show ?thesis by (simp add: map_nth)
qed

text \<open>The norm of a dynamic vector is the Euclidean norm of its elements whenever the sum
  of squares fits in an \<open>int\<close>; a static vector initialised from a full list behaves alike.\<close>

lemma l2norm_exact:
  assumes "sum_squares xs < 2 ^ 31"
  shows "l2norm (DynamicVector xs) = Inr (sqrt (of_int (sum_squares xs)))
         \<and> l2norm (StaticVector (length xs) (map Some xs)) = Inr (sqrt (of_int (sum_squares xs)))"
proof -
  from inner_product_self [of 0 xs] assms obtain r where
    "inner_product xs xs 0 = Inr r" "sint r = sum_squares xs" by auto
  then show ?thesis by (simp add: l2norm_def read_elements_all_dynamic read_elements_static_full del: of_int_sint)
qed

text \<open>A \<open>StaticVector\<close> built from a shorter initializer list keeps indeterminate
  elements: printing it or taking its norm reads one.\<close>

lemma static_vector_short:
  assumes "length init < n" and "static_vector_construct n init = Inr v"
  shows "print_dense v = Inl Indeterminate \<and> l2norm v = Inl Indeterminate"
proof -
  let ?m = "length init"
  from assms have v: "v = StaticVector n (map Some init @ replicate (n - ?m) None)"
    by (simp add: static_vector_construct_def split: if_splits)
  have ok: "\<forall>j \<in> set [0 ..< ?m]. \<exists>x. dense_index v j = Inr x"
    using assms(1) by (auto simp: v nth_append)
  have bad: "dense_index v ?m = Inl Indeterminate"
    using assms(1) by (simp add: v nth_append)
  have "[0 ..< n] = [0 ..< ?m] @ ?m # [Suc ?m ..< n]"
    using assms(1) by (metis le_add1 le_add_diff_inverse upt_add_eq_append upt_conv_Cons zero_le less_imp_le)
  with read_elements_fault [OF ok bad] have "read_elements v [0 ..< dense_size v] = Inl Indeterminate"
    by (simp add: v)
  then show ?thesis by (simp add: print_dense_def l2norm_def)
qed

lemma main26_value: "main26 = Inr (([1, 2, 3], sqrt 14), ([4, 5, 6, 7], sqrt 126))"
  by (simp add: main26_def dynamic_vector_construct_def static_vector_construct_def print_dense_def l2norm_def
      int_mul_def int_add_def int32_fits_def upt_rec)

end
