(* ===== verification/Dense_Concept.thy ===== *)
theory Dense_Concept
  imports Dense_Vector "HOL-Library.While_Combinator"
begin

text \<open>
  Guideline 26 with a C++20 concept (\<open>src/G26_CRTP_2.cpp\<close>): the static type category
  "dense vector" is the concept \<open>DenseVector\<close>, which asks for the interface of a dense
  vector and for the trait \<open>IsDenseVector<T>\<close>; the trait is \<open>std::is_base_of\<close> of the
  empty tag class \<open>DenseVectorTag\<close>, or a specialisation. The vector classes reuse the
  values of \<open>Dense_Vector\<close>; their types are a datatype of class declarations, so that
  the concept is a predicate on types. \<open>operator<<\<close> keeps its \<open>size_t\<close> loop: a
  \<open>while_option\<close> over a 64-bit counter.
\<close>

datatype access = Public | Private

text \<open>A user-defined class, as far as the concept looks at it: its base classes with
  their access, and whether it has \<open>size()\<close>, \<open>operator[]\<close>, and \<open>begin()\<close>/\<open>end()\<close>
  returning \<open>iterator\<close> (non-const) and \<open>const_iterator\<close> (const).\<close>

record class_decl =
  decl_bases :: "(string \<times> access) list"
  decl_size :: bool
  decl_subscript :: bool
  decl_iterators :: bool
  decl_const_iterators :: bool

datatype vector_class = DynamicVectorClass | StaticVectorClass nat | UserClass class_decl

text \<open>The two class templates as the concept sees them. \<open>class DynamicVector : private
  DenseVectorTag\<close> declares \<open>size()\<close>, both \<open>operator[]\<close>, and \<open>begin()\<close>/\<open>end()\<close> returning
  \<open>iterator\<close> and, when const, \<open>const_iterator\<close>; \<open>StaticVector\<close> declares the same
  members and has no base class.\<close>

definition dynamic_vector_decl :: class_decl where
  "dynamic_vector_decl = \<lparr>decl_bases = [(''DenseVectorTag'', Private)], decl_size = True, decl_subscript = True,
     decl_iterators = True, decl_const_iterators = True\<rparr>"

definition static_vector_decl :: class_decl where
  "static_vector_decl = \<lparr>decl_bases = [], decl_size = True, decl_subscript = True,
     decl_iterators = True, decl_const_iterators = True\<rparr>"

fun class_decl_of :: "vector_class \<Rightarrow> class_decl" where
  "class_decl_of DynamicVectorClass = dynamic_vector_decl"
| "class_decl_of (StaticVectorClass n) = static_vector_decl"
| "class_decl_of (UserClass c) = c"

definition class_bases :: "vector_class \<Rightarrow> (string \<times> access) list" where
  "class_bases t = decl_bases (class_decl_of t)"

text \<open>\<open>std::is_base_of<B,T>\<close> holds for every base, whatever its access.\<close>

definition is_base_of :: "string \<Rightarrow> vector_class \<Rightarrow> bool" where
  "is_base_of b t \<longleftrightarrow> list_ex (\<lambda>(n, a). n = b) (class_bases t)"

definition is_dense_vector_primary :: "vector_class \<Rightarrow> bool" where
  "is_dense_vector_primary t \<longleftrightarrow> is_base_of ''DenseVectorTag'' t"

text \<open>\<open>IsDenseVector< StaticVector<T,Size> >\<close> is specialised to \<open>std::true_type\<close>.\<close>

fun is_dense_vector :: "vector_class \<Rightarrow> bool" where
  "is_dense_vector (StaticVectorClass n) = True"
| "is_dense_vector DynamicVectorClass = is_dense_vector_primary DynamicVectorClass"
| "is_dense_vector (UserClass c) = is_dense_vector_primary (UserClass c)"

text \<open>The two \<open>requires\<close> expressions: \<open>size()\<close>, \<open>operator[]\<close>, and \<open>begin\<close> and \<open>end\<close>
  with the iterator types, on a non-const and on a const object.\<close>

definition dense_requires :: "vector_class \<Rightarrow> bool" where
  "dense_requires t =
     (let c = class_decl_of t in decl_size c \<and> decl_subscript c \<and> decl_iterators c \<and> decl_const_iterators c)"

definition dense_vector_concept :: "vector_class \<Rightarrow> bool" where
  "dense_vector_concept t \<longleftrightarrow> dense_requires t \<and> is_dense_vector t"

fun class_of :: "dense_vector \<Rightarrow> vector_class" where
  "class_of (DynamicVector values) = DynamicVectorClass"
| "class_of (StaticVector n values) = StaticVectorClass n"

text \<open>\<open>size()\<close> returns a \<open>size_t\<close>.\<close>

definition concept_size :: "dense_vector \<Rightarrow> 64 word" where
  "concept_size v = word_of_nat (dense_size v)"

text \<open>The loop of \<open>operator<<\<close>: \<open>for( size_t i=0UL; i<size; ++i ) os << " " << vector[i];\<close>
  The state is the counter and what was printed so far; a faulting read ends the
  output with the fault.\<close>

definition print_loop :: "dense_vector \<Rightarrow> (64 word \<times> int32 list result) option" where
  "print_loop v =
     (let size = concept_size v in
      while_option (\<lambda>(i, out). i < size)
        (\<lambda>(i, out). (i + 1, bind_result out (\<lambda>xs. bind_result (dense_index v (unat i)) (\<lambda>x. Inr (xs @ [x])))))
        (0, Inr []))"

text \<open>\<open>operator<<\<close> and \<open>l2norm\<close> are only viable for a type that satisfies the concept;
  otherwise the call does not compile.\<close>

definition print_concept :: "vector_class \<Rightarrow> dense_vector \<Rightarrow> int32 list result option" where
  "print_concept t v =
     (if dense_vector_concept t then map_option snd (print_loop v)
      else Some (Inl (StaticAssert ''constraints not satisfied: DenseVector'')))"

definition l2norm_concept :: "vector_class \<Rightarrow> dense_vector \<Rightarrow> real result" where
  "l2norm_concept t v =
     (if dense_vector_concept t then l2norm v
      else Inl (StaticAssert ''constraints not satisfied: DenseVector''))"

definition main26_2 :: "((int32 list result option \<times> real result) \<times> (int32 list result option \<times> real result)) result" where
  "main26_2 =
     (let a = dynamic_vector_construct [1, 2, 3] in
      bind_result (static_vector_construct 4 [4, 5, 6, 7]) (\<lambda>b.
      Inr ((print_concept (class_of a) a, l2norm_concept (class_of a) a),
           (print_concept (class_of b) b, l2norm_concept (class_of b) b))))"

subsection \<open>The loop of \<open>operator<<\<close>\<close>

lemma read_elements_snoc:
  "read_elements v (idx @ [j]) =
     bind_result (read_elements v idx) (\<lambda>ys. bind_result (dense_index v j) (\<lambda>x. Inr (ys @ [x])))"
  by (induction idx) (simp_all add: bind_result_def split: sum.splits)

text \<open>The counter never wraps: it stays at most \<open>size\<close>, and below \<open>size\<close> the increment
  adds one to its value.\<close>

lemma size_t_incr:
  fixes i size :: "64 word"
  assumes "i < size"
  shows "i + 1 \<le> size \<and> unat (i + 1) = Suc (unat i)"
proof -
  from assms have "unat i < unat size" by (simp add: word_less_nat_alt)
  moreover have "unat size < 2 ^ 64" using unsigned_less [of size] by simp
  ultimately have "unat i + unat (1 :: 64 word) < 2 ^ LENGTH(64)" by simp
  then have "unat (i + 1) = unat i + unat (1 :: 64 word)" by (simp only: unat_add_lem)
  then have "unat (i + 1) = Suc (unat i)" by simp
  with assms show ?thesis by (simp add: inc_le)
qed

text \<open>The loop keeps the invariant: the counter is at most \<open>size\<close> and the output is
  what reading the elements below the counter gives.\<close>

lemma print_loop_value:
  "print_loop v = Some (concept_size v, read_elements v [0 ..< unat (concept_size v)])"
proof -
  define size where "size = concept_size v"
  define b where "b = (\<lambda>(i, out :: int32 list result). i < size)"
  define c where "c = (\<lambda>(i::64 word, out). (i + 1, bind_result out (\<lambda>xs. bind_result (dense_index v (unat i)) (\<lambda>x. Inr (xs @ [x])))))"
  define P where "P = (\<lambda>(i, out :: int32 list result). i \<le> size \<and> out = read_elements v [0 ..< unat i])"
  have step: "P (c s) \<and> unat size - unat (fst (c s)) < unat size - unat (fst s)" if "P s" "b s" for s
  proof -
    obtain i out where s: "s = (i, out)" by fastforce
    with that have lt: "i < size" and out: "out = read_elements v [0 ..< unat i]"
      by (simp_all add: P_def b_def)
    from size_t_incr [OF lt] have "i + 1 \<le> size" "unat (i + 1) = Suc (unat i)" by simp_all
    moreover from lt have "unat i < unat size" by (simp add: word_less_nat_alt)
    ultimately show ?thesis using out by (simp add: s c_def P_def read_elements_snoc)
  qed
  have init: "P (0, Inr [])" by (simp add: P_def)
  from measure_while_option_Some [where f = "\<lambda>s. unat size - unat (fst s)", OF step init]
  obtain t where t: "while_option b c (0, Inr []) = Some t" by blast
  from while_option_rule [where P = P, OF _ t init] step have "P t" by blast
  moreover from while_option_stop [OF t] have "\<not> b t" .
  ultimately have "t = (size, read_elements v [0 ..< unat size])"
    by (auto simp: P_def b_def split: prod.splits)
  with t show ?thesis by (simp add: print_loop_def size_def b_def c_def)
qed

subsection \<open>Properties of the concept-based dense vectors\<close>

text \<open>C14: the \<open>size_t\<close> loop of \<open>operator<<\<close> terminates for every vector, with the
  counter at \<open>size()\<close>; when the size fits in \<open>size_t\<close> it prints exactly the elements
  \<open>0 .. size()-1\<close> that the CRTP version prints, or the same fault.\<close>

theorem print_loop_terminates:
  "\<exists>out. print_loop v = Some (concept_size v, out)
     \<and> (dense_size v < 2 ^ 64 \<longrightarrow> out = print_dense v)"
  by (simp add: print_loop_value print_dense_def concept_size_def unsigned_of_nat take_bit_nat_eq_self)

theorem print_loop_terminates_witness:
  "dense_size (DynamicVector [1, 2, 3]) < 2 ^ 64
   \<and> print_loop (DynamicVector [1, 2, 3]) = Some (3, Inr [1, 2, 3])"
proof -
  have "dense_size (DynamicVector [1, 2, 3]) < 2 ^ 64" by simp
  with print_loop_terminates [of "DynamicVector [1, 2, 3]"] show ?thesis
    by (auto simp: concept_size_def print_dense_def read_elements_all_dynamic [of "[1, 2, 3]", simplified])
qed

text \<open>The type category: every vector of the program has a type that satisfies
  \<open>DenseVector\<close>, so \<open>operator<<\<close> and \<open>l2norm\<close> accept it and behave as their bodies
  say; a user class satisfies the concept exactly when it has the interface and
  \<open>DenseVectorTag\<close> among its bases, whatever the access of that base.\<close>

theorem dense_vector_concept_types:
  "dense_vector_concept (class_of v)
   \<and> print_concept (class_of v) v = map_option snd (print_loop v)
   \<and> l2norm_concept (class_of v) v = l2norm v
   \<and> (dense_vector_concept (UserClass c)
        \<longleftrightarrow> dense_requires (UserClass c) \<and> ''DenseVectorTag'' \<in> fst ` set (decl_bases c))"
proof -
  have cv: "dense_vector_concept (class_of v)"
    by (cases v) (simp_all add: dense_vector_concept_def is_dense_vector_primary_def is_base_of_def class_bases_def dense_requires_def dynamic_vector_decl_def static_vector_decl_def)
  have "list_ex (\<lambda>(n, a). n = ''DenseVectorTag'') (decl_bases c) \<longleftrightarrow> ''DenseVectorTag'' \<in> fst ` set (decl_bases c)"
    by (force simp: list_ex_iff)
  with cv show ?thesis
    by (simp add: print_concept_def l2norm_concept_def dense_vector_concept_def is_dense_vector_primary_def
        is_base_of_def class_bases_def dense_requires_def dynamic_vector_decl_def static_vector_decl_def)
qed

lemma main26_2_value:
  "main26_2 = Inr ((Some (Inr [1, 2, 3]), Inr (sqrt 14)), (Some (Inr [4, 5, 6, 7]), Inr (sqrt 126)))"
  by (simp add: main26_2_def dynamic_vector_construct_def static_vector_construct_def print_concept_def
      l2norm_concept_def dense_vector_concept_def is_dense_vector_primary_def is_base_of_def class_bases_def dense_requires_def dynamic_vector_decl_def static_vector_decl_def
      print_loop_value concept_size_def l2norm_def int_mul_def int_add_def int32_fits_def upt_rec)

end
