(* ===== verification/Bridge.thy ===== *)
theory Bridge
  imports Prelude
begin

text \<open>
  Guidelines 28 and 29: the Bridge and Pimpl idioms.
  \<^item> \<open>src/G28_Bridge.cpp\<close>: \<open>Car\<close> owns its \<open>Engine\<close> through a \<open>std::unique_ptr<Engine>\<close>;
    \<open>ElectricCar\<close> installs an \<open>ElectricEngine\<close> and drives by starting and stopping it.
  \<^item> \<open>src/G28_Pimpl.cpp\<close>: \<open>Person\<close> keeps all its data in a \<open>Person::Impl\<close> behind a
    \<open>std::unique_ptr<Impl> const\<close>; copy and move operations work on the \<open>Impl\<close> objects.
  \<^item> \<open>src/G29_Bridge_Performance.cpp\<close>: three layouts of a person (no bridge, complete
    bridge, partial bridge) searched with \<open>std::min_element\<close> for the oldest person.
  Engines and \<open>Impl\<close> objects live in the free store of theory \<open>Prelude\<close>; printed lines
  are events of a trace.
\<close>

subsection \<open>Guideline 28: Bridge\<close>

datatype engine = ElectricEngine

datatype car_event = EngineStarting engine | DrivingElectricCar | EngineStopping engine

text \<open>\<open>Car\<close> stores the pointer it is given, null or not.\<close>

record car =
  car_pimpl :: "addr option"

definition car_construct :: "addr option \<Rightarrow> car" where
  "car_construct engine = \<lparr>car_pimpl = engine\<rparr>"

definition electric_car_construct :: "engine store \<Rightarrow> car \<times> engine store" where
  "electric_car_construct h = (case store_new ElectricEngine h of (a, h') \<Rightarrow> (car_construct (Some a), h'))"

text \<open>\<open>Car::getEngine()\<close>: \<open>pimpl_.get()\<close>, null or not.\<close>

definition get_engine :: "car \<Rightarrow> addr option" where
  "get_engine c = car_pimpl c"

text \<open>\<open>ElectricEngine::start\<close> and \<open>stop\<close> print a line.\<close>

definition electric_engine_start :: car_event where
  "electric_engine_start = EngineStarting ElectricEngine"

definition electric_engine_stop :: car_event where
  "electric_engine_stop = EngineStopping ElectricEngine"

text \<open>The pure virtual \<open>Engine::start\<close> and \<open>Engine::stop\<close>: a call runs the overrider
  of the engine's dynamic class.\<close>

fun engine_start :: "engine \<Rightarrow> car_event" where
  "engine_start ElectricEngine = electric_engine_start"

fun engine_stop :: "engine \<Rightarrow> car_event" where
  "engine_stop ElectricEngine = electric_engine_stop"

text \<open>\<open>ElectricCar::drive\<close> calls \<open>start\<close> and \<open>stop\<close> through \<open>getEngine()\<close> around its
  own line.\<close>

definition electric_car_drive :: "car \<Rightarrow> engine store \<Rightarrow> car_event list result" where
  "electric_car_drive c h =
     bind_result (deref h (get_engine c)) (\<lambda>e1. bind_result (deref h (get_engine c)) (\<lambda>e2.
       Inr [engine_start e1, DrivingElectricCar, engine_stop e2]))"

definition car_destroy :: "car \<Rightarrow> engine store \<Rightarrow> engine store result" where
  "car_destroy c h = unique_release (car_pimpl c) h"

definition main28_bridge :: "(car_event list \<times> engine store) result" where
  "main28_bridge =
     (case electric_car_construct empty_store of (ecar, h1) \<Rightarrow>
      bind_result (electric_car_drive ecar h1) (\<lambda>t.
      bind_result (car_destroy ecar h1) (\<lambda>h2. Inr (t, h2))))"

subsection \<open>Guideline 28: Pimpl\<close>

record person_impl =
  impl_forename :: string
  impl_surname :: string
  impl_address :: string
  impl_city :: string
  impl_country :: string
  impl_zip :: string
  impl_year_of_birth :: int32

text \<open>\<open>std::make_unique<Impl>()\<close> value-initialises: empty strings and a zero year.\<close>

definition default_impl :: person_impl where
  "default_impl = \<lparr>impl_forename = [], impl_surname = [], impl_address = [], impl_city = [],
     impl_country = [], impl_zip = [], impl_year_of_birth = 0\<rparr>"

text \<open>A moved-from \<open>Impl\<close>: its strings are moved from, which leaves them empty in the
  standard libraries (valid but unspecified by the standard); the \<open>int\<close> is copied.\<close>

definition moved_from_impl :: "person_impl \<Rightarrow> person_impl" where
  "moved_from_impl i = default_impl\<lparr>impl_year_of_birth := impl_year_of_birth i\<rparr>"

type_synonym impls = "person_impl store"

record pimpl_person =
  person_pimpl :: addr

definition pimpl_person_construct :: "impls \<Rightarrow> pimpl_person \<times> impls" where
  "pimpl_person_construct h = (case store_new default_impl h of (a, h') \<Rightarrow> (\<lparr>person_pimpl = a\<rparr>, h'))"

definition pimpl_person_copy :: "pimpl_person \<Rightarrow> impls \<Rightarrow> (pimpl_person \<times> impls) result" where
  "pimpl_person_copy other h =
     bind_result (deref h (Some (person_pimpl other))) (\<lambda>i.
       case store_new i h of (a, h') \<Rightarrow> Inr (\<lparr>person_pimpl = a\<rparr>, h'))"

definition pimpl_person_copy_assign :: "pimpl_person \<Rightarrow> pimpl_person \<Rightarrow> impls \<Rightarrow> impls result" where
  "pimpl_person_copy_assign this other h =
     bind_result (deref h (Some (person_pimpl other))) (\<lambda>i.
     bind_result (deref h (Some (person_pimpl this))) (\<lambda>_.
       Inr (h\<lparr>cells := (cells h)(person_pimpl this \<mapsto> i)\<rparr>)))"

text \<open>The move constructor cannot steal the \<open>const\<close> pointer: it allocates a new \<open>Impl\<close>
  move-constructed from the other's, which stays allocated, moved from.\<close>

definition pimpl_person_move :: "pimpl_person \<Rightarrow> impls \<Rightarrow> (pimpl_person \<times> impls) result" where
  "pimpl_person_move other h =
     bind_result (deref h (Some (person_pimpl other))) (\<lambda>i.
       case store_new i (h\<lparr>cells := (cells h)(person_pimpl other \<mapsto> moved_from_impl i)\<rparr>) of
         (a, h') \<Rightarrow> Inr (\<lparr>person_pimpl = a\<rparr>, h'))"

text \<open>\<open>*pimpl_ = std::move( *other.pimpl_ )\<close>; a self-move leaves the strings as they are,
  as the standard libraries' \<open>std::string\<close> does.\<close>

definition pimpl_person_move_assign :: "pimpl_person \<Rightarrow> pimpl_person \<Rightarrow> impls \<Rightarrow> impls result" where
  "pimpl_person_move_assign this other h =
     bind_result (deref h (Some (person_pimpl other))) (\<lambda>i.
     bind_result (deref h (Some (person_pimpl this))) (\<lambda>_.
       Inr (if person_pimpl this = person_pimpl other then h
            else h\<lparr>cells := (cells h)(person_pimpl this \<mapsto> i, person_pimpl other \<mapsto> moved_from_impl i)\<rparr>)))"

definition pimpl_person_destroy :: "pimpl_person \<Rightarrow> impls \<Rightarrow> impls result" where
  "pimpl_person_destroy p h = store_delete (person_pimpl p) h"

definition pimpl_year_of_birth :: "pimpl_person \<Rightarrow> impls \<Rightarrow> int32 result" where
  "pimpl_year_of_birth p h = bind_result (deref h (Some (person_pimpl p))) (\<lambda>i. Inr (impl_year_of_birth i))"

definition main28_pimpl :: "impls result" where
  "main28_pimpl = (case pimpl_person_construct empty_store of (p1, h1) \<Rightarrow> pimpl_person_destroy p1 h1)"

subsection \<open>Guideline 29: three person layouts and the oldest person\<close>

text \<open>The data of \<open>Person1\<close> and of \<open>Person2::Pimpl\<close>, with their default member
  initialisers; the year of birth is the random number drawn for the person.\<close>

record person_data =
  pd_forename :: string
  pd_surname :: string
  pd_address :: string
  pd_zip :: string
  pd_city :: string
  pd_state :: string
  pd_year_of_birth :: int32

definition person_data_default :: "int32 \<Rightarrow> person_data" where
  "person_data_default y = \<lparr>pd_forename = ''Homer'', pd_surname = ''Simpson'',
     pd_address = ''712 Red Bark Lane'', pd_zip = ''89011'', pd_city = ''Henderson'',
     pd_state = ''Nevada'', pd_year_of_birth = y\<rparr>"

type_synonym person1 = person_data

text \<open>\<open>Person2\<close>: everything behind \<open>std::unique_ptr<Pimpl> pimpl{ new Pimpl{} }\<close>.\<close>

record person2 =
  p2_pimpl :: addr

text \<open>\<open>Person3\<close>: names and year inline, the rarely used address data behind the pointer.\<close>

record person3_pimpl =
  p3i_address :: string
  p3i_zip :: string
  p3i_city :: string
  p3i_state :: string

record person3 =
  p3_forename :: string
  p3_surname :: string
  p3_year_of_birth :: int32
  p3_pimpl :: addr

definition person3_pimpl_default :: person3_pimpl where
  "person3_pimpl_default = \<lparr>p3i_address = ''712 Red Bark Lane'', p3i_zip = ''89011'',
     p3i_city = ''Henderson'', p3i_state = ''Nevada''\<rparr>"

text \<open>\<open>std::vector<PersonN> persons( size )\<close>: one default-constructed person per drawn
  year, each of \<open>Person2\<close> and \<open>Person3\<close> allocating its \<open>Pimpl\<close>.\<close>

fun persons2_construct :: "int32 list \<Rightarrow> person_data store \<Rightarrow> person2 list \<times> person_data store" where
  "persons2_construct [] h = ([], h)"
| "persons2_construct (y # ys) h =
     (case store_new (person_data_default y) h of (a, h1) \<Rightarrow>
        (case persons2_construct ys h1 of (ps, h2) \<Rightarrow> (\<lparr>p2_pimpl = a\<rparr> # ps, h2)))"

fun persons3_construct :: "int32 list \<Rightarrow> person3_pimpl store \<Rightarrow> person3 list \<times> person3_pimpl store" where
  "persons3_construct [] h = ([], h)"
| "persons3_construct (y # ys) h =
     (case store_new person3_pimpl_default h of (a, h1) \<Rightarrow>
        (case persons3_construct ys h1 of (ps, h2) \<Rightarrow>
           (\<lparr>p3_forename = ''Homer'', p3_surname = ''Simpson'', p3_year_of_birth = y, p3_pimpl = a\<rparr> # ps, h2)))"

text \<open>\<open>std::min_element( first, last, comp )\<close>: \<open>if( comp( *first, *smallest ) ) smallest = first;\<close>,
  with the comparison of the years read through \<open>key\<close>, which may dereference.\<close>

function min_element_from :: "('a \<Rightarrow> int32 result) \<Rightarrow> 'a list \<Rightarrow> nat \<Rightarrow> nat \<Rightarrow> nat result" where
  "min_element_from key xs smallest i =
     (if i < length xs
      then bind_result (key (xs ! i)) (\<lambda>k1. bind_result (key (xs ! smallest)) (\<lambda>k2.
             min_element_from key xs (if sint k1 < sint k2 then i else smallest) (Suc i)))
      else Inr smallest)"
  by pat_completeness auto
termination by (relation "measure (\<lambda>(_, xs, _, i). length xs - i)") auto

declare min_element_from.simps [simp del]

definition min_element :: "('a \<Rightarrow> int32 result) \<Rightarrow> 'a list \<Rightarrow> nat result" where
  "min_element key xs = (if xs = [] then Inr 0 else min_element_from key xs 0 1)"

text \<open>The three benchmarks' search, on the persons built from the same drawn years.\<close>

definition oldest_person1 :: "int32 list \<Rightarrow> nat result" where
  "oldest_person1 ys = min_element (\<lambda>p. Inr (pd_year_of_birth p)) (map person_data_default ys)"

definition oldest_person2 :: "int32 list \<Rightarrow> nat result" where
  "oldest_person2 ys =
     (case persons2_construct ys empty_store of (ps, h) \<Rightarrow>
        min_element (\<lambda>p. bind_result (deref h (Some (p2_pimpl p))) (\<lambda>d. Inr (pd_year_of_birth d))) ps)"

definition oldest_person3 :: "int32 list \<Rightarrow> nat result" where
  "oldest_person3 ys =
     (case persons3_construct ys empty_store of (ps, h) \<Rightarrow> min_element (\<lambda>p. Inr (p3_year_of_birth p)) ps)"

text \<open>The reference: the first position of a smallest year.\<close>

function min_index_from :: "int32 list \<Rightarrow> nat \<Rightarrow> nat \<Rightarrow> nat" where
  "min_index_from ys smallest i =
     (if i < length ys then min_index_from ys (if sint (ys ! i) < sint (ys ! smallest) then i else smallest) (Suc i)
      else smallest)"
  by pat_completeness auto
termination by (relation "measure (\<lambda>(ys, _, i). length ys - i)") auto

declare min_index_from.simps [simp del]

subsection \<open>Lemmas: Bridge and Pimpl\<close>

text \<open>An \<open>ElectricCar\<close> always has its engine: driving starts and stops it, and
  destroying the car releases it. A \<open>Car\<close> given a null engine faults when driven.\<close>

lemma main28_bridge_value:
  "main28_bridge = Inr ([EngineStarting ElectricEngine, DrivingElectricCar, EngineStopping ElectricEngine],
     empty_store\<lparr>next_addr := 1, news := 1, deletes := 1\<rparr>)"
  by (simp add: main28_bridge_def electric_car_construct_def car_construct_def electric_car_drive_def get_engine_def
      electric_engine_start_def electric_engine_stop_def
      car_destroy_def unique_release_def store_new_def store_delete_def deref_def empty_store_def)

lemma car_null_engine: "electric_car_drive (car_construct None) h = Inl NullDeref"
  by (simp add: electric_car_drive_def get_engine_def car_construct_def deref_def)

text \<open>Unlike the moved-from \<open>Shape\<close> of Guideline 32, a moved-from \<open>Person\<close> keeps a live
  \<open>Impl\<close> and stays usable; the new person has its own \<open>Impl\<close> with the moved data.\<close>

lemma pimpl_person_move_valid:
  assumes "store_wf h" and "cells h (person_pimpl q) = Some i"
  shows "\<exists>p h'. pimpl_person_move q h = Inr (p, h') \<and> person_pimpl p \<noteq> person_pimpl q
           \<and> pimpl_year_of_birth p h' = Inr (impl_year_of_birth i)
           \<and> pimpl_year_of_birth q h' = Inr (impl_year_of_birth i)"
proof -
  from assms have "next_addr h \<noteq> person_pimpl q" by (auto simp: store_wf_def)
  with assms show ?thesis
    by (simp add: pimpl_person_move_def pimpl_year_of_birth_def deref_def store_new_def moved_from_impl_def)
qed

text \<open>Copying allocates a fresh \<open>Impl\<close> equal to the other's; copy assignment overwrites
  only the target's \<open>Impl\<close>.\<close>

lemma pimpl_person_copy_deep:
  assumes "store_wf h" and "cells h (person_pimpl q) = Some i"
  shows "\<exists>p h'. pimpl_person_copy q h = Inr (p, h') \<and> person_pimpl p \<noteq> person_pimpl q
           \<and> cells h' (person_pimpl p) = Some i \<and> (\<forall>a. a \<noteq> person_pimpl p \<longrightarrow> cells h' a = cells h a)"
proof -
  from assms have "next_addr h \<noteq> person_pimpl q" by (auto simp: store_wf_def)
  with assms show ?thesis by (simp add: pimpl_person_copy_def deref_def store_new_def)
qed

lemma pimpl_person_copy_assign_frame:
  assumes "cells h (person_pimpl q) = Some i" and "cells h (person_pimpl p) \<noteq> None"
  shows "\<exists>h'. pimpl_person_copy_assign p q h = Inr h' \<and> cells h' (person_pimpl p) = Some i
           \<and> (\<forall>a. a \<noteq> person_pimpl p \<longrightarrow> cells h' a = cells h a)"
  using assms by (auto simp: pimpl_person_copy_assign_def deref_def)

lemma main28_pimpl_value: "main28_pimpl = Inr (empty_store\<lparr>next_addr := 1, news := 1, deletes := 1\<rparr>)"
  by (simp add: main28_pimpl_def pimpl_person_construct_def pimpl_person_destroy_def store_new_def
      store_delete_def empty_store_def)

subsection \<open>Lemmas: the three layouts find the same person\<close>

lemma min_element_from_pure:
  "\<forall>x \<in> set xs. key x = Inr (g x) \<Longrightarrow> smallest < length xs \<Longrightarrow>
   min_element_from key xs smallest i = Inr (min_index_from (map g xs) smallest i)"
proof (induction key xs smallest i rule: min_element_from.induct)
  case (1 key xs smallest i)
  show ?case
  proof (cases "i < length xs")
    case True
    let ?s = "if sint (g (xs ! i)) < sint (g (xs ! smallest)) then i else smallest"
    have k: "key (xs ! i) = Inr (g (xs ! i))" "key (xs ! smallest) = Inr (g (xs ! smallest))"
      using "1.prems" True by simp_all
    have "?s < length xs" using True "1.prems"(2) by simp
    with "1.IH" [of "g (xs ! i)" "g (xs ! smallest)", OF True "1.prems"(1)]
    have "min_element_from key xs ?s (Suc i) = Inr (min_index_from (map g xs) ?s (Suc i))" .
    with k True "1.prems"(2) show ?thesis
      by (simp add: min_element_from.simps [of key xs smallest i] min_index_from.simps [of _ smallest i])
  next
    case False
    then show ?thesis
      by (simp add: min_element_from.simps [of key xs smallest i] min_index_from.simps [of _ smallest i])
  qed
qed

lemma min_element_pure:
  "\<forall>x \<in> set xs. key x = Inr (g x) \<Longrightarrow>
   min_element key xs = Inr (if xs = [] then 0 else min_index_from (map g xs) 0 1)"
  by (simp add: min_element_def min_element_from_pure)

lemma persons2_construct_frame:
  "persons2_construct ys h = (ps, h') \<Longrightarrow> a < next_addr h \<Longrightarrow>
   cells h' a = cells h a \<and> next_addr h \<le> next_addr h'"
proof (induction ys arbitrary: h ps)
  case (Cons y ys)
  then show ?case by (fastforce simp: store_new_def split: prod.splits)
qed simp

lemma persons2_construct_cells:
  "persons2_construct ys h = (ps, h') \<Longrightarrow>
   map (\<lambda>p. cells h' (p2_pimpl p)) ps = map (\<lambda>y. Some (person_data_default y)) ys"
proof (induction ys arbitrary: h ps)
  case (Cons y ys)
  obtain ps' where ps: "persons2_construct ys (snd (store_new (person_data_default y) h)) = (ps', h')"
    and "ps = \<lparr>p2_pimpl = next_addr h\<rparr> # ps'"
    using Cons.prems by (auto simp: store_new_def split: prod.splits)
  moreover from persons2_construct_frame [OF ps, of "next_addr h"]
  have "cells h' (next_addr h) = Some (person_data_default y)" by (simp add: store_new_def)
  ultimately show ?case using Cons.IH [OF ps] by simp
qed simp

lemma persons3_construct_years:
  "persons3_construct ys h = (ps, h') \<Longrightarrow> map p3_year_of_birth ps = ys"
  by (induction ys arbitrary: h ps) (auto split: prod.splits)

text \<open>C28: for every list of drawn years, the three benchmarks of Guideline 29 find the
  same person, the first one with the smallest year of birth: moving data members
  behind a pointer (completely or partly) changes where the year is read from, never
  which person \<open>std::min_element\<close> returns.\<close>

theorem oldest_person_layouts_agree:
  "oldest_person1 ys = Inr (if ys = [] then 0 else min_index_from ys 0 1)
   \<and> oldest_person2 ys = oldest_person1 ys \<and> oldest_person3 ys = oldest_person1 ys"
proof -
  have one: "oldest_person1 ys = Inr (if ys = [] then 0 else min_index_from ys 0 1)"
    using min_element_pure [of "map person_data_default ys" "\<lambda>p. Inr (pd_year_of_birth p)" pd_year_of_birth]
    by (simp add: oldest_person1_def person_data_default_def comp_def)
  obtain ps h where c2: "persons2_construct ys empty_store = (ps, h)" by fastforce
  note cs = persons2_construct_cells [OF c2]
  define g where "g (p :: person2) = pd_year_of_birth (the (cells h (p2_pimpl p)))" for p
  have live: "\<exists>d. cells h (p2_pimpl p) = Some d" if "p \<in> set ps" for p
  proof -
    from that have "cells h (p2_pimpl p) \<in> set (map (\<lambda>p. cells h (p2_pimpl p)) ps)" by simp
    with cs show ?thesis by auto
  qed
  have key: "\<forall>p \<in> set ps. bind_result (deref h (Some (p2_pimpl p))) (\<lambda>d. Inr (pd_year_of_birth d)) = Inr (g p)"
  proof
    fix p assume "p \<in> set ps"
    with live obtain d where "cells h (p2_pimpl p) = Some d" by blast
    then show "bind_result (deref h (Some (p2_pimpl p))) (\<lambda>d. Inr (pd_year_of_birth d)) = Inr (g p)"
      by (simp add: deref_def g_def)
  qed
  have "map g ps = map (\<lambda>c. pd_year_of_birth (the c)) (map (\<lambda>p. cells h (p2_pimpl p)) ps)"
    by (simp add: g_def)
  also have "\<dots> = ys" by (simp add: cs person_data_default_def comp_def)
  finally have gs: "map g ps = ys" .
  then have "ps = [] \<longleftrightarrow> ys = []" by auto
  with min_element_pure [OF key] gs c2 one have two: "oldest_person2 ys = oldest_person1 ys"
    by (simp add: oldest_person2_def)
  obtain qs h3 where c3: "persons3_construct ys empty_store = (qs, h3)" by fastforce
  from persons3_construct_years [OF c3] have "map p3_year_of_birth qs = ys" .
  moreover from this have "qs = [] \<longleftrightarrow> ys = []" by auto
  ultimately have "oldest_person3 ys = oldest_person1 ys"
    using min_element_pure [of qs "\<lambda>p. Inr (p3_year_of_birth p)" p3_year_of_birth] c3 one
    by (simp add: oldest_person3_def)
  with one two show ?thesis by simp
qed

end
