(* ===== verification/Template_Method.thy ===== *)
theory Template_Method
  imports Prelude
begin

text \<open>
  \<open>src/TemplateMethod.cpp\<close>: \<open>CBuilder::build\<close> fixes the order of four steps that the
  derived builders \<open>CAndroidBuilder\<close> and \<open>CIOSBuilder\<close> implement by printing a line.
  The dynamic class of a builder is a datatype; a step prints the line it returns.
\<close>

datatype builder = CAndroidBuilder | CIOSBuilder

datatype build_step = Assemble | Lint | Test | Deploy

text \<open>The overriders of the four pure virtual functions.\<close>

fun step_output :: "builder \<Rightarrow> build_step \<Rightarrow> string" where
  "step_output CAndroidBuilder Assemble = ''Assemble codes for Android.''"
| "step_output CAndroidBuilder Lint = ''Lint codes for Android.''"
| "step_output CAndroidBuilder Test = ''Test codes for Android.''"
| "step_output CAndroidBuilder Deploy = ''Deploy codes for Android.''"
| "step_output CIOSBuilder Assemble = ''Assemble codes for IOS.''"
| "step_output CIOSBuilder Lint = ''lint codes for IOS.''"
| "step_output CIOSBuilder Test = ''Test codes for IOS.''"
| "step_output CIOSBuilder Deploy = ''Deploy codes for IOS.''"

text \<open>\<open>CBuilder::build\<close>: \<open>test(); lint(); assemble(); deploy();\<close>.\<close>

definition build_order :: "build_step list" where
  "build_order = [Test, Lint, Assemble, Deploy]"

definition build :: "builder \<Rightarrow> string list" where
  "build b = map (step_output b) build_order"

definition main_template :: "string list" where
  "main_template = build CAndroidBuilder @ build CIOSBuilder"

subsection \<open>Lemmas\<close>

text \<open>Every builder runs each step exactly once, testing first and deploying last: the
  template fixes the order, the derived classes only the lines.\<close>

lemma build_runs_each_step_once:
  "distinct build_order \<and> set build_order = UNIV \<and> hd build_order = Test \<and> last build_order = Deploy
   \<and> length (build b) = 4"
proof -
  have "set build_order = UNIV"
  proof
    show "UNIV \<subseteq> set build_order"
    proof
      fix s :: build_step show "s \<in> set build_order" by (cases s) (simp_all add: build_order_def)
    qed
  qed simp
  then show ?thesis by (simp add: build_order_def build_def)
qed

lemma main_template_value:
  "main_template = [''Test codes for Android.'', ''Lint codes for Android.'', ''Assemble codes for Android.'',
     ''Deploy codes for Android.'', ''Test codes for IOS.'', ''lint codes for IOS.'', ''Assemble codes for IOS.'',
     ''Deploy codes for IOS.'']"
  by (simp add: main_template_def build_def build_order_def)

end
