(* ===== verification/Memory_Resource.thy ===== *)
theory Memory_Resource
  imports Layout
begin

text \<open>
  Guideline 35, second example (\<open>src/G35_Decorator_2.cpp\<close>): \<open>CustomAllocator\<close>, a
  \<open>std::pmr::memory_resource\<close> that allocates with \<open>malloc\<close> and frees with \<open>free\<close>.
  The C heap is a record of live blocks with their sizes and the number of bytes still
  available; \<open>malloc\<close> returns null when the request does not fit. Memory resources are
  named by their identity (the address of the object) and their dynamic class.
  The standard \<open>pmr\<close> containers of \<open>main\<close> are library code and are not modelled.
\<close>

record c_heap =
  blocks :: "addr \<rightharpoonup> nat"
  next_block :: addr
  available :: nat

text \<open>\<open>malloc( bytes )\<close> and \<open>free( ptr )\<close>; freeing a pointer that is not a live block is
  undefined behaviour.\<close>

definition malloc :: "nat \<Rightarrow> c_heap \<Rightarrow> addr option \<times> c_heap" where
  "malloc bytes h =
     (if bytes \<le> available h
      then (Some (next_block h), h\<lparr>blocks := (blocks h)(next_block h \<mapsto> bytes),
              next_block := Suc (next_block h), available := available h - bytes\<rparr>)
      else (None, h))"

definition free :: "addr \<Rightarrow> c_heap \<Rightarrow> c_heap result" where
  "free p h =
     (case blocks h p of
        None \<Rightarrow> Inl Dangling
      | Some n \<Rightarrow> Inr (h\<lparr>blocks := (blocks h)(p := None), available := available h + n\<rparr>))"

datatype memory_resource = CustomAllocator addr "addr option" | NewDeleteResource

text \<open>\<open>do_allocate\<close> ignores the alignment and returns what \<open>malloc\<close> returns, null
  included; \<open>do_deallocate\<close> ignores size and alignment.\<close>

definition custom_do_allocate :: "nat \<Rightarrow> nat \<Rightarrow> c_heap \<Rightarrow> addr option \<times> c_heap" where
  "custom_do_allocate bytes alignment h = malloc bytes h"

definition custom_do_deallocate :: "addr \<Rightarrow> nat \<Rightarrow> nat \<Rightarrow> c_heap \<Rightarrow> c_heap result" where
  "custom_do_deallocate ptr bytes alignment h = free ptr h"

text \<open>\<open>do_is_equal\<close>: the same object, or any other \<open>CustomAllocator\<close>.\<close>

fun is_custom_allocator :: "memory_resource \<Rightarrow> bool" where
  "is_custom_allocator (CustomAllocator a u) = True"
| "is_custom_allocator NewDeleteResource = False"

definition custom_do_is_equal :: "memory_resource \<Rightarrow> memory_resource \<Rightarrow> bool" where
  "custom_do_is_equal this other \<longleftrightarrow> this = other \<or> is_custom_allocator other"

definition c_heap_wf :: "c_heap \<Rightarrow> bool" where
  "c_heap_wf h \<longleftrightarrow> (\<forall>a \<in> dom (blocks h). a < next_block h)"

text \<open>\<open>std::pmr::memory_resource::allocate\<close> promises memory or a thrown \<open>std::bad_alloc\<close>;
  this is what \<open>CustomAllocator\<close> owes its callers.\<close>

definition allocate_contract :: "addr option \<times> c_heap \<Rightarrow> bool" where
  "allocate_contract r \<longleftrightarrow> fst r \<noteq> None"

subsection \<open>The buffer resource and the containers of \<open>main\<close>\<close>

text \<open>\<open>std::pmr::monotonic_buffer_resource\<close> is library code, modelled from the standard
  and the libstdc++ implementation: it hands out consecutive, aligned pieces of its
  current chunk; when a request does not fit it asks its upstream resource for a new
  chunk (\<open>_M_new_buffer\<close>): of \<open>n = max( bytes, next size )\<close> usable bytes, where the
  next size starts at \<open>128 * sizeof(void*)\<close> and grows by the factor 1.5 after each new
  chunk. The upstream request (\<open>_Chunk::allocate\<close>) adds room for the \<open>_Chunk\<close>
  record kept at the end of the block (its size, its alignment and the link to the
  previous chunk, 24 bytes) and rounds up to a multiple of 64, with the alignment
  raised to \<open>alignof(max_align_t)\<close>. The chunks go back upstream only when the
  resource is destroyed; \<open>deallocate\<close> does nothing. A pointer it hands out is a chunk and an offset. In \<open>main\<close> the upstream is
  the \<open>CustomAllocator\<close>, so chunks come from \<open>malloc\<close>; if \<open>do_allocate\<close> returns
  null, the resource writes its bookkeeping through the null pointer.\<close>

type_synonym pmr_ptr = "addr \<times> nat"

record monotonic_buffer =
  mb_chunk :: "(addr \<times> nat) option"
  mb_used :: nat
  mb_next_size :: nat
  mb_chunks :: "(addr \<times> nat) list"

definition monotonic_construct :: monotonic_buffer where
  "monotonic_construct = \<lparr>mb_chunk = None, mb_used = 0, mb_next_size = 128 * 8, mb_chunks = []\<rparr>"

definition chunk_header_size :: nat where
  "chunk_header_size = 3 * 8"

definition monotonic_chunk_request :: "nat \<Rightarrow> nat" where
  "monotonic_chunk_request n = round_up (n + chunk_header_size) 64"

definition monotonic_fits :: "nat \<Rightarrow> nat \<Rightarrow> monotonic_buffer \<Rightarrow> bool" where
  "monotonic_fits bytes alignment mb \<longleftrightarrow>
     (case mb_chunk mb of None \<Rightarrow> False | Some (b, n) \<Rightarrow> round_up (mb_used mb) alignment + bytes \<le> n)"

definition monotonic_allocate ::
  "nat \<Rightarrow> nat \<Rightarrow> monotonic_buffer \<Rightarrow> c_heap \<Rightarrow> (pmr_ptr \<times> monotonic_buffer \<times> c_heap) result" where
  "monotonic_allocate bytes alignment mb h =
     (if monotonic_fits bytes alignment mb
      then (let b = fst (the (mb_chunk mb)); off = round_up (mb_used mb) alignment
            in Inr ((b, off), mb\<lparr>mb_used := off + bytes\<rparr>, h))
      else (let n = max bytes (mb_next_size mb); r = monotonic_chunk_request n in
            case custom_do_allocate r (max alignment 16) h of
              (None, h') \<Rightarrow> Inl NullDeref
            | (Some b, h') \<Rightarrow> Inr ((b, 0), mb\<lparr>mb_chunk := Some (b, r - chunk_header_size), mb_used := bytes,
                                  mb_next_size := mb_next_size mb * 3 div 2, mb_chunks := (b, r) # mb_chunks mb\<rparr>, h')))"

definition monotonic_deallocate :: "pmr_ptr \<Rightarrow> nat \<Rightarrow> nat \<Rightarrow> monotonic_buffer \<Rightarrow> monotonic_buffer" where
  "monotonic_deallocate p bytes alignment mb = mb"

text \<open>The destructor releases every chunk to the upstream resource.\<close>

fun release_chunks :: "(addr \<times> nat) list \<Rightarrow> c_heap \<Rightarrow> c_heap result" where
  "release_chunks [] h = Inr h"
| "release_chunks ((b, n) # cs) h = bind_result (custom_do_deallocate b n 16 h) (release_chunks cs)"

definition monotonic_destroy :: "monotonic_buffer \<Rightarrow> c_heap \<Rightarrow> c_heap result" where
  "monotonic_destroy mb h = release_chunks (mb_chunks mb) h"

text \<open>\<open>std::pmr::vector<std::pmr::string>\<close> with the buffer as its resource (libstdc++ on
  x86-64: a \<open>pmr::string\<close> object has 40 bytes, keeps up to 15 characters inline and
  otherwise allocates \<open>length + 1\<close> bytes; the vector doubles its capacity, allocating
  the new array before it constructs the new element).\<close>

record pmr_vector =
  pv_elems :: "string list"
  pv_cap :: nat

definition pmr_string_construct :: "string \<Rightarrow> monotonic_buffer \<Rightarrow> c_heap \<Rightarrow> (monotonic_buffer \<times> c_heap) result" where
  "pmr_string_construct str mb h =
     (if length str \<le> 15 then Inr (mb, h)
      else bind_result (monotonic_allocate (length str + 1) 1 mb h) (\<lambda>(p, mb', h'). Inr (mb', h')))"

definition pmr_vector_emplace_back ::
  "string \<Rightarrow> pmr_vector \<Rightarrow> monotonic_buffer \<Rightarrow> c_heap \<Rightarrow> (pmr_vector \<times> monotonic_buffer \<times> c_heap) result" where
  "pmr_vector_emplace_back str v mb h =
     (if length (pv_elems v) < pv_cap v
      then bind_result (pmr_string_construct str mb h) (\<lambda>(mb', h'). Inr (v\<lparr>pv_elems := pv_elems v @ [str]\<rparr>, mb', h'))
      else (let cap = (if pv_cap v = 0 then 1 else 2 * pv_cap v) in
            bind_result (monotonic_allocate (cap * 40) 8 mb h) (\<lambda>(p, mb', h').
            bind_result (pmr_string_construct str mb' h') (\<lambda>(mb'', h'').
            Inr (\<lparr>pv_elems = pv_elems v @ [str], pv_cap = cap\<rparr>, mb'', h'')))))"

text \<open>\<open>main\<close>: the three strings are placed in the vector and printed; at the end of
  \<open>main\<close> the strings and the vector give their memory back to the buffer (which
  ignores it), and the buffer returns its chunks to the \<open>CustomAllocator\<close>.\<close>

definition main35_2 :: "c_heap \<Rightarrow> (string list \<times> c_heap) result" where
  "main35_2 h =
     (let mb = monotonic_construct; v = \<lparr>pv_elems = [], pv_cap = 0\<rparr> in
      bind_result (pmr_vector_emplace_back ''String longer than what SSO can handle'' v mb h) (\<lambda>(v1, mb1, h1).
      bind_result (pmr_vector_emplace_back ''Another long string that goes beyond SSO'' v1 mb1 h1) (\<lambda>(v2, mb2, h2).
      bind_result (pmr_vector_emplace_back ''A third long string that cannot be handled by SSO'' v2 mb2 h2) (\<lambda>(v3, mb3, h3).
      bind_result (monotonic_destroy mb3 h3) (\<lambda>h4. Inr (pv_elems v3, h4))))))"

text \<open>What the buffer owes the C heap: the heap is the start heap plus exactly the
  buffer's chunks, each a distinct new block, and the bytes they take are missing from
  what is available.\<close>

definition mb_inv :: "c_heap \<Rightarrow> monotonic_buffer \<Rightarrow> c_heap \<Rightarrow> bool" where
  "mb_inv h0 mb h \<longleftrightarrow> c_heap_wf h \<and> blocks h = blocks h0 ++ map_of (mb_chunks mb)
     \<and> distinct (map fst (mb_chunks mb)) \<and> (\<forall>b \<in> fst ` set (mb_chunks mb). b \<notin> dom (blocks h0))
     \<and> available h + sum_list (map snd (mb_chunks mb)) = available h0"

subsection \<open>Lemmas\<close>

text \<open>Comparing equal is an equivalence on \<open>CustomAllocator\<close> objects, and it is sound:
  a block allocated through one of them can be deallocated through any that compares
  equal, since all of them use the one C heap and deallocation restores it.\<close>

lemma custom_do_is_equal_equiv:
  "is_custom_allocator a \<Longrightarrow> custom_do_is_equal a a
     \<and> (custom_do_is_equal a b \<longrightarrow> custom_do_is_equal b a)
     \<and> (custom_do_is_equal a b \<longrightarrow> custom_do_is_equal b c \<longrightarrow> custom_do_is_equal a c)"
  by (cases b; cases c) (auto simp: custom_do_is_equal_def)

lemma custom_deallocate_after_allocate:
  assumes "c_heap_wf h" and "custom_do_allocate n al h = (Some p, h')"
  shows "\<exists>h''. custom_do_deallocate p n al' h' = Inr h'' \<and> blocks h'' = blocks h \<and> available h'' = available h"
proof -
  from assms(1) have "blocks h (next_block h) = None" by (auto simp: c_heap_wf_def)
  with assms(2) show ?thesis
    by (auto simp: custom_do_allocate_def custom_do_deallocate_def malloc_def free_def fun_upd_idem split: if_splits)
qed

text \<open>When the request does not fit, \<open>do_allocate\<close> returns null instead of throwing:
  the contract of \<open>memory_resource::allocate\<close> is broken.\<close>

lemma custom_allocate_null:
  "available h < n \<Longrightarrow> custom_do_allocate n al h = (None, h) \<and> \<not> allocate_contract (custom_do_allocate n al h)"
  by (simp add: custom_do_allocate_def malloc_def allocate_contract_def)

subsection \<open>The buffer over the \<open>CustomAllocator\<close>\<close>

lemma mb_inv_construct: "c_heap_wf h \<Longrightarrow> mb_inv h monotonic_construct h"
  by (simp add: mb_inv_def monotonic_construct_def)

lemma monotonic_allocate_inv:
  assumes "mb_inv h0 mb h" and "monotonic_allocate bytes al mb h = Inr (p, mb', h')"
  shows "mb_inv h0 mb' h'"
proof (cases "monotonic_fits bytes al mb")
  case True
  with assms show ?thesis by (auto simp: monotonic_allocate_def Let_def mb_inv_def)
next
  case False
  let ?n = "monotonic_chunk_request (max bytes (mb_next_size mb))" and ?b = "next_block h"
  from False assms(2) have fit: "?n \<le> available h" and p: "p = (?b, 0)"
    and mb': "mb_chunks mb' = (?b, ?n) # mb_chunks mb"
    and h': "h' = h\<lparr>blocks := (blocks h)(?b \<mapsto> ?n), next_block := Suc ?b, available := available h - ?n\<rparr>"
    by (auto simp: monotonic_allocate_def custom_do_allocate_def malloc_def Let_def split: if_splits)
  from assms(1) have wf: "c_heap_wf h" and bl: "blocks h = blocks h0 ++ map_of (mb_chunks mb)"
    by (simp_all add: mb_inv_def)
  then have fresh: "blocks h ?b = None" by (auto simp: c_heap_wf_def)
  then have "?b \<notin> fst ` set (mb_chunks mb)" and "?b \<notin> dom (blocks h0)"
    using bl by (auto simp: map_add_None map_of_eq_None_iff)
  moreover from wf have "c_heap_wf h'" unfolding c_heap_wf_def h' by (auto simp: less_SucI domI)
  moreover from bl have "blocks h' = blocks h0 ++ map_of (mb_chunks mb')" by (simp add: h' mb')
  ultimately show ?thesis using assms(1) fit by (auto simp: mb_inv_def mb' h')
qed

lemma release_chunks_restores:
  "blocks h = blocks h0 ++ map_of cs \<Longrightarrow> distinct (map fst cs) \<Longrightarrow> \<forall>b \<in> fst ` set cs. b \<notin> dom (blocks h0)
   \<Longrightarrow> available h + sum_list (map snd cs) = available h0
   \<Longrightarrow> \<exists>h'. release_chunks cs h = Inr h' \<and> blocks h' = blocks h0 \<and> available h' = available h0"
proof (induction cs arbitrary: h)
  case Nil
  then show ?case by simp
next
  case (Cons c cs)
  obtain b n where c: "c = (b, n)" by fastforce
  let ?h = "h\<lparr>blocks := (blocks h)(b := None), available := available h + n\<rparr>"
  from Cons.prems c have "blocks h b = Some n" by simp
  then have "custom_do_deallocate b n 16 h = Inr ?h" by (simp add: custom_do_deallocate_def free_def)
  moreover have "blocks ?h = blocks h0 ++ map_of cs"
  proof
    fix x
    from Cons.prems c have "blocks h0 b = None" "map_of cs b = None"
      by (auto simp: map_of_eq_None_iff)
    with Cons.prems(1) c show "blocks ?h x = (blocks h0 ++ map_of cs) x"
      by (auto simp: map_add_def split: option.splits)
  qed
  moreover from Cons.IH [OF this] Cons.prems c
  have "\<exists>h'. release_chunks cs ?h = Inr h' \<and> blocks h' = blocks h0 \<and> available h' = available h0" by simp
  ultimately show ?case using c by auto
qed

lemma monotonic_destroy_restores:
  "mb_inv h0 mb h \<Longrightarrow> \<exists>h'. monotonic_destroy mb h = Inr h' \<and> blocks h' = blocks h0 \<and> available h' = available h0"
  unfolding mb_inv_def monotonic_destroy_def by (blast intro: release_chunks_restores)

lemma pmr_string_construct_inv:
  "mb_inv h0 mb h \<Longrightarrow> pmr_string_construct str mb h = Inr (mb', h') \<Longrightarrow> mb_inv h0 mb' h'"
  by (auto simp: pmr_string_construct_def bind_result_eq_Inr split: if_splits intro: monotonic_allocate_inv)

lemma pmr_vector_emplace_back_inv:
  "mb_inv h0 mb h \<Longrightarrow> pmr_vector_emplace_back str v mb h = Inr (v', mb', h') \<Longrightarrow> mb_inv h0 mb' h'"
  by (auto simp: pmr_vector_emplace_back_def bind_result_eq_Inr Let_def split: if_splits
      intro: monotonic_allocate_inv pmr_string_construct_inv)

lemma main35_2_heap:
  assumes "c_heap_wf h" and "main35_2 h = Inr (strs, h')"
  shows "blocks h' = blocks h \<and> available h' = available h"
proof -
  from assms(2) obtain v1 mb1 h1 v2 mb2 h2 v3 mb3 h3 where
    e1: "pmr_vector_emplace_back ''String longer than what SSO can handle'' \<lparr>pv_elems = [], pv_cap = 0\<rparr> monotonic_construct h = Inr (v1, mb1, h1)"
    and e2: "pmr_vector_emplace_back ''Another long string that goes beyond SSO'' v1 mb1 h1 = Inr (v2, mb2, h2)"
    and e3: "pmr_vector_emplace_back ''A third long string that cannot be handled by SSO'' v2 mb2 h2 = Inr (v3, mb3, h3)"
    and d: "monotonic_destroy mb3 h3 = Inr h'"
    by (auto simp: main35_2_def bind_result_eq_Inr Let_def)
  from mb_inv_construct [OF assms(1)] e1 e2 e3 have "mb_inv h mb3 h3"
    by (blast intro: pmr_vector_emplace_back_inv)
  from monotonic_destroy_restores [OF this] d show ?thesis by auto
qed

lemmas main35_2_unfold = main35_2_def pmr_vector_emplace_back_def pmr_string_construct_def
  monotonic_allocate_def monotonic_construct_def monotonic_fits_def custom_do_allocate_def malloc_def
  monotonic_chunk_request_def chunk_header_size_def round_up_def Let_def

text \<open>The first chunk \<open>main\<close> needs: 1024 usable bytes, an upstream request of 1088.\<close>

lemma first_chunk_request: "monotonic_chunk_request (mb_next_size monotonic_construct) = 1088"
  by (simp add: monotonic_chunk_request_def chunk_header_size_def monotonic_construct_def round_up_def)

lemma main35_2_null:
  "available h < monotonic_chunk_request (mb_next_size monotonic_construct) \<Longrightarrow> main35_2 h = Inl NullDeref"
  by (simp add: first_chunk_request) (simp add: main35_2_unfold)

lemma main35_2_ok:
  assumes "c_heap_wf h" and "monotonic_chunk_request (mb_next_size monotonic_construct) \<le> available h"
  shows "\<exists>h'. main35_2 h = Inr ([''String longer than what SSO can handle'',
     ''Another long string that goes beyond SSO'', ''A third long string that cannot be handled by SSO''], h')"
proof -
  from assms(1) have "blocks h (next_block h) = None" by (auto simp: c_heap_wf_def)
  with assms(2) show ?thesis
    by (simp add: first_chunk_request) (simp add: main35_2_unfold monotonic_destroy_def custom_do_deallocate_def free_def)
qed

subsection \<open>The program: the allocator under the buffer\<close>

text \<open>C23: \<open>main\<close> composes the \<open>CustomAllocator\<close> with the buffer resource and the
  containers. From any well-formed C heap: when \<open>malloc\<close> can provide the buffer's
  first upstream request (1024 usable bytes with the \<open>_Chunk\<close> record, rounded up),
  \<open>main\<close> stores and prints the three strings and, at its end, every block it took from
  the C heap is freed and every byte is available again; when it cannot,
  \<open>do_allocate\<close> returns null and the buffer uses it as its chunk.\<close>

theorem custom_allocator_main:
  assumes "c_heap_wf h"
  shows "(monotonic_chunk_request (mb_next_size monotonic_construct) \<le> available h \<longrightarrow> (\<exists>h'. main35_2 h = Inr ([''String longer than what SSO can handle'',
            ''Another long string that goes beyond SSO'', ''A third long string that cannot be handled by SSO''], h')
          \<and> blocks h' = blocks h \<and> available h' = available h))
     \<and> (available h < monotonic_chunk_request (mb_next_size monotonic_construct) \<longrightarrow> main35_2 h = Inl NullDeref)"
  using main35_2_ok [OF assms] main35_2_heap [OF assms] main35_2_null by auto

theorem custom_allocator_main_witness:
  "c_heap_wf \<lparr>blocks = Map.empty, next_block = 0, available = 5000\<rparr>
   \<and> main35_2 \<lparr>blocks = Map.empty, next_block = 0, available = 5000\<rparr>
       = Inr ([''String longer than what SSO can handle'', ''Another long string that goes beyond SSO'',
               ''A third long string that cannot be handled by SSO''],
              \<lparr>blocks = Map.empty, next_block = 1, available = 5000\<rparr>)"
proof -
  have wf: "c_heap_wf \<lparr>blocks = Map.empty, next_block = 0, available = 5000\<rparr>" by (simp add: c_heap_wf_def)
  have "main35_2 \<lparr>blocks = Map.empty, next_block = 0, available = 5000\<rparr>
       = Inr ([''String longer than what SSO can handle'', ''Another long string that goes beyond SSO'',
               ''A third long string that cannot be handled by SSO''],
              \<lparr>blocks = Map.empty, next_block = 1, available = 5000\<rparr>)"
    by (simp add: main35_2_unfold monotonic_destroy_def custom_do_deallocate_def free_def)
  with custom_allocator_main [OF wf] wf show ?thesis by simp
qed

end
