(* ===== verification/Spec2Isabelle.thy ===== *)
theory Spec2Isabelle
  imports Type_Erasure Small_Buffer Non_Owning Manual_Dispatch Command Strategy Observer_Notify Decorator Value_Semantics Singleton Prototype Strong_Type Dense_Concept Bridge
    Template_Method Memory_Resource
begin

text \<open>
  Verification library for the examples of \<open>C++ Software Design\<close> in \<open>src/\<close>, centred
  on the "Capability Box" of \<open>spec.md\<close> (the type-erasure wrappers of Guidelines 32 to
  34) and extended to the design patterns the other example files implement.

  \<^bold>\<open>The program.\<close> Each file of \<open>src/\<close> is a self-contained program with its own
  \<open>main\<close>. The type-erasure files share the value types \<open>Circle\<close> and \<open>Square\<close> and an
  erasing wrapper \<open>Shape\<close> that stores any value together with a draw strategy; they
  differ in where the erased model lives: on the heap behind a \<open>std::unique_ptr\<close>
  (\<open>G32_Type_Erasure.cpp\<close>), inline in a byte buffer
  (\<open>G33_Small_Buffer_Optimization.cpp\<close>), on the heap with hand-written function
  pointers (\<open>G33_Manual_Virtual_Dispatch.cpp\<close>), or nowhere: a non-owning reference
  (\<open>G34_Non_Owning_Type_Erasure_*.cpp\<close>). The other files implement visitors (G15 to
  G18), strategies (G19, G23), a command with undo (G21), observers (G25) and
  decorators (G35, G36), two programs about value semantics (G22), a singleton with
  dependency injection (G38), a prototype (G30), strong types (G27), external
  polymorphism (G31), CRTP vectors (G26), Bridge and Pimpl (G28, G29), a template
  method and a custom memory resource.

  \<^bold>\<open>Theories.\<close>
  \<^item> \<open>Prelude\<close>: addresses, the \<open>fault\<close> type of undefined behaviour, exceptions and failed
    assertions, results \<open>fault + 'a\<close> with \<open>bind_result\<close>, an explicit free store (cells,
    next address, counters of \<open>new\<close> and \<open>delete\<close>), the ownership invariant \<open>owns\<close>, and
    the 32-bit \<open>int\<close> with checked signed addition, subtraction and multiplication.
  \<^item> \<open>Shapes\<close>: \<open>Circle\<close>, \<open>Square\<close> and the drawing lambda of the drivers.
  \<^item> \<open>Layout\<close>: \<open>sizeof\<close>/\<open>alignof\<close> of classes by the Itanium C++ ABI rules, for the
    \<open>static_assert\<close>s of the small-buffer and non-owning wrappers.
  \<^item> \<open>Box_Spec\<close>: the abstract value contract (\<open>box_step\<close>, \<open>box_run\<close>) over scripts of
    construction, copy and move construction, copy and move assignment, \<open>draw\<close> and
    destruction; \<open>script_run\<close> runs any implementation's step function over a script,
    and \<open>script_run_refines\<close> turns a one-step simulation into a whole-script
    refinement: the interface every wrapper discharges.
  \<^item> \<open>Type_Erasure\<close> (G32): \<open>Shape\<close> as \<open>heap_shape\<close> (its \<open>pimpl_\<close>), one definition per
    member function (\<open>shape_construct\<close>, \<open>shape_copy\<close>, \<open>shape_copy_assign\<close>,
    \<open>shape_move\<close>, \<open>shape_move_assign\<close>, \<open>shape_destroy\<close>, \<open>shape_draw\<close>), \<open>heap_step\<close>,
    \<open>main32\<close>, and the simulation invariant \<open>heap_rel\<close>.
  \<^item> \<open>Small_Buffer\<close> (G33): the buffer contents (\<open>Raw\<close>, \<open>Live\<close>, \<open>Relocated\<close>), the member
    functions (\<open>sbo_construct\<close> with both \<open>static_assert\<close>s, \<open>sbo_copy\<close>, \<open>sbo_move\<close>, ...),
    \<open>sbo_step\<close>, \<open>main33\<close>; a ghost store of model lifetimes counts
    \<open>std::construct_at\<close> and \<open>std::destroy_at\<close>, and \<open>sbo_rel\<close> reuses \<open>owns\<close> for it.
  \<^item> \<open>Manual_Dispatch\<close> (G33): \<open>mvd_shape\<close> with its deleter, \<open>draw_\<close> and \<open>clone_\<close> function
    pointers, the member functions, and the abstraction \<open>mvd_abs\<close> to the G32 wrapper.
  \<^item> \<open>Non_Owning\<close> (G34): memory of typed objects addressed by whole object or member;
    part 1 (\<open>ref1_*\<close>, two \<open>void*\<close> and a thunk) and part 2 (\<open>NonOwningShapeModel\<close> in a
    buffer, \<open>ref_*\<close>, and the owning \<open>shape34_*\<close> with the conversions both ways).
  \<^item> \<open>Command\<close> (G21): commands on a 32-bit \<open>int\<close>, the calculator and its undo stack.
  \<^item> \<open>Visitors\<close> (G15 to G18, G17 variant demo): the type-tag switch with
    \<open>static_cast\<close>, the cyclic visitor, \<open>std::visit\<close>, and the acyclic visitor with its
    \<open>dynamic_cast\<close>.
  \<^item> \<open>Strategy\<close> (G19, G23): the deep hierarchy, the classic strategy with a
    \<open>std::unique_ptr\<close> drawer, and the \<open>std::function\<close> drawer.
  \<^item> \<open>Observer\<close> (G25): \<open>Person\<close> with its observer set, the classic observer with raw
    pointers and the \<open>std::function\<close> observer.
  \<^item> \<open>Observer_Notify\<close> (G25): \<open>Person::notify\<close> as written, the \<open>std::set\<close> iterator
    advanced before \<open>update\<close> (\<open>notify_loop\<close>, a \<open>partial_function (option)\<close>), for
    observers whose \<open>update\<close> may detach observers; \<open>notify\<close> of \<open>Observer\<close> is what it
    computes when nobody detaches.
  \<^item> \<open>Decorator\<close> (G35, G36): \<open>Money\<close> as a 64-bit word with the truncating conversion of
    \<open>operator*\<close>, the validating classic decorators, the class-template decorators and
    the type-erased value decorators.
  \<^item> \<open>Value_Semantics\<close> (G22): vectors as buffers in the store with size and capacity,
    spans as pointer and size; \<open>std::max_element\<close>, \<open>std::find\<close> and \<open>std::remove\<close> as
    the index loops of the standard library, with the removed value read from the
    current vector so that a value passed by reference into the vector is modelled.
  \<^item> \<open>Singleton\<close> (G38): the global \<open>instance\<close> pointer, the one-time initializer of the
    getter's local statics and the count of \<open>Database\<close> constructions as a record; the
    reachable states of getter and setter calls as an inductive predicate.
  \<^item> \<open>Prototype\<close> (G30): \<open>Animal::clone\<close> over the free store.
  \<^item> \<open>Strong_Type\<close> (G27): \<open>StrongType\<close> with a phantom tag type and its CRTP skills at
    \<open>long\<close>; the skill lists of \<open>Meter\<close>, \<open>Kilometer\<close> and \<open>Surname\<close>, and the resolution
    of a call between a skill's hidden friend and the free function templates.
  \<^item> \<open>Dense_Vector\<close> (G26): the CRTP dense vectors, \<open>operator<<\<close> and \<open>l2norm\<close> with
    \<open>std::inner_product\<close> in checked \<open>int\<close> arithmetic.
  \<^item> \<open>Dense_Concept\<close> (G26, second file): the \<open>DenseVector\<close> concept and the
    \<open>IsDenseVector\<close> trait as predicates on a datatype of class types
    (\<open>vector_class\<close>, \<open>class_decl\<close>), and \<open>operator<<\<close> with its \<open>size_t\<close> loop kept as a
    \<open>while_option\<close> over a 64-bit counter (\<open>print_loop\<close>).
  \<^item> \<open>Bridge\<close> (G28, G29): \<open>Car\<close> and its engine, \<open>Person\<close> with a \<open>const\<close> pimpl,
    and the three person layouts of the benchmark with \<open>std::min_element\<close>.
  \<^item> \<open>Template_Method\<close> (\<open>TemplateMethod.cpp\<close>): the fixed build sequence of \<open>CBuilder\<close>.
  \<^item> \<open>Memory_Resource\<close> (G35, second example): \<open>CustomAllocator\<close> over a model of the C
    heap (\<open>malloc\<close>, \<open>free\<close>), and \<open>main\<close> with the library it calls modelled from the
    standard and libstdc++: \<open>monotonic_buffer_resource\<close> (\<open>monotonic_*\<close>), a
    \<open>pmr::vector\<close> of \<open>pmr::string\<close>s (\<open>pmr_*\<close>).
  \<^item> \<open>Strategy\<close> also holds the External Polymorphism \<open>ShapeModel\<close> of G31.

  \<^bold>\<open>What is proved.\<close> The three owning wrappers refine the contract on every
  contract-respecting script (same draw trace, no undefined behaviour); none leaks or
  releases a model twice; copies are deep; moved-from wrappers are destroy-only;
  copy-and-swap assignment is safe on self-assignment; the static assertions reject
  exactly the models that do not fit; the heap and small-buffer wrappers are
  equivalent (below) and the manual-dispatch wrapper runs in lockstep with the heap
  one. The non-owning reference round-trips with the owning wrapper and dangles once
  its owner is destroyed. The calculator keeps the
  invariant that its stack explains its value, and undoing once per stacked command
  always gets back to the initial calculator (a progress property). The
  visitor and strategy variants compute the same drawings; dangling observers are
  faults; \<open>notify\<close> ends for any observers, and an observer may
  detach itself from within \<open>update\<close> without harm, while detaching the next one leaves
  a dangling iterator. The three decorator designs compute the same prices,
  and only the classic one validates its rates. A span
  dangles after an assignment exactly when the vector reallocates; erase-remove is
  \<open>filter\<close> for a copied value, while the value passed by reference in G22 changes
  under \<open>std::remove\<close> and the wrong elements are removed. The singleton's \<open>Database\<close>
  is constructed at most once, and reads never fault unless null is injected. The
  three person layouts of G29 find the same oldest person. The \<open>size_t\<close> loop of the
  concept-based \<open>operator<<\<close> terminates for every vector and prints what the CRTP
  version prints. The G35 \<open>main\<close> frees every block it takes through
  \<open>CustomAllocator\<close>, or uses the null pointer \<open>do_allocate\<close> returns as its chunk
  when \<open>malloc\<close> cannot serve the buffer's first upstream request. Supporting lemmas
  (not claims) show that a reference made from a \<open>Shape\<close> draws through one
  indirection (the comments of G34 expect two), that the strategies of G19 and G23
  may be null or empty although their constructors' comments promise a check, that
  both vector templates satisfy \<open>DenseVector\<close> (one through a private tag base, which
  \<open>std::is_base_of\<close> accepts), that a model passing both \<open>static_assert\<close>s of G33 fits
  its members, that a prototype's clone is a fresh equal object, that strong types add
  exactly and fault on signed overflow, that every strong type prints and swaps whatever
  its skills, that \<open>l2norm\<close> is the Euclidean norm while the
  sum of squares fits an \<open>int\<close> and reads an indeterminate element of a partly
  initialised \<open>StaticVector\<close>, that a moved-from pimpl \<open>Person\<close> stays usable, that \<open>undoLast\<close> inverts
  \<open>compute\<close>, that \<open>attach\<close> and \<open>detach\<close> have set semantics, and that
  \<open>CustomAllocator\<close> returns null instead of throwing when \<open>malloc\<close> fails.

  \<^bold>\<open>Bounds.\<close> No fuel is used: every operation is a non-recursive function or
  recurses structurally on a finite list or term, the index loops of G22 and the
  \<open>std::min_element\<close> loop of G29 terminate by the measure \<open>length xs - i\<close>, the
  \<open>size_t\<close> loop of G26 is a \<open>while_option\<close> proved to stop by the measure
  \<open>unat size - unat i\<close> (the counter cannot wrap since it stays below \<open>size\<close>), the
  iterator loop of G25 is a \<open>partial_function (option)\<close> proved to return for every
  finite observer set by the number of observers at or above the iterator, and
  scripts and operation sequences are finite lists. The library constants of G35 are
  those of libstdc++ on x86-64: a first chunk of \<open>128 * sizeof(void*)\<close> = 1024 usable
  bytes, requested upstream with the 24-byte \<open>_Chunk\<close> record and rounded up to 64
  (1088 bytes), the next chunk size growing by 1.5; a 40-byte \<open>pmr::string\<close> with 15
  characters inline; vector capacity doubling.
  Layouts are those of x86-64 (pointers and \<open>double\<close> take 8 bytes); \<open>int\<close> has 32
  bits, \<open>long\<close> and \<open>uint64_t\<close> 64; \<open>double\<close> values are reals, so binary rounding is not
  modelled while the truncation of \<open>static_cast<uint64_t>\<close> is. For this reason no
  statement bounds a \<open>Money\<close> price: \<open>Money::operator*\<close> converts \<open>uint64_t\<close> to
  \<open>double\<close>, which rounds above \<open>2^53\<close>.

  \<^bold>\<open>Not modelled.\<close> Output (\<open>std::cout\<close>) and the bodies of the drawing functions,
  which only print; the byte representation of buffers (a buffer holds the object it
  holds, so \<open>buffer_.swap\<close> exchanges the objects); the timing harness of G29 (its
  drawn years are an input); of the \<open>pmr\<close> library behind the allocator of G35 only
  what \<open>main\<close> calls is modelled, and the addresses it hands out are chunk and offset
  rather than bytes; the \<open>Point center_\<close> member that the \<open>Circle\<close> and \<open>Square\<close>
  classes of several files carry (value-initialised, never set, never read by the
  drawing code); the random source of G29. Every example file
  is listed as a component of the manifest with its status.
\<close>

text \<open>Undefined behaviour aside, the two owning wrappers cannot be told apart: on every
  contract-respecting script with a fitting model they produce the same trace, and each
  variable holds the same value and strategy, or is moved-from, in both.\<close>

lemma heap_sbo_agree:
  assumes "heap_rel A E h" and "sbo_rel A E' L"
  shows "(E x = None \<longleftrightarrow> E' x = None)
       \<and> (E x = Some \<lparr>pimpl = None\<rparr> \<longleftrightarrow> (\<exists>i. E' x = Some \<lparr>buffer = Relocated i\<rparr>))
       \<and> ((\<exists>a. E x = Some \<lparr>pimpl = Some a\<rparr> \<and> cells h a = Some (OwningShapeModel v d))
            \<longleftrightarrow> (\<exists>i. E' x = Some \<lparr>buffer = Live i (OwningModel v d)\<rparr>))"
  using heap_rel_var [OF assms(1), of x] sbo_rel_var [OF assms(2), of x]
  by (cases "A x" rule: option.exhaust; cases "the (A x)") auto

text \<open>C9: the heap-backed wrapper of Guideline 32 and the small-buffer wrapper of
  Guideline 33 are interchangeable: on every contract-respecting script whose model fits
  the buffer, both run without undefined behaviour, draw the same trace, and end with
  every variable in corresponding states (absent, moved-from, or holding the same shape
  and the same draw strategy).\<close>

theorem heap_sbo_equivalent:
  assumes "sbo_fits C Al ls ld" and "box_run Map.empty ps = Some (A, t)"
  shows "\<exists>E h E' L. script_run heap_step (Map.empty, empty_store) ps = Inr ((E, h), t)
           \<and> script_run (sbo_step C Al ls ld) (Map.empty, empty_store) ps = Inr ((E', L), t)
           \<and> (\<forall>x. (E x = None \<longleftrightarrow> E' x = None)
                  \<and> (E x = Some \<lparr>pimpl = None\<rparr> \<longleftrightarrow> (\<exists>i. E' x = Some \<lparr>buffer = Relocated i\<rparr>))
                  \<and> (\<forall>v d. (\<exists>a. E x = Some \<lparr>pimpl = Some a\<rparr> \<and> cells h a = Some (OwningShapeModel v d))
                            \<longleftrightarrow> (\<exists>i. E' x = Some \<lparr>buffer = Live i (OwningModel v d)\<rparr>)))"
proof -
  from heap_run_sim [OF assms(2) heap_rel_init] obtain E h where
    r1: "script_run heap_step (Map.empty, empty_store) ps = Inr ((E, h), t)" and h: "heap_rel A E h" by blast
  from sbo_run_sim [OF assms(2) sbo_rel_init assms(1)] obtain E' L where
    r2: "script_run (sbo_step C Al ls ld) (Map.empty, empty_store) ps = Inr ((E', L), t)" and s: "sbo_rel A E' L"
    by blast
  from r1 r2 heap_sbo_agree [OF h s] show ?thesis by blast
qed

theorem heap_sbo_equivalent_witness:
  "script_run heap_step (Map.empty, empty_store) main33 =
     Inr ((Map.empty, empty_store\<lparr>next_addr := 2, news := 2, deletes := 2\<rparr>), [''drawn'', ''drawn''])
   \<and> script_run sbo_main_step (Map.empty, empty_store) main33 =
     Inr ((Map.empty, empty_store\<lparr>next_addr := 2, news := 2, deletes := 2\<rparr>), [''drawn'', ''drawn''])"
proof -
  from heap_sbo_equivalent [OF main33_fits main33_box_run] obtain E h E' L where
    "script_run heap_step (Map.empty, empty_store) main33 = Inr ((E, h), [''drawn'', ''drawn''])"
    "script_run sbo_main_step (Map.empty, empty_store) main33 = Inr ((E', L), [''drawn'', ''drawn''])"
    by blast
  moreover have "main33 = main32" by (simp add: main33_def main32_def)
  ultimately show ?thesis using main32_heap_run main33_sbo_run by simp
qed

end
